theory Spec2Isabelle
  imports Complex_Main
begin

section \<open>Pre3d: vector and matrix mathematics\<close>

text \<open>
  In the vector and matrix mathematics, in the shapes and in the paths, JavaScript
  numbers are modelled as real numbers: the statements about them are about the
  arithmetic the code writes down, not about the rounding of IEEE doubles. The renderer,
  whose decisions depend on the rounding, computes with doubles; they are introduced
  before it. Points are
  the object literals \<open>{x, y, z}\<close> and \<open>{x, y}\<close> of the source; their
  fields are called \<open>px\<close>, \<open>py\<close>, \<open>pz\<close> (and \<open>qx\<close>, \<open>qy\<close> in two dimensions).
\<close>

record vec3 =
  px :: real
  py :: real
  pz :: real

record vec2 =
  qx :: real
  qy :: real

definition crossProduct :: "vec3 \<Rightarrow> vec3 \<Rightarrow> vec3" where
  "crossProduct a b =
     \<lparr> px = py a * pz b - pz a * py b,
       py = pz a * px b - px a * pz b,
       pz = px a * py b - py a * px b \<rparr>"

definition dotProduct3d :: "vec3 \<Rightarrow> vec3 \<Rightarrow> real" where
  "dotProduct3d a b = px a * px b + py a * py b + pz a * pz b"

definition subPoints3d :: "vec3 \<Rightarrow> vec3 \<Rightarrow> vec3" where
  "subPoints3d a b = \<lparr> px = px a - px b, py = py a - py b, pz = pz a - pz b \<rparr>"

definition addPoints3d :: "vec3 \<Rightarrow> vec3 \<Rightarrow> vec3" where
  "addPoints3d a b = \<lparr> px = px a + px b, py = py a + py b, pz = pz a + pz b \<rparr>"

definition mulPoint3d :: "vec3 \<Rightarrow> real \<Rightarrow> vec3" where
  "mulPoint3d a s = \<lparr> px = px a * s, py = py a * s, pz = pz a * s \<rparr>"

definition vecMag3d :: "vec3 \<Rightarrow> real" where
  "vecMag3d a = sqrt (px a * px a + py a * py a + pz a * pz a)"

text \<open>
  \<open>unitVector3d\<close> divides by the magnitude. For the zero vector JavaScript yields
  non-finite components; the real-number model has \<open>1 / 0 = 0\<close> and yields the zero
  vector there.
\<close>

definition unitVector3d :: "vec3 \<Rightarrow> vec3" where
  "unitVector3d a = mulPoint3d a (1 / vecMag3d a)"

definition linearInterpolate :: "real \<Rightarrow> real \<Rightarrow> real \<Rightarrow> real" where
  "linearInterpolate a b d = (b - a) * d + a"

definition linearInterpolatePoints3d :: "vec3 \<Rightarrow> vec3 \<Rightarrow> real \<Rightarrow> vec3" where
  "linearInterpolatePoints3d a b d =
     \<lparr> px = (px b - px a) * d + px a,
       py = (py b - py a) * d + py a,
       pz = (pz b - pz a) * d + pz a \<rparr>"

text \<open>The affine 4x4 matrix, stored as 3x4 with the last row implied as [0, 0, 0, 1].\<close>

record AffineMatrix =
  e0 :: real
  e1 :: real
  e2 :: real
  e3 :: real
  e4 :: real
  e5 :: real
  e6 :: real
  e7 :: real
  e8 :: real
  e9 :: real
  e10 :: real
  e11 :: real

definition multiplyAffine :: "AffineMatrix \<Rightarrow> AffineMatrix \<Rightarrow> AffineMatrix" where
  "multiplyAffine a b =
     \<lparr> e0 = e0 a * e0 b + e1 a * e4 b + e2 a * e8 b,
       e1 = e0 a * e1 b + e1 a * e5 b + e2 a * e9 b,
       e2 = e0 a * e2 b + e1 a * e6 b + e2 a * e10 b,
       e3 = e0 a * e3 b + e1 a * e7 b + e2 a * e11 b + e3 a,
       e4 = e4 a * e0 b + e5 a * e4 b + e6 a * e8 b,
       e5 = e4 a * e1 b + e5 a * e5 b + e6 a * e9 b,
       e6 = e4 a * e2 b + e5 a * e6 b + e6 a * e10 b,
       e7 = e4 a * e3 b + e5 a * e7 b + e6 a * e11 b + e7 a,
       e8 = e8 a * e0 b + e9 a * e4 b + e10 a * e8 b,
       e9 = e8 a * e1 b + e9 a * e5 b + e10 a * e9 b,
       e10 = e8 a * e2 b + e9 a * e6 b + e10 a * e10 b,
       e11 = e8 a * e3 b + e9 a * e7 b + e10 a * e11 b + e11 a \<rparr>"

definition makeIdentityAffine :: AffineMatrix where
  "makeIdentityAffine =
     \<lparr> e0 = 1, e1 = 0, e2 = 0, e3 = 0,
       e4 = 0, e5 = 1, e6 = 0, e7 = 0,
       e8 = 0, e9 = 0, e10 = 1, e11 = 0 \<rparr>"

definition makeRotateAffineX :: "real \<Rightarrow> AffineMatrix" where
  "makeRotateAffineX theta =
     (let s = sin theta; c = cos theta in
      \<lparr> e0 = 1, e1 = 0, e2 = 0, e3 = 0,
        e4 = 0, e5 = c, e6 = - s, e7 = 0,
        e8 = 0, e9 = s, e10 = c, e11 = 0 \<rparr>)"

definition makeRotateAffineY :: "real \<Rightarrow> AffineMatrix" where
  "makeRotateAffineY theta =
     (let s = sin theta; c = cos theta in
      \<lparr> e0 = c, e1 = 0, e2 = s, e3 = 0,
        e4 = 0, e5 = 1, e6 = 0, e7 = 0,
        e8 = - s, e9 = 0, e10 = c, e11 = 0 \<rparr>)"

definition makeRotateAffineZ :: "real \<Rightarrow> AffineMatrix" where
  "makeRotateAffineZ theta =
     (let s = sin theta; c = cos theta in
      \<lparr> e0 = c, e1 = - s, e2 = 0, e3 = 0,
        e4 = s, e5 = c, e6 = 0, e7 = 0,
        e8 = 0, e9 = 0, e10 = 1, e11 = 0 \<rparr>)"

definition makeTranslateAffine :: "real \<Rightarrow> real \<Rightarrow> real \<Rightarrow> AffineMatrix" where
  "makeTranslateAffine dx dy dz =
     \<lparr> e0 = 1, e1 = 0, e2 = 0, e3 = dx,
       e4 = 0, e5 = 1, e6 = 0, e7 = dy,
       e8 = 0, e9 = 0, e10 = 1, e11 = dz \<rparr>"

definition makeScaleAffine :: "real \<Rightarrow> real \<Rightarrow> real \<Rightarrow> AffineMatrix" where
  "makeScaleAffine sx sy sz =
     \<lparr> e0 = sx, e1 = 0, e2 = 0, e3 = 0,
       e4 = 0, e5 = sy, e6 = 0, e7 = 0,
       e8 = 0, e9 = 0, e10 = sz, e11 = 0 \<rparr>"

definition dupAffine :: "AffineMatrix \<Rightarrow> AffineMatrix" where
  "dupAffine a =
     \<lparr> e0 = e0 a, e1 = e1 a, e2 = e2 a, e3 = e3 a,
       e4 = e4 a, e5 = e5 a, e6 = e6 a, e7 = e7 a,
       e8 = e8 a, e9 = e9 a, e10 = e10 a, e11 = e11 a \<rparr>"

definition transAdjoint :: "AffineMatrix \<Rightarrow> AffineMatrix" where
  "transAdjoint a =
     \<lparr> e0 = e10 a * e5 a - e6 a * e9 a,
       e1 = e6 a * e8 a - e4 a * e10 a,
       e2 = e4 a * e9 a - e8 a * e5 a,
       e3 = 0,
       e4 = e2 a * e9 a - e10 a * e1 a,
       e5 = e10 a * e0 a - e2 a * e8 a,
       e6 = e8 a * e1 a - e0 a * e9 a,
       e7 = 0,
       e8 = e6 a * e1 a - e2 a * e5 a,
       e9 = e4 a * e2 a - e6 a * e0 a,
       e10 = e0 a * e5 a - e4 a * e1 a,
       e11 = 0 \<rparr>"

definition transformPoint :: "AffineMatrix \<Rightarrow> vec3 \<Rightarrow> vec3" where
  "transformPoint t p =
     \<lparr> px = e0 t * px p + e1 t * py p + e2 t * pz p + e3 t,
       py = e4 t * px p + e5 t * py p + e6 t * pz p + e7 t,
       pz = e8 t * px p + e9 t * py p + e10 t * pz p + e11 t \<rparr>"

definition transformPoints :: "AffineMatrix \<Rightarrow> vec3 list \<Rightarrow> vec3 list" where
  "transformPoints t ps = map (transformPoint t) ps"

text \<open>
  \<open>averagePoints\<close> sums the points into an accumulator that starts at the origin and
  multiplies by \<open>1 / ps.length\<close>.
\<close>

definition averagePoints :: "vec3 list \<Rightarrow> vec3" where
  "averagePoints ps =
     mulPoint3d (foldl addPoints3d \<lparr> px = 0, py = 0, pz = 0 \<rparr> ps) (1 / real (length ps))"

subsection \<open>Transform: a wrapper around one AffineMatrix\<close>

text \<open>The field \<open>m\<close> of the source's Transform is called \<open>mat\<close> here.\<close>

record Transform =
  mat :: AffineMatrix

definition Transform_new :: Transform where
  "Transform_new = \<lparr> mat = makeIdentityAffine \<rparr>"

definition reset :: "Transform \<Rightarrow> Transform" where
  "reset T = T\<lparr> mat := makeIdentityAffine \<rparr>"

definition rotateX :: "Transform \<Rightarrow> real \<Rightarrow> Transform" where
  "rotateX T theta = T\<lparr> mat := multiplyAffine (makeRotateAffineX theta) (mat T) \<rparr>"

definition rotateXPre :: "Transform \<Rightarrow> real \<Rightarrow> Transform" where
  "rotateXPre T theta = T\<lparr> mat := multiplyAffine (mat T) (makeRotateAffineX theta) \<rparr>"

definition rotateY :: "Transform \<Rightarrow> real \<Rightarrow> Transform" where
  "rotateY T theta = T\<lparr> mat := multiplyAffine (makeRotateAffineY theta) (mat T) \<rparr>"

definition rotateYPre :: "Transform \<Rightarrow> real \<Rightarrow> Transform" where
  "rotateYPre T theta = T\<lparr> mat := multiplyAffine (mat T) (makeRotateAffineY theta) \<rparr>"

definition rotateZ :: "Transform \<Rightarrow> real \<Rightarrow> Transform" where
  "rotateZ T theta = T\<lparr> mat := multiplyAffine (makeRotateAffineZ theta) (mat T) \<rparr>"

definition rotateZPre :: "Transform \<Rightarrow> real \<Rightarrow> Transform" where
  "rotateZPre T theta = T\<lparr> mat := multiplyAffine (mat T) (makeRotateAffineZ theta) \<rparr>"

definition translate :: "Transform \<Rightarrow> real \<Rightarrow> real \<Rightarrow> real \<Rightarrow> Transform" where
  "translate T dx dy dz = T\<lparr> mat := multiplyAffine (makeTranslateAffine dx dy dz) (mat T) \<rparr>"

definition translatePre :: "Transform \<Rightarrow> real \<Rightarrow> real \<Rightarrow> real \<Rightarrow> Transform" where
  "translatePre T dx dy dz = T\<lparr> mat := multiplyAffine (mat T) (makeTranslateAffine dx dy dz) \<rparr>"

definition scale :: "Transform \<Rightarrow> real \<Rightarrow> real \<Rightarrow> real \<Rightarrow> Transform" where
  "scale T sx sy sz = T\<lparr> mat := multiplyAffine (makeScaleAffine sx sy sz) (mat T) \<rparr>"

definition scalePre :: "Transform \<Rightarrow> real \<Rightarrow> real \<Rightarrow> real \<Rightarrow> Transform" where
  "scalePre T sx sy sz = T\<lparr> mat := multiplyAffine (mat T) (makeScaleAffine sx sy sz) \<rparr>"

definition Transform_transformPoint :: "Transform \<Rightarrow> vec3 \<Rightarrow> vec3" where
  "Transform_transformPoint T p = transformPoint (mat T) p"

definition multTransform :: "Transform \<Rightarrow> Transform \<Rightarrow> Transform" where
  "multTransform T t = T\<lparr> mat := multiplyAffine (mat T) (mat t) \<rparr>"

definition setDCM :: "Transform \<Rightarrow> vec3 \<Rightarrow> vec3 \<Rightarrow> vec3 \<Rightarrow> Transform" where
  "setDCM T u v w =
     T\<lparr> mat := (mat T)\<lparr> e0 := px u, e4 := py u, e8 := pz u,
                     e1 := px v, e5 := py v, e9 := pz v,
                     e2 := px w, e6 := py w, e10 := pz w \<rparr> \<rparr>"


section \<open>Shapes and their cached metadata\<close>

text \<open>
  Reading a JavaScript array out of range yields \<open>undefined\<close>, and reading a property of
  \<open>undefined\<close> or \<open>null\<close> raises a TypeError. The mesh operators mutate the shape they
  are given, so an exception leaves the shape as it was when it was raised: an outcome
  is either a normal return or an exception together with the state at that moment.
\<close>

datatype error = TypeError

datatype 'a outcome = Returns 'a | Throws error 'a

fun state_of :: "'a outcome \<Rightarrow> 'a" where
  "state_of (Returns s) = s"
| "state_of (Throws e s) = s"

fun and_then :: "'a outcome \<Rightarrow> ('a \<Rightarrow> 'a outcome) \<Rightarrow> 'a outcome" where
  "and_then (Returns s) f = f s"
| "and_then (Throws e s) f = Throws e s"

definition array_get :: "'a list \<Rightarrow> nat \<Rightarrow> 'a option" where
  "array_get xs i = (if i < length xs then Some (xs ! i) else None)"

text \<open>
  A QuadFace: three vertex indices and a fourth that is \<open>null\<close> for a triangle; the
  cached centroid and normals are \<open>null\<close> until they are set.
\<close>

record QuadFace =
  i0 :: nat
  i1 :: nat
  i2 :: nat
  i3 :: "nat option"
  centroid :: "vec3 option"
  normal1 :: "vec3 option"
  normal2 :: "vec3 option"

definition QuadFace_new :: "nat \<Rightarrow> nat \<Rightarrow> nat \<Rightarrow> nat option \<Rightarrow> QuadFace" where
  "QuadFace_new a b c d =
     \<lparr> i0 = a, i1 = b, i2 = c, i3 = d, centroid = None, normal1 = None, normal2 = None \<rparr>"

definition isTriangle :: "QuadFace \<Rightarrow> bool" where
  "isTriangle f = (i3 f = None)"

record Shape =
  vertices :: "vec3 list"
  quads :: "QuadFace list"

definition Shape_new :: Shape where
  "Shape_new = \<lparr> vertices = [], quads = [] \<rparr>"

text \<open>
  One iteration of the loop of \<open>rebuildMeta\<close>. The subtractions read the vertices, so
  a vertex index out of range raises a TypeError (\<open>None\<close>) before the face is written.
\<close>

definition rebuildMeta_face :: "vec3 list \<Rightarrow> QuadFace \<Rightarrow> QuadFace option" where
  "rebuildMeta_face vs f =
     (case (array_get vs (i0 f), array_get vs (i1 f), array_get vs (i2 f)) of
        (Some vert0, Some vert1, Some vert2) \<Rightarrow>
          (let vec01 = subPoints3d vert1 vert0;
               vec02 = subPoints3d vert2 vert0;
               n1 = crossProduct vec01 vec02
           in case i3 f of
                None \<Rightarrow>
                  Some (f\<lparr> centroid := Some (averagePoints [vert0, vert1, vert2]),
                           normal1 := Some n1, normal2 := Some n1 \<rparr>)
              | Some k \<Rightarrow>
                  (case array_get vs k of
                     None \<Rightarrow> None
                   | Some vert3 \<Rightarrow>
                       (let vec03 = subPoints3d vert3 vert0;
                            n2 = crossProduct vec02 vec03
                        in Some (f\<lparr> centroid := Some (averagePoints [vert0, vert1, vert2, vert3]),
                                    normal1 := Some n1, normal2 := Some n2 \<rparr>))))
      | _ \<Rightarrow> None)"

fun rebuildMeta_loop :: "vec3 list \<Rightarrow> QuadFace list \<Rightarrow> QuadFace list outcome" where
  "rebuildMeta_loop vs [] = Returns []"
| "rebuildMeta_loop vs (f # fs) =
     (case rebuildMeta_face vs f of
        None \<Rightarrow> Throws TypeError (f # fs)
      | Some f' \<Rightarrow>
          (case rebuildMeta_loop vs fs of
             Returns fs' \<Rightarrow> Returns (f' # fs')
           | Throws e fs' \<Rightarrow> Throws e (f' # fs')))"

definition rebuildMeta :: "Shape \<Rightarrow> Shape outcome" where
  "rebuildMeta s =
     (case rebuildMeta_loop (vertices s) (quads s) of
        Returns fs \<Rightarrow> Returns (s\<lparr> quads := fs \<rparr>)
      | Throws e fs \<Rightarrow> Throws e (s\<lparr> quads := fs \<rparr>))"

text \<open>
  \<open>triangulate\<close>: the loop runs over the faces the shape had at the start and pushes
  the new triangles at the end of the same array.
\<close>

definition triangulate_step :: "nat \<Rightarrow> QuadFace list \<Rightarrow> QuadFace list" where
  "triangulate_step i fs =
     (let f = fs ! i
      in case i3 f of
           None \<Rightarrow> fs
         | Some k \<Rightarrow> fs[i := f\<lparr> i3 := None \<rparr>] @ [QuadFace_new (i0 f) (i2 f) k None])"

definition triangulate :: "Shape \<Rightarrow> Shape outcome" where
  "triangulate s =
     (let num_quads = length (quads s)
      in rebuildMeta (s\<lparr> quads := fold triangulate_step [0..<num_quads] (quads s) \<rparr>))"

text \<open>The words of the specification, for comparison with the code.\<close>

definition indices :: "QuadFace \<Rightarrow> nat \<times> nat \<times> nat \<times> nat option" where
  "indices f = (i0 f, i1 f, i2 f, i3 f)"

definition in_bounds :: "vec3 list \<Rightarrow> QuadFace \<Rightarrow> bool" where
  "in_bounds vs f =
     (i0 f < length vs \<and> i1 f < length vs \<and> i2 f < length vs
      \<and> (case i3 f of None \<Rightarrow> True | Some k \<Rightarrow> k < length vs))"


definition mean4 :: "vec3 \<Rightarrow> vec3 \<Rightarrow> vec3 \<Rightarrow> vec3 \<Rightarrow> vec3" where
  "mean4 a b c d =
     \<lparr> px = (px a + px b + px c + px d) / 4,
       py = (py a + py b + py c + py d) / 4,
       pz = (pz a + pz b + pz c + pz d) / 4 \<rparr>"


text \<open>The two triangles the specification names for a quad face.\<close>

definition truncated :: "QuadFace \<Rightarrow> QuadFace" where
  "truncated f = f\<lparr> i3 := None \<rparr>"

definition second_half :: "QuadFace \<Rightarrow> QuadFace" where
  "second_half f = QuadFace_new (i0 f) (i2 f) (the (i3 f)) None"

section \<open>JavaScript numbers as IEEE 754 doubles\<close>

text \<open>
  What the renderer decides from a number (whether a face is culled, where a point lands
  on the surface) depends on the rounding of the arithmetic and on the values that are
  not real numbers. For the renderer, a JavaScript number is therefore a double: a
  finite value, negative zero, an infinity or NaN. \<open>Fin x\<close> stands for the finite
  double of value \<open>x\<close>, \<open>Fin 0\<close> being positive zero; \<open>is_double\<close> says that a real
  is the value of a double (normal or subnormal).

  Every operation computes the exact result and rounds it to the nearest double, ties
  to the even significand: \<open>nearest\<close> rounds to a multiple of the unit in the last
  place, which is \<open>2 powi (\<lfloor>log 2 \<bar>x\<bar>\<rfloor> - 52)\<close> and never less than the smallest
  subnormal \<open>2 powi (- 1074)\<close>. A result that rounds to \<open>2 ^ 1024\<close> or beyond
  overflows to an infinity, and a result that rounds to zero keeps the sign of the exact
  result.
\<close>

datatype jsnum = Fin real | NegZero | PosInf | NegInf | NaN

definition round_half_even :: "real \<Rightarrow> int" where
  "round_half_even q =
     (let n = \<lfloor>q\<rfloor>; r = q - of_int n
      in if r < 1 / 2 then n else if 1 / 2 < r then n + 1 else if even n then n else n + 1)"

definition ulp_exponent :: "real \<Rightarrow> int" where
  "ulp_exponent x = max (\<lfloor>log 2 \<bar>x\<bar>\<rfloor> - 52) (- 1074)"

definition nearest :: "real \<Rightarrow> real" where
  "nearest x = of_int (round_half_even (x / 2 powi ulp_exponent x)) * 2 powi ulp_exponent x"

definition rounded :: "bool \<Rightarrow> real \<Rightarrow> jsnum" where
  "rounded neg x =
     (let y = nearest x
      in if y = 0 then (if neg then NegZero else Fin 0)
         else if 2 ^ 1024 \<le> \<bar>y\<bar> then (if y < 0 then NegInf else PosInf)
         else Fin y)"

definition is_double :: "real \<Rightarrow> bool" where
  "is_double x =
     (\<exists>m e. x = of_int m * 2 powi e \<and> \<bar>m\<bar> < 2 ^ 53 \<and> - 1074 \<le> e \<and> e \<le> 971)"

fun fin_val :: "jsnum \<Rightarrow> real" where
  "fin_val (Fin x) = x"
| "fin_val NegZero = 0"
| "fin_val PosInf = 0"
| "fin_val NegInf = 0"
| "fin_val NaN = 0"

fun sign_bit :: "jsnum \<Rightarrow> bool" where
  "sign_bit (Fin x) = (x < 0)"
| "sign_bit NegZero = True"
| "sign_bit PosInf = False"
| "sign_bit NegInf = True"
| "sign_bit NaN = False"

definition is_zero :: "jsnum \<Rightarrow> bool" where
  "is_zero a = (a = Fin 0 \<or> a = NegZero)"

definition is_inf :: "jsnum \<Rightarrow> bool" where
  "is_inf a = (a = PosInf \<or> a = NegInf)"

definition signed_zero :: "bool \<Rightarrow> jsnum" where
  "signed_zero neg = (if neg then NegZero else Fin 0)"

definition signed_inf :: "bool \<Rightarrow> jsnum" where
  "signed_inf neg = (if neg then NegInf else PosInf)"

text \<open>
  The operators \<open>-a\<close>, \<open>a * b\<close>, \<open>a / b\<close>, \<open>a + b\<close>, \<open>a - b\<close>,
  \<open>Math.sqrt\<close> and the comparisons \<open>a < b\<close>, \<open>a > b\<close>, \<open>a >= b\<close> on doubles.
  NaN propagates and compares false with everything; zero times infinity, zero over zero,
  infinity over infinity and the sum of opposite infinities are NaN; the two zeros
  compare equal.
\<close>

fun jneg :: "jsnum \<Rightarrow> jsnum" where
  "jneg (Fin x) = (if x = 0 then NegZero else Fin (- x))"
| "jneg NegZero = Fin 0"
| "jneg PosInf = NegInf"
| "jneg NegInf = PosInf"
| "jneg NaN = NaN"

definition jmul :: "jsnum \<Rightarrow> jsnum \<Rightarrow> jsnum" where
  "jmul a b =
     (if a = NaN \<or> b = NaN then NaN
      else if is_inf a \<or> is_inf b
      then (if is_zero a \<or> is_zero b then NaN else signed_inf (sign_bit a \<noteq> sign_bit b))
      else rounded (sign_bit a \<noteq> sign_bit b) (fin_val a * fin_val b))"

definition jdiv :: "jsnum \<Rightarrow> jsnum \<Rightarrow> jsnum" where
  "jdiv a b =
     (if a = NaN \<or> b = NaN then NaN
      else if is_inf a
      then (if is_inf b then NaN else signed_inf (sign_bit a \<noteq> sign_bit b))
      else if is_inf b then signed_zero (sign_bit a \<noteq> sign_bit b)
      else if is_zero b
      then (if is_zero a then NaN else signed_inf (sign_bit a \<noteq> sign_bit b))
      else rounded (sign_bit a \<noteq> sign_bit b) (fin_val a / fin_val b))"

definition jadd :: "jsnum \<Rightarrow> jsnum \<Rightarrow> jsnum" where
  "jadd a b =
     (if a = NaN \<or> b = NaN then NaN
      else if is_inf a then (if is_inf b \<and> a \<noteq> b then NaN else a)
      else if is_inf b then b
      else if is_zero a \<and> is_zero b
      then (if a = NegZero \<and> b = NegZero then NegZero else Fin 0)
      else rounded (fin_val a + fin_val b < 0) (fin_val a + fin_val b))"

definition jsub :: "jsnum \<Rightarrow> jsnum \<Rightarrow> jsnum" where
  "jsub a b = jadd a (jneg b)"

fun jsqrt :: "jsnum \<Rightarrow> jsnum" where
  "jsqrt (Fin x) = (if x < 0 then NaN else rounded False (sqrt x))"
| "jsqrt NegZero = NegZero"
| "jsqrt PosInf = PosInf"
| "jsqrt NegInf = NaN"
| "jsqrt NaN = NaN"

definition jless :: "jsnum \<Rightarrow> jsnum \<Rightarrow> bool" where
  "jless a b =
     (a \<noteq> NaN \<and> b \<noteq> NaN \<and> a \<noteq> PosInf \<and> b \<noteq> NegInf
      \<and> (a = NegInf \<or> b = PosInf \<or> fin_val a < fin_val b))"

definition jgt :: "jsnum \<Rightarrow> jsnum \<Rightarrow> bool" where
  "jgt a b = jless b a"

definition jge :: "jsnum \<Rightarrow> jsnum \<Rightarrow> bool" where
  "jge a b = (a \<noteq> NaN \<and> b \<noteq> NaN \<and> \<not> jless a b)"

text \<open>
  Points and matrices of doubles, and the functions of the vector and matrix mathematics
  that the renderer calls, operation by operation in the order the source writes them.
  The fields of a point are \<open>fx\<close>, \<open>fy\<close>, \<open>fz\<close> (\<open>gx\<close>, \<open>gy\<close> in two
  dimensions) and those of a matrix \<open>fe0\<close> to \<open>fe11\<close>. The coordinates of a shape
  and the entries of a transform are finite numbers, read as doubles by \<open>vec3_f64\<close> and
  \<open>AffineMatrix_f64\<close>.
\<close>

record fvec3 =
  fx :: jsnum
  fy :: jsnum
  fz :: jsnum

record fvec2 =
  gx :: jsnum
  gy :: jsnum

record FAffineMatrix =
  fe0 :: jsnum
  fe1 :: jsnum
  fe2 :: jsnum
  fe3 :: jsnum
  fe4 :: jsnum
  fe5 :: jsnum
  fe6 :: jsnum
  fe7 :: jsnum
  fe8 :: jsnum
  fe9 :: jsnum
  fe10 :: jsnum
  fe11 :: jsnum

definition vec3_f64 :: "vec3 \<Rightarrow> fvec3" where
  "vec3_f64 p = \<lparr> fx = Fin (px p), fy = Fin (py p), fz = Fin (pz p) \<rparr>"

definition AffineMatrix_f64 :: "AffineMatrix \<Rightarrow> FAffineMatrix" where
  "AffineMatrix_f64 a =
     \<lparr> fe0 = Fin (e0 a), fe1 = Fin (e1 a), fe2 = Fin (e2 a), fe3 = Fin (e3 a),
       fe4 = Fin (e4 a), fe5 = Fin (e5 a), fe6 = Fin (e6 a), fe7 = Fin (e7 a),
       fe8 = Fin (e8 a), fe9 = Fin (e9 a), fe10 = Fin (e10 a), fe11 = Fin (e11 a) \<rparr>"

definition dotProduct3d_f64 :: "fvec3 \<Rightarrow> fvec3 \<Rightarrow> jsnum" where
  "dotProduct3d_f64 a b =
     jadd (jadd (jmul (fx a) (fx b)) (jmul (fy a) (fy b))) (jmul (fz a) (fz b))"

definition mulPoint3d_f64 :: "fvec3 \<Rightarrow> jsnum \<Rightarrow> fvec3" where
  "mulPoint3d_f64 a s = \<lparr> fx = jmul (fx a) s, fy = jmul (fy a) s, fz = jmul (fz a) s \<rparr>"

definition vecMag3d_f64 :: "fvec3 \<Rightarrow> jsnum" where
  "vecMag3d_f64 a =
     jsqrt (jadd (jadd (jmul (fx a) (fx a)) (jmul (fy a) (fy a))) (jmul (fz a) (fz a)))"

definition unitVector3d_f64 :: "fvec3 \<Rightarrow> fvec3" where
  "unitVector3d_f64 a = mulPoint3d_f64 a (jdiv (Fin 1) (vecMag3d_f64 a))"

definition multiplyAffine_f64 :: "FAffineMatrix \<Rightarrow> FAffineMatrix \<Rightarrow> FAffineMatrix" where
  "multiplyAffine_f64 a b =
     \<lparr> fe0 = jadd (jadd (jmul (fe0 a) (fe0 b)) (jmul (fe1 a) (fe4 b))) (jmul (fe2 a) (fe8 b)),
       fe1 = jadd (jadd (jmul (fe0 a) (fe1 b)) (jmul (fe1 a) (fe5 b))) (jmul (fe2 a) (fe9 b)),
       fe2 = jadd (jadd (jmul (fe0 a) (fe2 b)) (jmul (fe1 a) (fe6 b))) (jmul (fe2 a) (fe10 b)),
       fe3 = jadd (jadd (jadd (jmul (fe0 a) (fe3 b)) (jmul (fe1 a) (fe7 b)))
                     (jmul (fe2 a) (fe11 b))) (fe3 a),
       fe4 = jadd (jadd (jmul (fe4 a) (fe0 b)) (jmul (fe5 a) (fe4 b))) (jmul (fe6 a) (fe8 b)),
       fe5 = jadd (jadd (jmul (fe4 a) (fe1 b)) (jmul (fe5 a) (fe5 b))) (jmul (fe6 a) (fe9 b)),
       fe6 = jadd (jadd (jmul (fe4 a) (fe2 b)) (jmul (fe5 a) (fe6 b))) (jmul (fe6 a) (fe10 b)),
       fe7 = jadd (jadd (jadd (jmul (fe4 a) (fe3 b)) (jmul (fe5 a) (fe7 b)))
                     (jmul (fe6 a) (fe11 b))) (fe7 a),
       fe8 = jadd (jadd (jmul (fe8 a) (fe0 b)) (jmul (fe9 a) (fe4 b))) (jmul (fe10 a) (fe8 b)),
       fe9 = jadd (jadd (jmul (fe8 a) (fe1 b)) (jmul (fe9 a) (fe5 b))) (jmul (fe10 a) (fe9 b)),
       fe10 = jadd (jadd (jmul (fe8 a) (fe2 b)) (jmul (fe9 a) (fe6 b))) (jmul (fe10 a) (fe10 b)),
       fe11 = jadd (jadd (jadd (jmul (fe8 a) (fe3 b)) (jmul (fe9 a) (fe7 b)))
                      (jmul (fe10 a) (fe11 b))) (fe11 a) \<rparr>"

definition transAdjoint_f64 :: "FAffineMatrix \<Rightarrow> FAffineMatrix" where
  "transAdjoint_f64 a =
     \<lparr> fe0 = jsub (jmul (fe10 a) (fe5 a)) (jmul (fe6 a) (fe9 a)),
       fe1 = jsub (jmul (fe6 a) (fe8 a)) (jmul (fe4 a) (fe10 a)),
       fe2 = jsub (jmul (fe4 a) (fe9 a)) (jmul (fe8 a) (fe5 a)),
       fe3 = Fin 0,
       fe4 = jsub (jmul (fe2 a) (fe9 a)) (jmul (fe10 a) (fe1 a)),
       fe5 = jsub (jmul (fe10 a) (fe0 a)) (jmul (fe2 a) (fe8 a)),
       fe6 = jsub (jmul (fe8 a) (fe1 a)) (jmul (fe0 a) (fe9 a)),
       fe7 = Fin 0,
       fe8 = jsub (jmul (fe6 a) (fe1 a)) (jmul (fe2 a) (fe5 a)),
       fe9 = jsub (jmul (fe4 a) (fe2 a)) (jmul (fe6 a) (fe0 a)),
       fe10 = jsub (jmul (fe0 a) (fe5 a)) (jmul (fe4 a) (fe1 a)),
       fe11 = Fin 0 \<rparr>"

definition transformPoint_f64 :: "FAffineMatrix \<Rightarrow> fvec3 \<Rightarrow> fvec3" where
  "transformPoint_f64 t p =
     \<lparr> fx = jadd (jadd (jadd (jmul (fe0 t) (fx p)) (jmul (fe1 t) (fy p)))
                    (jmul (fe2 t) (fz p))) (fe3 t),
       fy = jadd (jadd (jadd (jmul (fe4 t) (fx p)) (jmul (fe5 t) (fy p)))
                    (jmul (fe6 t) (fz p))) (fe7 t),
       fz = jadd (jadd (jadd (jmul (fe8 t) (fx p)) (jmul (fe9 t) (fy p)))
                    (jmul (fe10 t) (fz p))) (fe11 t) \<rparr>"

definition transformPoints_f64 :: "FAffineMatrix \<Rightarrow> fvec3 list \<Rightarrow> fvec3 list" where
  "transformPoints_f64 t ps = map (transformPoint_f64 t) ps"

section \<open>The renderer\<close>

text \<open>
  Fields whose names would capture common variable names are renamed: the channels of an
  RGBA are \<open>chan_r\<close>, \<open>chan_g\<close>, \<open>chan_b\<close>, \<open>chan_a\<close>, and the renderer's
  internal fields \<open>width_\<close>, \<open>height_\<close>, \<open>scale_\<close>, \<open>xoff_\<close>,
  \<open>buffered_quads_\<close> are \<open>r_width\<close>, \<open>r_height\<close>, \<open>r_scale\<close>, \<open>r_xoff\<close>,
  \<open>buffered_quads\<close>. The canvas element and its 2D context are the external drawing
  surface; only the width and height the constructor reads from it are kept. An image
  is an opaque handle. The renderer's current transform is a Transform object here; the
  transform stack with its object identities is modelled separately below.
\<close>

record RGBA =
  chan_r :: real
  chan_g :: real
  chan_b :: real
  chan_a :: real

record TextureInfo =
  image :: "nat option"
  u0 :: "real option"
  v0 :: "real option"
  u1 :: "real option"
  v1 :: "real option"
  u2 :: "real option"
  v2 :: "real option"
  u3 :: "real option"
  v3 :: "real option"

record Camera =
  transform :: Transform
  focal_length :: real

definition Camera_new :: Camera where
  "Camera_new = \<lparr> transform = Transform_new, focal_length = 1 \<rparr>"

text \<open>
  A face of the draw buffer holds points instead of indices: a corner read out of range
  is \<open>undefined\<close> (\<open>None\<close>), and the fourth corner of a triangle is \<open>null\<close>
  (\<open>None\<close> at the outer level).
\<close>

record WorldQuadFace =
  w0 :: "fvec3 option"
  w1 :: "fvec3 option"
  w2 :: "fvec3 option"
  w3 :: "fvec3 option option"
  w_centroid :: fvec3
  w_normal1 :: fvec3
  w_normal2 :: fvec3

record BufferedQuad =
  qf :: WorldQuadFace
  intensity :: jsnum
  b_draw_overdraw :: bool
  b_texture :: "TextureInfo option"
  b_fill_rgba :: "RGBA option"
  b_stroke_rgba :: "RGBA option"
  b_normal1_rgba :: "RGBA option"
  b_normal2_rgba :: "RGBA option"

record Renderer =
  perform_z_sorting :: bool
  draw_overdraw :: bool
  draw_backfaces :: bool
  texture :: "TextureInfo option"
  fill_rgba :: "RGBA option"
  stroke_rgba :: "RGBA option"
  normal1_rgba :: "RGBA option"
  normal2_rgba :: "RGBA option"
  camera :: Camera
  transform :: Transform
  r_width :: real
  r_height :: real
  r_scale :: real
  r_xoff :: real
  buffered_quads :: "BufferedQuad list"

definition Renderer_new :: "real \<Rightarrow> real \<Rightarrow> Renderer" where
  "Renderer_new canvas_width canvas_height =
     \<lparr> perform_z_sorting = True,
       draw_overdraw = True,
       draw_backfaces = False,
       texture = None,
       fill_rgba = Some \<lparr> chan_r = 1, chan_g = 0, chan_b = 0, chan_a = 1 \<rparr>,
       stroke_rgba = None,
       normal1_rgba = None,
       normal2_rgba = None,
       camera = Camera_new,
       transform = Transform_new,
       r_width = canvas_width,
       r_height = canvas_height,
       r_scale = canvas_height / 2,
       r_xoff = canvas_width / 2,
       buffered_quads = [] \<rparr>"

definition emptyBuffer :: "Renderer \<Rightarrow> Renderer" where
  "emptyBuffer r = r\<lparr> buffered_quads := [] \<rparr>"

text \<open>
  The projection is computed in doubles, from a point of doubles: the camera's focal
  length and the renderer's scale and offset are finite doubles, while the quotient
  \<open>focal_length / -p.z\<close> and the products may be infinite or NaN.
\<close>

definition projectPointToCanvas :: "Renderer \<Rightarrow> fvec3 \<Rightarrow> fvec2" where
  "projectPointToCanvas r p =
     (let v = jdiv (Fin (focal_length (camera r))) (jneg (fz p));
          scale = Fin (r_scale r)
      in \<lparr> gx = jadd (jmul (jmul (fx p) v) scale) (Fin (r_xoff r)),
           gy = jadd (jmul (jmul (fy p) v) (jneg scale)) scale \<rparr>)"

definition projectPointsToCanvas :: "Renderer \<Rightarrow> fvec3 list \<Rightarrow> fvec2 list" where
  "projectPointsToCanvas r ps = map (projectPointToCanvas r) ps"

section \<open>Paths\<close>

record Curve =
  ep :: nat
  c0 :: nat
  c1 :: "nat option"

definition Curve_new :: "nat \<Rightarrow> nat \<Rightarrow> nat option \<Rightarrow> Curve" where
  "Curve_new e a b = \<lparr> ep = e, c0 = a, c1 = b \<rparr>"

definition isQuadratic :: "Curve \<Rightarrow> bool" where
  "isQuadratic c = (c1 c = None)"

record Path =
  points :: "vec3 list"
  curves :: "Curve list"
  starting_point :: "nat option"

definition Path_new :: Path where
  "Path_new = \<lparr> points = [], curves = [], starting_point = None \<rparr>"

definition makeLine :: "vec3 \<Rightarrow> vec3 \<Rightarrow> Path" where
  "makeLine p0 p1 =
     Path_new\<lparr> points := [\<lparr> px = px p0, py = py p0, pz = pz p0 \<rparr>,
                            \<lparr> px = px p1, py = py p1, pz = pz p1 \<rparr>],
                curves := [Curve_new 1 1 (Some 1)],
                starting_point := Some 0 \<rparr>"

definition makeCircle :: Path where
  "makeCircle =
     (let kKappa = 66666666666 / 100000000000
      in Path_new\<lparr> points := [\<lparr> px = 0, py = kKappa, pz = 0 \<rparr>,
                               \<lparr> px = 1, py = kKappa, pz = 0 \<rparr>,
                               \<lparr> px = 1, py = 0, pz = 0 \<rparr>,
                               \<lparr> px = 1, py = - kKappa, pz = 0 \<rparr>,
                               \<lparr> px = 0, py = - kKappa, pz = 0 \<rparr>,
                               \<lparr> px = 0, py = 0, pz = 0 \<rparr>],
                   curves := [Curve_new 2 0 (Some 1), Curve_new 5 3 (Some 4)] \<rparr>)"

text \<open>
  Tracing a path, as \<open>drawPath\<close> does and as the comment on \<open>Path\<close> describes it:
  the path starts at (0, 0, 0) unless \<open>starting_point\<close> names a point, and each curve
  continues where the last one left off. \<open>drawPath\<close> projects the points and hands
  each curve to the 2D surface, which draws it from its current point; the trace below
  is the same sequence of pieces in object space: start, control points and end point of
  each curve. A point index out of range makes \<open>drawPath\<close> raise a TypeError
  (\<open>None\<close>).
\<close>

record Piece =
  piece_start :: vec3
  piece_c0 :: vec3
  piece_c1 :: "vec3 option"
  piece_end :: vec3

fun trace_curves :: "vec3 list \<Rightarrow> vec3 \<Rightarrow> Curve list \<Rightarrow> Piece list option" where
  "trace_curves ps cur [] = Some []"
| "trace_curves ps cur (c # cs) =
     (case (array_get ps (c0 c), array_get ps (ep c)) of
        (Some a, Some e) \<Rightarrow>
          (case c1 c of
             None \<Rightarrow>
               map_option
                 (Cons \<lparr> piece_start = cur, piece_c0 = a, piece_c1 = None, piece_end = e \<rparr>)
                 (trace_curves ps e cs)
           | Some k \<Rightarrow>
               (case array_get ps k of
                  None \<Rightarrow> None
                | Some b \<Rightarrow>
                    map_option
                      (Cons \<lparr> piece_start = cur, piece_c0 = a, piece_c1 = Some b, piece_end = e \<rparr>)
                      (trace_curves ps e cs)))
      | _ \<Rightarrow> None)"

definition trace_path :: "Path \<Rightarrow> Piece list option" where
  "trace_path path =
     (case (case starting_point path of
              None \<Rightarrow> Some \<lparr> px = 0, py = 0, pz = 0 \<rparr>
            | Some k \<Rightarrow> array_get (points path) k) of
        None \<Rightarrow> None
      | Some start \<Rightarrow> trace_curves (points path) start (curves path))"

text \<open>
  The point of a piece at parameter \<open>t\<close>: the quadratic or cubic Bezier polynomial the
  2D surface draws for \<open>quadraticCurveTo\<close> and \<open>bezierCurveTo\<close>.
\<close>

definition bezier3 :: "real \<Rightarrow> real \<Rightarrow> real \<Rightarrow> real \<Rightarrow> real \<Rightarrow> real" where
  "bezier3 a b c d t =
     (1 - t) ^ 3 * a + 3 * (1 - t) ^ 2 * t * b + 3 * (1 - t) * t ^ 2 * c + t ^ 3 * d"

definition bezier2 :: "real \<Rightarrow> real \<Rightarrow> real \<Rightarrow> real \<Rightarrow> real" where
  "bezier2 a b d t = (1 - t) ^ 2 * a + 2 * (1 - t) * t * b + t ^ 2 * d"

definition piece_at :: "Piece \<Rightarrow> real \<Rightarrow> vec3" where
  "piece_at s t =
     (case piece_c1 s of
        None \<Rightarrow>
          \<lparr> px = bezier2 (px (piece_start s)) (px (piece_c0 s)) (px (piece_end s)) t,
            py = bezier2 (py (piece_start s)) (py (piece_c0 s)) (py (piece_end s)) t,
            pz = bezier2 (pz (piece_start s)) (pz (piece_c0 s)) (pz (piece_end s)) t \<rparr>
      | Some b \<Rightarrow>
          \<lparr> px = bezier3 (px (piece_start s)) (px (piece_c0 s)) (px b) (px (piece_end s)) t,
            py = bezier3 (py (piece_start s)) (py (piece_c0 s)) (py b) (py (piece_end s)) t,
            pz = bezier3 (pz (piece_start s)) (pz (piece_c0 s)) (pz b) (pz (piece_end s)) t \<rparr>)"

text \<open>
  \<open>drawPath\<close> itself, as the sequence of calls it makes on the 2D context. The
  points are transformed and projected once; a curve whose point index is out of range
  raises a TypeError when the coordinates are read, after the calls made so far.
\<close>

datatype ctx_call =
    BeginPath
  | MoveTo jsnum jsnum
  | QuadraticCurveTo jsnum jsnum jsnum jsnum
  | BezierCurveTo jsnum jsnum jsnum jsnum jsnum jsnum
  | Fill
  | Stroke

fun drawPath_curves :: "fvec2 list \<Rightarrow> Curve list \<Rightarrow> ctx_call list \<Rightarrow> ctx_call list outcome" where
  "drawPath_curves screen_points [] calls = Returns calls"
| "drawPath_curves screen_points (curve # rest) calls =
     (if isQuadratic curve
      then (case (array_get screen_points (c0 curve), array_get screen_points (ep curve)) of
              (Some a, Some e) \<Rightarrow>
                drawPath_curves screen_points rest
                  (calls @ [QuadraticCurveTo (gx a) (gy a) (gx e) (gy e)])
            | _ \<Rightarrow> Throws TypeError calls)
      else (case (array_get screen_points (c0 curve),
                  array_get screen_points (the (c1 curve)),
                  array_get screen_points (ep curve)) of
              (Some a, Some b, Some e) \<Rightarrow>
                drawPath_curves screen_points rest
                  (calls @ [BezierCurveTo (gx a) (gy a) (gx b) (gy b) (gx e) (gy e)])
            | _ \<Rightarrow> Throws TypeError calls))"

definition drawPath :: "Renderer \<Rightarrow> Path \<Rightarrow> bool \<Rightarrow> ctx_call list outcome" where
  "drawPath r path fill =
     (let t = multiplyAffine_f64 (AffineMatrix_f64 (mat (Camera.transform (camera r))))
                (AffineMatrix_f64 (mat (Renderer.transform r)));
          screen_points =
            projectPointsToCanvas r (transformPoints_f64 t (map vec3_f64 (points path)));
          start_point =
            (case starting_point path of
               None \<Rightarrow> Some (projectPointToCanvas r
                               (transformPoint_f64 t \<lparr> fx = Fin 0, fy = Fin 0, fz = Fin 0 \<rparr>))
             | Some k \<Rightarrow> array_get screen_points k)
      in case start_point of
           None \<Rightarrow> Throws TypeError [BeginPath]
         | Some sp \<Rightarrow>
             and_then (drawPath_curves screen_points (curves path)
                         [BeginPath, MoveTo (gx sp) (gy sp)])
               (\<lambda>calls. Returns (calls @ [if fill then Fill else Stroke])))"

text \<open>The call \<open>drawPath\<close> makes for a piece of the trace, given the screen position of a point.\<close>

definition call_of_piece :: "(vec3 \<Rightarrow> fvec2) \<Rightarrow> Piece \<Rightarrow> ctx_call" where
  "call_of_piece screen s =
     (case piece_c1 s of
        None \<Rightarrow>
          QuadraticCurveTo (gx (screen (piece_c0 s))) (gy (screen (piece_c0 s)))
            (gx (screen (piece_end s))) (gy (screen (piece_end s)))
      | Some b \<Rightarrow>
          BezierCurveTo (gx (screen (piece_c0 s))) (gy (screen (piece_c0 s)))
            (gx (screen b)) (gy (screen b))
            (gx (screen (piece_end s))) (gy (screen (piece_end s))))"

section \<open>The transform stack, with object identities\<close>

text \<open>
  A Transform is an object whose field \<open>m\<close> refers to an AffineMatrix object, and the
  renderer's \<open>transform\<close> and \<open>transform_stack_\<close> hold references to Transform
  objects. Whether a saved transform survives later mutations depends on what is shared,
  so objects live in a store here: the Transform object at address \<open>t\<close> is the address
  of its matrix, \<open>transform_objs ! t\<close>, and the matrix object at address \<open>a\<close> is
  \<open>matrix_objs ! a\<close>. A new object gets the next free address. \<open>cur_transform\<close> is
  the renderer's \<open>transform\<close> (\<open>None\<close> when it is \<open>undefined\<close>), and the top of
  \<open>transform_stack\<close> is its last element, as with \<open>push\<close> and \<open>pop\<close>.
\<close>

record TStore =
  transform_objs :: "nat list"
  matrix_objs :: "AffineMatrix list"
  cur_transform :: "nat option"
  transform_stack :: "nat list"

definition new_AffineMatrix :: "AffineMatrix \<Rightarrow> TStore \<Rightarrow> nat \<times> TStore" where
  "new_AffineMatrix a st = (length (matrix_objs st), st\<lparr> matrix_objs := matrix_objs st @ [a] \<rparr>)"

text \<open>The assignment \<open>t.m = a\<close> for a freshly made matrix \<open>a\<close>.\<close>

definition set_m :: "nat \<Rightarrow> AffineMatrix \<Rightarrow> TStore \<Rightarrow> TStore" where
  "set_m t a st =
     (let (ma, st1) = new_AffineMatrix a st
      in st1\<lparr> transform_objs := (transform_objs st1)[t := ma] \<rparr>)"

text \<open>\<open>new Transform()\<close>: the constructor calls \<open>reset\<close>, which makes an identity matrix.\<close>

definition new_Transform :: "TStore \<Rightarrow> nat \<times> TStore" where
  "new_Transform st =
     (let (ma, st1) = new_AffineMatrix makeIdentityAffine st
      in (length (transform_objs st1), st1\<lparr> transform_objs := transform_objs st1 @ [ma] \<rparr>))"

definition read_m :: "TStore \<Rightarrow> nat \<Rightarrow> AffineMatrix option" where
  "read_m st t =
     (case array_get (transform_objs st) t of
        None \<Rightarrow> None
      | Some ma \<Rightarrow> array_get (matrix_objs st) ma)"

definition dup :: "nat \<Rightarrow> TStore \<Rightarrow> (nat \<times> TStore) option" where
  "dup t st =
     (let (tm, st1) = new_Transform st
      in case read_m st1 t of
           None \<Rightarrow> None
         | Some a \<Rightarrow> Some (tm, set_m tm (dupAffine a) st1))"

definition pushTransform :: "TStore \<Rightarrow> TStore outcome" where
  "pushTransform st =
     (case cur_transform st of
        None \<Rightarrow> Throws TypeError st
      | Some t \<Rightarrow>
          (case dup t st of
             None \<Rightarrow> Throws TypeError st
           | Some (tm, st1) \<Rightarrow> Returns (st1\<lparr> transform_stack := transform_stack st1 @ [tm] \<rparr>)))"

definition popTransform :: "TStore \<Rightarrow> TStore" where
  "popTransform st =
     st\<lparr> cur_transform := (if transform_stack st = [] then None
                            else Some (last (transform_stack st))),
         transform_stack := butlast (transform_stack st) \<rparr>"

text \<open>
  The in-place operations of a Transform, applied to the renderer's current transform.
  All of them but \<open>setDCM\<close> assign a new matrix object to \<open>m\<close>; \<open>setDCM\<close> writes
  into the matrix object that \<open>m\<close> refers to.
\<close>

datatype transform_op =
    RotateX real | RotateXPre real
  | RotateY real | RotateYPre real
  | RotateZ real | RotateZPre real
  | Translate real real real | TranslatePre real real real
  | Scale real real real | ScalePre real real real
  | Reset
  | MultTransform nat
  | SetDCM vec3 vec3 vec3

fun apply_op :: "nat \<Rightarrow> AffineMatrix \<Rightarrow> transform_op \<Rightarrow> TStore \<Rightarrow> TStore outcome" where
  "apply_op t a (RotateX theta) st = Returns (set_m t (mat (rotateX \<lparr> mat = a \<rparr> theta)) st)"
| "apply_op t a (RotateXPre theta) st = Returns (set_m t (mat (rotateXPre \<lparr> mat = a \<rparr> theta)) st)"
| "apply_op t a (RotateY theta) st = Returns (set_m t (mat (rotateY \<lparr> mat = a \<rparr> theta)) st)"
| "apply_op t a (RotateYPre theta) st = Returns (set_m t (mat (rotateYPre \<lparr> mat = a \<rparr> theta)) st)"
| "apply_op t a (RotateZ theta) st = Returns (set_m t (mat (rotateZ \<lparr> mat = a \<rparr> theta)) st)"
| "apply_op t a (RotateZPre theta) st = Returns (set_m t (mat (rotateZPre \<lparr> mat = a \<rparr> theta)) st)"
| "apply_op t a (Translate dx dy dz) st =
     Returns (set_m t (mat (translate \<lparr> mat = a \<rparr> dx dy dz)) st)"
| "apply_op t a (TranslatePre dx dy dz) st =
     Returns (set_m t (mat (translatePre \<lparr> mat = a \<rparr> dx dy dz)) st)"
| "apply_op t a (Scale sx sy sz) st = Returns (set_m t (mat (scale \<lparr> mat = a \<rparr> sx sy sz)) st)"
| "apply_op t a (ScalePre sx sy sz) st =
     Returns (set_m t (mat (scalePre \<lparr> mat = a \<rparr> sx sy sz)) st)"
| "apply_op t a Reset st = Returns (set_m t (mat (reset \<lparr> mat = a \<rparr>)) st)"
| "apply_op t a (MultTransform u) st =
     (case read_m st u of
        None \<Rightarrow> Throws TypeError st
      | Some b \<Rightarrow> Returns (set_m t (mat (multTransform \<lparr> mat = a \<rparr> \<lparr> mat = b \<rparr>)) st))"
| "apply_op t a (SetDCM u v w) st =
     Returns (st\<lparr> matrix_objs :=
                  (matrix_objs st)[transform_objs st ! t := mat (setDCM \<lparr> mat = a \<rparr> u v w)] \<rparr>)"

definition on_current :: "transform_op \<Rightarrow> TStore \<Rightarrow> TStore outcome" where
  "on_current op st =
     (case cur_transform st of
        None \<Rightarrow> Throws TypeError st
      | Some t \<Rightarrow>
          (case read_m st t of
             None \<Rightarrow> Throws TypeError st
           | Some a \<Rightarrow> apply_op t a op st))"

fun run_ops :: "transform_op list \<Rightarrow> TStore \<Rightarrow> TStore outcome" where
  "run_ops [] st = Returns st"
| "run_ops (op # ops) st = and_then (on_current op st) (run_ops ops)"

definition current_matrix :: "TStore \<Rightarrow> AffineMatrix option" where
  "current_matrix st =
     (case cur_transform st of None \<Rightarrow> None | Some t \<Rightarrow> read_m st t)"

text \<open>A store is well formed when every Transform object refers to a matrix object.\<close>

definition store_ok :: "TStore \<Rightarrow> bool" where
  "store_ok st = (\<forall>t < length (transform_objs st). transform_objs st ! t < length (matrix_objs st))"

fun mult_target_ok :: "nat \<Rightarrow> transform_op \<Rightarrow> bool" where
  "mult_target_ok n (MultTransform u) = (u < n)"
| "mult_target_ok n opn = True"

text \<open>
  The facts that keep the saved copy intact while the current transform \<open>t\<close> is
  operated on: the copy \<open>t'\<close> is another object, its matrix object \<open>a'\<close> holds the
  saved matrix, and the current transform does not refer to \<open>a'\<close>.
\<close>

definition saved :: "nat \<Rightarrow> nat \<Rightarrow> nat \<Rightarrow> AffineMatrix \<Rightarrow> nat list \<Rightarrow> TStore \<Rightarrow> bool" where
  "saved t t' a' M stk st =
     (cur_transform st = Some t \<and> t < length (transform_objs st)
      \<and> t' < length (transform_objs st) \<and> t \<noteq> t' \<and> store_ok st
      \<and> transform_objs st ! t' = a' \<and> transform_objs st ! t \<noteq> a'
      \<and> a' < length (matrix_objs st) \<and> matrix_objs st ! a' = M
      \<and> transform_stack st = stk @ [t'])"

text \<open>A store with one Transform, used to exercise the stack discipline.\<close>

definition example_store :: TStore where
  "example_store = \<lparr> transform_objs = [0], matrix_objs = [makeTranslateAffine 1 2 3],
           cur_transform = Some 0, transform_stack = [] \<rparr>"

section \<open>Buffering a shape\<close>

text \<open>
  The renderer's \<open>quad_callback\<close> is a function that may change the render state and
  asks to skip a face by returning \<open>true\<close>; it is passed to \<open>bufferShape\<close> as an
  argument (\<open>None\<close> when it is \<open>null\<close>), taking and returning the renderer. Colours
  and textures are captured in a buffered entry by value.
\<close>

type_synonym quad_callback = "QuadFace \<Rightarrow> nat \<Rightarrow> Shape \<Rightarrow> Renderer \<Rightarrow> Renderer \<times> bool"

definition g_z_axis_vector :: fvec3 where
  "g_z_axis_vector = \<lparr> fx = Fin 0, fy = Fin 0, fz = Fin 1 \<rparr>"

definition make_entry ::
  "fvec3 list \<Rightarrow> QuadFace \<Rightarrow> fvec3 \<Rightarrow> fvec3 \<Rightarrow> fvec3 \<Rightarrow> Renderer \<Rightarrow> BufferedQuad" where
  "make_entry world_vertices f cen n1 n2 r =
     (let intensity0 = dotProduct3d_f64 g_z_axis_vector n1;
          intensity1 = (if jless intensity0 (Fin 0) then Fin 0 else intensity0);
          world_qf =
            \<lparr> w0 = array_get world_vertices (i0 f),
              w1 = array_get world_vertices (i1 f),
              w2 = array_get world_vertices (i2 f),
              w3 = (case i3 f of None \<Rightarrow> None | Some k \<Rightarrow> Some (array_get world_vertices k)),
              w_centroid = cen,
              w_normal1 = n1,
              w_normal2 = n2 \<rparr>
      in \<lparr> qf = world_qf,
           intensity = intensity1,
           b_draw_overdraw = draw_overdraw r,
           b_texture = texture r,
           b_fill_rgba = fill_rgba r,
           b_stroke_rgba = stroke_rgba r,
           b_normal1_rgba = normal1_rgba r,
           b_normal2_rgba = normal2_rgba r \<rparr>)"

text \<open>
  The body of the loop after the callback, in doubles. Reading the coordinates of a
  \<open>null\<close> centroid or normal raises a TypeError. A comparison with NaN is false: a
  face whose transformed centroid has a NaN depth is not skipped by the depth test, and a
  NaN dot product does not cull.
\<close>

definition bufferShape_face ::
  "bool \<Rightarrow> FAffineMatrix \<Rightarrow> FAffineMatrix \<Rightarrow> fvec3 list \<Rightarrow> QuadFace \<Rightarrow> Renderer
     \<Rightarrow> Renderer outcome" where
  "bufferShape_face backfaces t tn world_vertices f r =
     (case centroid f of
        None \<Rightarrow> Throws TypeError r
      | Some c \<Rightarrow>
          (let cen = transformPoint_f64 t (vec3_f64 c)
           in if jge (fz cen) (Fin (- 1)) then Returns r
              else
                (case normal1 f of
                   None \<Rightarrow> Throws TypeError r
                 | Some m1 \<Rightarrow>
                     (let n1 = unitVector3d_f64 (transformPoint_f64 tn (vec3_f64 m1))
                      in case normal2 f of
                           None \<Rightarrow> Throws TypeError r
                         | Some m2 \<Rightarrow>
                             (let n2 = transformPoint_f64 tn (vec3_f64 m2)
                              in if \<not> backfaces \<and> jgt (dotProduct3d_f64 cen n1) (Fin 0)
                                      \<and> jgt (dotProduct3d_f64 cen n2) (Fin 0)
                                 then Returns r
                                 else Returns
                                        (r\<lparr> buffered_quads :=
                                             buffered_quads r
                                             @ [make_entry world_vertices f cen n1 n2 r] \<rparr>))))))"

fun bufferShape_loop ::
  "quad_callback option \<Rightarrow> bool \<Rightarrow> FAffineMatrix \<Rightarrow> FAffineMatrix \<Rightarrow> fvec3 list \<Rightarrow> Shape
     \<Rightarrow> nat \<Rightarrow> QuadFace list \<Rightarrow> Renderer \<Rightarrow> Renderer outcome" where
  "bufferShape_loop cb backfaces t tn world_vertices shape j [] r = Returns r"
| "bufferShape_loop cb backfaces t tn world_vertices shape j (f # fs) r =
     (let (r1, skip) = (case cb of None \<Rightarrow> (r, False) | Some g \<Rightarrow> g f j shape r)
      in if skip
         then bufferShape_loop cb backfaces t tn world_vertices shape (Suc j) fs r1
         else and_then (bufferShape_face backfaces t tn world_vertices f r1)
                (bufferShape_loop cb backfaces t tn world_vertices shape (Suc j) fs))"

definition bufferShape :: "quad_callback option \<Rightarrow> Renderer \<Rightarrow> Shape \<Rightarrow> Renderer outcome" where
  "bufferShape cb r shape =
     (let backfaces = draw_backfaces r;
          t = multiplyAffine_f64 (AffineMatrix_f64 (mat (Camera.transform (camera r))))
                (AffineMatrix_f64 (mat (Renderer.transform r)));
          tn = transAdjoint_f64 t;
          world_vertices = transformPoints_f64 t (map vec3_f64 (vertices shape))
      in bufferShape_loop cb backfaces t tn world_vertices shape 0 (quads shape) r)"

definition has_meta :: "QuadFace \<Rightarrow> bool" where
  "has_meta f = (centroid f \<noteq> None \<and> normal1 f \<noteq> None \<and> normal2 f \<noteq> None)"

text \<open>
  The words of the specification: a face is drawn when its transformed centroid has z
  below -1 and, unless \<open>draw_backfaces\<close> is set, the dot products of the transformed
  centroid with the two normals transformed by the adjoint transpose are not both
  positive. \<open>spec_drawn\<close> reads this in exact arithmetic and \<open>spec_drawn_f64\<close> in
  the arithmetic of doubles.
\<close>

definition spec_drawn :: "Renderer \<Rightarrow> QuadFace \<Rightarrow> bool" where
  "spec_drawn r f =
     (let t = multiplyAffine (mat (Camera.transform (camera r))) (mat (Renderer.transform r));
          tn = transAdjoint t;
          cen = transformPoint t (the (centroid f))
      in pz cen < - 1
         \<and> (draw_backfaces r
            \<or> \<not> (dotProduct3d cen (transformPoint tn (the (normal1 f))) > 0
                  \<and> dotProduct3d cen (transformPoint tn (the (normal2 f))) > 0)))"

definition spec_drawn_f64 :: "Renderer \<Rightarrow> QuadFace \<Rightarrow> bool" where
  "spec_drawn_f64 r f =
     (let t = multiplyAffine_f64 (AffineMatrix_f64 (mat (Camera.transform (camera r))))
                (AffineMatrix_f64 (mat (Renderer.transform r)));
          tn = transAdjoint_f64 t;
          cen = transformPoint_f64 t (vec3_f64 (the (centroid f)))
      in jless (fz cen) (Fin (- 1))
         \<and> (draw_backfaces r
            \<or> \<not> (jgt (dotProduct3d_f64 cen
                          (transformPoint_f64 tn (vec3_f64 (the (normal1 f))))) (Fin 0)
                  \<and> jgt (dotProduct3d_f64 cen
                            (transformPoint_f64 tn (vec3_f64 (the (normal2 f))))) (Fin 0))))"

text \<open>
  What the code tests, as a condition on the face: the depth of the transformed
  centroid is not at or above -1 and, unless \<open>draw_backfaces\<close> is set, it is not the
  case that the computed dot products of the transformed centroid with the first
  transformed normal scaled to unit length and with the second transformed normal are
  both above zero. \<open>entry_of\<close> is the entry the code records for a face.
\<close>

definition face_drawn :: "Renderer \<Rightarrow> QuadFace \<Rightarrow> bool" where
  "face_drawn r f =
     (let t = multiplyAffine_f64 (AffineMatrix_f64 (mat (Camera.transform (camera r))))
                (AffineMatrix_f64 (mat (Renderer.transform r)));
          tn = transAdjoint_f64 t;
          cen = transformPoint_f64 t (vec3_f64 (the (centroid f)))
      in \<not> jge (fz cen) (Fin (- 1))
         \<and> (draw_backfaces r
            \<or> \<not> (jgt (dotProduct3d_f64 cen
                          (unitVector3d_f64
                             (transformPoint_f64 tn (vec3_f64 (the (normal1 f)))))) (Fin 0)
                  \<and> jgt (dotProduct3d_f64 cen
                            (transformPoint_f64 tn (vec3_f64 (the (normal2 f))))) (Fin 0))))"

definition entry_of :: "Renderer \<Rightarrow> Shape \<Rightarrow> QuadFace \<Rightarrow> BufferedQuad" where
  "entry_of r shape f =
     (let t = multiplyAffine_f64 (AffineMatrix_f64 (mat (Camera.transform (camera r))))
                (AffineMatrix_f64 (mat (Renderer.transform r)));
          tn = transAdjoint_f64 t
      in make_entry (transformPoints_f64 t (map vec3_f64 (vertices shape))) f
           (transformPoint_f64 t (vec3_f64 (the (centroid f))))
           (unitVector3d_f64 (transformPoint_f64 tn (vec3_f64 (the (normal1 f)))))
           (transformPoint_f64 tn (vec3_f64 (the (normal2 f)))) r)"

text \<open>
  A single quad five units in front of the camera whose normals point away from it,
  with the metadata \<open>rebuildMeta\<close> computes for it.
\<close>

definition example_backface :: Shape where
  "example_backface =
     \<lparr> vertices = [\<lparr> px = - 1, py = - 1, pz = - 5 \<rparr>, \<lparr> px = - 1, py = 1, pz = - 5 \<rparr>,
                    \<lparr> px = 1, py = 1, pz = - 5 \<rparr>, \<lparr> px = 1, py = - 1, pz = - 5 \<rparr>],
       quads = [\<lparr> i0 = 0, i1 = 1, i2 = 2, i3 = Some 3,
                  centroid = Some \<lparr> px = 0, py = 0, pz = - 5 \<rparr>,
                  normal1 = Some \<lparr> px = 0, py = 0, pz = - 4 \<rparr>,
                  normal2 = Some \<lparr> px = 0, py = 0, pz = - 4 \<rparr> \<rparr>] \<rparr>"

text \<open>
  A single quad in front of the camera whose first normal is orthogonal to its centroid:
  the vertices are (3, 2, -3), (3, 4, -4), (4, -2, -2), (-3, 4, -2), with the metadata
  \<open>rebuildMeta\<close> computes for them.
\<close>

definition example_grazing :: Shape where
  "example_grazing =
     \<lparr> vertices = [\<lparr> px = 3, py = 2, pz = - 3 \<rparr>, \<lparr> px = 3, py = 4, pz = - 4 \<rparr>,
                    \<lparr> px = 4, py = - 2, pz = - 2 \<rparr>, \<lparr> px = - 3, py = 4, pz = - 2 \<rparr>],
       quads = [\<lparr> i0 = 0, i1 = 1, i2 = 2, i3 = Some 3,
                  centroid = Some \<lparr> px = 7 / 4, py = 2, pz = - (11 / 4) \<rparr>,
                  normal1 = Some \<lparr> px = - 2, py = - 1, pz = - 2 \<rparr>,
                  normal2 = Some \<lparr> px = - 6, py = - 7, pz = - 22 \<rparr> \<rparr>] \<rparr>"

section \<open>Extrusion\<close>

text \<open>
  The Extruder holds the parameters of an extrusion. Its fields \<open>distance_\<close>,
  \<open>count_\<close>, \<open>selector_\<close>, \<open>scale\<close> and \<open>rotate\<close> are called \<open>e_distance\<close>,
  \<open>e_count\<close>, \<open>selector\<close>, \<open>e_scale\<close> and \<open>e_rotate\<close>; the step count is a
  natural number.
\<close>

record Extruder =
  e_distance :: real
  e_count :: nat
  selector :: "Shape \<Rightarrow> nat \<Rightarrow> bool"
  e_scale :: vec3
  e_rotate :: vec3

definition Extruder_new :: Extruder where
  "Extruder_new =
     \<lparr> e_distance = 1, e_count = 1, selector = (\<lambda>shape vertex_index. True),
       e_scale = \<lparr> px = 1, py = 1, pz = 1 \<rparr>, e_rotate = \<lparr> px = 0, py = 0, pz = 0 \<rparr> \<rparr>"

definition selectCustom :: "Extruder \<Rightarrow> (Shape \<Rightarrow> nat \<Rightarrow> bool) \<Rightarrow> Extruder" where
  "selectCustom e select_func = e\<lparr> selector := select_func \<rparr>"

definition set_count :: "Extruder \<Rightarrow> nat \<Rightarrow> Extruder" where
  "set_count e c = e\<lparr> e_count := c \<rparr>"

definition set_distance :: "Extruder \<Rightarrow> real \<Rightarrow> Extruder" where
  "set_distance e d = e\<lparr> e_distance := d \<rparr>"

text \<open>
  One step \<open>z\<close> of the inner loop for the face at \<open>face_index\<close>. \<open>inner\<close> holds the
  inner normals (three for a triangle, four for a quad), computed before the loop. The
  face is updated in place, so each step reads the indices the previous step wrote; in
  the quad branch the fourth index of the face is never \<open>null\<close>.
\<close>

definition extrude_step ::
  "Extruder \<Rightarrow> nat \<Rightarrow> vec3 \<Rightarrow> vec3 \<Rightarrow> bool \<Rightarrow> vec3 list \<Rightarrow> nat \<Rightarrow> Shape \<Rightarrow> Shape" where
  "extrude_step e face_index original_cent surface_normal is_triangle inner z shape =
     (let f = quads shape ! face_index;
          m = (real z + 1) / real (e_count e);
          t0 = rotateZ (rotateY (rotateX Transform_new (px (e_rotate e) * m))
                          (py (e_rotate e) * m))
                 (pz (e_rotate e) * m);
          new_cent = addPoints3d original_cent
                       (mulPoint3d (Transform_transformPoint t0 surface_normal)
                          (m * e_distance e));
          t1 = scalePre t0 (linearInterpolate 1 (px (e_scale e)) m)
                 (linearInterpolate 1 (py (e_scale e)) m)
                 (linearInterpolate 1 (pz (e_scale e)) m);
          index_before = length (vertices shape);
          vs = vertices shape
               @ map (\<lambda>n. addPoints3d new_cent (Transform_transformPoint t1 n)) inner;
          sides =
            [QuadFace_new (i1 f) (index_before + 1) index_before (Some (i0 f)),
             QuadFace_new (i2 f) (index_before + 2) (index_before + 1) (Some (i1 f))]
            @ (if is_triangle
               then [QuadFace_new (i0 f) index_before (index_before + 2) (Some (i2 f))]
               else [QuadFace_new (the (i3 f)) (index_before + 3) (index_before + 2) (Some (i2 f)),
                     QuadFace_new (i0 f) index_before (index_before + 3) (Some (the (i3 f)))]);
          f' = f\<lparr> i0 := index_before, i1 := index_before + 1, i2 := index_before + 2,
                   i3 := (if is_triangle then i3 f else Some (index_before + 3)) \<rparr>
      in shape\<lparr> vertices := vs, quads := (quads shape @ sides)[face_index := f'] \<rparr>)"

text \<open>
  The body of the outer loop. The surface normal adds the two cached normals and the
  inner normals subtract the cached centroid from the corners: a \<open>null\<close> normal or
  centroid, or a corner index out of range, raises a TypeError before anything is
  written.
\<close>

definition extrude_face :: "Extruder \<Rightarrow> nat \<Rightarrow> Shape \<Rightarrow> Shape outcome" where
  "extrude_face e face_index shape =
     (let f = quads shape ! face_index;
          vs = vertices shape
      in case (normal1 f, normal2 f) of
           (Some m1, Some m2) \<Rightarrow>
             (let surface_normal = unitVector3d (addPoints3d m1 m2);
                  is_triangle = isTriangle f
              in case (array_get vs (i0 f), array_get vs (i1 f), array_get vs (i2 f),
                       centroid f) of
                   (Some vert0, Some vert1, Some vert2, Some original_cent) \<Rightarrow>
                     (let inner012 = [subPoints3d vert0 original_cent,
                                      subPoints3d vert1 original_cent,
                                      subPoints3d vert2 original_cent]
                      in case i3 f of
                           None \<Rightarrow>
                             Returns (fold (extrude_step e face_index original_cent
                                              surface_normal is_triangle inner012)
                                        [0..<e_count e] shape)
                         | Some k \<Rightarrow>
                             (case array_get vs k of
                                None \<Rightarrow> Throws TypeError shape
                              | Some vert3 \<Rightarrow>
                                  Returns (fold (extrude_step e face_index original_cent
                                                   surface_normal is_triangle
                                                   (inner012 @ [subPoints3d vert3 original_cent]))
                                             [0..<e_count e] shape)))
                 | _ \<Rightarrow> Throws TypeError shape)
         | _ \<Rightarrow> Throws TypeError shape)"

fun extrude_faces :: "Extruder \<Rightarrow> nat list \<Rightarrow> Shape \<Rightarrow> Shape outcome" where
  "extrude_faces e [] shape = Returns shape"
| "extrude_faces e (face_index # faces) shape =
     and_then (extrude_face e face_index shape) (extrude_faces e faces)"

definition extrude :: "Extruder \<Rightarrow> Shape \<Rightarrow> Shape outcome" where
  "extrude e shape =
     (let faces = filter (selector e shape) [0..<length (quads shape)]
      in and_then (extrude_faces e faces shape) rebuildMeta)"

text \<open>Valid cached metadata: what \<open>rebuildMeta\<close> computes is what each face holds.\<close>

definition valid_meta :: "Shape \<Rightarrow> bool" where
  "valid_meta shape =
     (\<forall>f \<in> set (quads shape).
         in_bounds (vertices shape) f \<and> rebuildMeta_face (vertices shape) f = Some f)"

text \<open>
  The index bookkeeping of one step on a quad, on the list of the faces' index tuples:
  four side faces are appended and the face at \<open>k\<close> is moved to the new corners,
  which start at vertex index \<open>n\<close>. \<open>idx_ok\<close> bounds the indices of a tuple.
\<close>

definition quad_step_indices ::
  "nat \<Rightarrow> nat \<Rightarrow> (nat \<times> nat \<times> nat \<times> nat option) list
     \<Rightarrow> (nat \<times> nat \<times> nat \<times> nat option) list" where
  "quad_step_indices k n I =
     (case I ! k of
        (a, b, c, d) \<Rightarrow>
          (I @ [(b, n + 1, n, Some a), (c, n + 2, n + 1, Some b),
                (the d, n + 3, n + 2, Some c), (a, n, n + 3, Some (the d))])
          [k := (n, n + 1, n + 2, Some (n + 3))])"

definition idx_ok :: "nat \<Rightarrow> nat \<times> nat \<times> nat \<times> nat option \<Rightarrow> bool" where
  "idx_ok n t =
     (case t of (a, b, c, d) \<Rightarrow>
        a < n \<and> b < n \<and> c < n \<and> (case d of None \<Rightarrow> True | Some k \<Rightarrow> k < n))"

section \<open>Shape builders\<close>

text \<open>The builders end with \<open>rebuildMeta\<close>, whose outcome is theirs.\<close>

definition makePlane :: "vec3 \<Rightarrow> vec3 \<Rightarrow> vec3 \<Rightarrow> vec3 \<Rightarrow> Shape outcome" where
  "makePlane p1 p2 p3 p4 =
     rebuildMeta (Shape_new\<lparr> vertices := [p1, p2, p3, p4],
                             quads := [QuadFace_new 0 1 2 (Some 3)] \<rparr>)"

definition makeBox :: "real \<Rightarrow> real \<Rightarrow> real \<Rightarrow> Shape outcome" where
  "makeBox w h d =
     rebuildMeta
       (Shape_new\<lparr> vertices :=
                     [\<lparr> px = w, py = h, pz = - d \<rparr>,
                      \<lparr> px = w, py = h, pz = d \<rparr>,
                      \<lparr> px = w, py = - h, pz = d \<rparr>,
                      \<lparr> px = w, py = - h, pz = - d \<rparr>,
                      \<lparr> px = - w, py = h, pz = - d \<rparr>,
                      \<lparr> px = - w, py = h, pz = d \<rparr>,
                      \<lparr> px = - w, py = - h, pz = d \<rparr>,
                      \<lparr> px = - w, py = - h, pz = - d \<rparr>],
                   quads :=
                     [QuadFace_new 0 1 2 (Some 3),
                      QuadFace_new 1 5 6 (Some 2),
                      QuadFace_new 5 4 7 (Some 6),
                      QuadFace_new 4 0 3 (Some 7),
                      QuadFace_new 0 4 5 (Some 1),
                      QuadFace_new 2 6 7 (Some 3)] \<rparr>)"

definition makeCube :: "real \<Rightarrow> Shape outcome" where
  "makeCube whd = makeBox whd whd whd"

section \<open>Smoothing\<close>

text \<open>
  \<open>connections[v].push(i)\<close>: \<open>connections\<close> has one list per vertex, so a vertex
  index out of range finds \<open>undefined\<close> and the call raises a TypeError (\<open>None\<close>).
\<close>

definition push_connection :: "nat \<Rightarrow> nat \<Rightarrow> nat list list \<Rightarrow> nat list list option" where
  "push_connection v i connections =
     (if v < length connections then Some (connections[v := connections ! v @ [i]]) else None)"

definition connect_face :: "nat \<Rightarrow> QuadFace \<Rightarrow> nat list list \<Rightarrow> nat list list option" where
  "connect_face i f connections =
     (case push_connection (i0 f) i connections of
        None \<Rightarrow> None
      | Some cs0 \<Rightarrow>
          (case push_connection (i1 f) i cs0 of
             None \<Rightarrow> None
           | Some cs1 \<Rightarrow>
               (case push_connection (i2 f) i cs1 of
                  None \<Rightarrow> None
                | Some cs2 \<Rightarrow>
                    (case i3 f of
                       None \<Rightarrow> Some cs2
                     | Some k \<Rightarrow> push_connection k i cs2))))"

fun build_connections :: "nat \<Rightarrow> QuadFace list \<Rightarrow> nat list list \<Rightarrow> nat list list option" where
  "build_connections i [] connections = Some connections"
| "build_connections i (f # fs) connections =
     (case connect_face i f connections of
        None \<Rightarrow> None
      | Some cs \<Rightarrow> build_connections (Suc i) fs cs)"

text \<open>
  The sum of the centroids of the faces in \<open>cs\<close>. The code averages four corners,
  reading \<open>vertices[quad.i3]\<close> also for a triangle, where the index is \<open>null\<close> and the
  vertex \<open>undefined\<close>: reading its coordinate raises a TypeError (\<open>None\<close>).
\<close>

fun sum_centroids :: "vec3 list \<Rightarrow> QuadFace list \<Rightarrow> nat list \<Rightarrow> vec3 \<Rightarrow> vec3 option" where
  "sum_centroids vs fs [] avg = Some avg"
| "sum_centroids vs fs (c # cs) avg =
     (let quad = fs ! c
      in case (array_get vs (i0 quad), array_get vs (i1 quad), array_get vs (i2 quad),
               (case i3 quad of None \<Rightarrow> None | Some k \<Rightarrow> array_get vs k)) of
           (Some p1, Some p2, Some p3, Some p4) \<Rightarrow>
             sum_centroids vs fs cs
               \<lparr> px = px avg + (px p1 + px p2 + px p3 + px p4) / 4,
                 py = py avg + (py p1 + py p2 + py p3 + py p4) / 4,
                 pz = pz avg + (pz p1 + pz p2 + pz p3 + pz p4) / 4 \<rparr>
         | _ \<Rightarrow> None)"

definition smooth_vertex ::
  "vec3 list \<Rightarrow> QuadFace list \<Rightarrow> real \<Rightarrow> nat list \<Rightarrow> vec3 \<Rightarrow> vec3 option" where
  "smooth_vertex vs fs amount cs v =
     (case sum_centroids vs fs cs \<lparr> px = 0, py = 0, pz = 0 \<rparr> of
        None \<Rightarrow> None
      | Some centroid_sum \<Rightarrow>
          (let f = 1 / real (length cs);
               avg = mulPoint3d centroid_sum f
           in Some (linearInterpolatePoints3d v avg amount)))"

fun smooth_vertices ::
  "vec3 list \<Rightarrow> QuadFace list \<Rightarrow> real \<Rightarrow> nat list list \<Rightarrow> vec3 list \<Rightarrow> vec3 list option" where
  "smooth_vertices vs fs amount (cs # css) (v # rest) =
     (case smooth_vertex vs fs amount cs v of
        None \<Rightarrow> None
      | Some p \<Rightarrow> map_option (Cons p) (smooth_vertices vs fs amount css rest))"
| "smooth_vertices vs fs amount css rest = Some []"

text \<open>
  \<open>averageSmooth\<close>; the amount is optional and defaults to 1. Until the new vertices
  are assigned nothing of the shape is written, so an exception before that leaves the
  shape unchanged.
\<close>

definition averageSmooth :: "Shape \<Rightarrow> real option \<Rightarrow> Shape outcome" where
  "averageSmooth shape amount_arg =
     (let amount = (case amount_arg of None \<Rightarrow> 1 | Some a \<Rightarrow> a);
          vs = vertices shape;
          psl = length vs
      in case build_connections 0 (quads shape) (replicate psl []) of
           None \<Rightarrow> Throws TypeError shape
         | Some connections \<Rightarrow>
             (case smooth_vertices vs (quads shape) amount connections vs of
                None \<Rightarrow> Throws TypeError shape
              | Some new_ps \<Rightarrow> rebuildMeta (shape\<lparr> vertices := new_ps \<rparr>)))"

text \<open>
  The words of the specification for smoothing: the faces referencing a vertex (a face
  is listed once for each of its corners that is the vertex), the centroid of a quad,
  the unweighted mean of a list of points, and the smoothed position of a vertex.
\<close>

definition corners :: "QuadFace \<Rightarrow> nat list" where
  "corners f = [i0 f, i1 f, i2 f] @ (case i3 f of None \<Rightarrow> [] | Some k \<Rightarrow> [k])"

fun referencing :: "nat \<Rightarrow> QuadFace list \<Rightarrow> nat \<Rightarrow> nat list" where
  "referencing i [] v = []"
| "referencing i (f # fs) v = replicate (count_list (corners f) v) i @ referencing (Suc i) fs v"

definition quad_centroid :: "vec3 list \<Rightarrow> QuadFace \<Rightarrow> vec3" where
  "quad_centroid vs f = mean4 (vs ! i0 f) (vs ! i1 f) (vs ! i2 f) (vs ! the (i3 f))"

definition mean_points :: "vec3 list \<Rightarrow> vec3" where
  "mean_points ps =
     \<lparr> px = sum_list (map px ps) / real (length ps),
       py = sum_list (map py ps) / real (length ps),
       pz = sum_list (map pz ps) / real (length ps) \<rparr>"

definition smoothed :: "vec3 list \<Rightarrow> QuadFace list \<Rightarrow> real \<Rightarrow> nat \<Rightarrow> vec3" where
  "smoothed vs fs amount v =
     linearInterpolatePoints3d (vs ! v)
       (mean_points (map (\<lambda>j. quad_centroid vs (fs ! j)) (referencing 0 fs v))) amount"

text \<open>
  A single triangle, as \<open>rebuildMeta\<close> leaves it: every vertex is referenced by the
  face.
\<close>

definition example_triangle :: Shape where
  "example_triangle =
     \<lparr> vertices = [\<lparr> px = 0, py = 0, pz = 0 \<rparr>, \<lparr> px = 3, py = 0, pz = 0 \<rparr>,
                    \<lparr> px = 0, py = 3, pz = 0 \<rparr>],
       quads = [\<lparr> i0 = 0, i1 = 1, i2 = 2, i3 = None,
                  centroid = Some \<lparr> px = 1, py = 1, pz = 0 \<rparr>,
                  normal1 = Some \<lparr> px = 0, py = 0, pz = 9 \<rparr>,
                  normal2 = Some \<lparr> px = 0, py = 0, pz = 9 \<rparr> \<rparr>] \<rparr>"

section \<open>Linear subdivision\<close>

text \<open>
  New vertices are shared through \<open>share_points\<close>, an object keyed by strings: the
  vertex indices to be averaged are sorted with \<open>Array.prototype.sort\<close> and joined
  with \<open>'-'\<close>. The default sort compares the elements as strings, by code units, and
  the fourth index of a triangle is \<open>null\<close> (\<open>None\<close>), which compares as \<open>null\<close> and
  joins as the empty string.
\<close>

definition digit_char :: "nat \<Rightarrow> char" where
  "digit_char d = ''0123456789'' ! d"

function decimal :: "nat \<Rightarrow> string" where
  "decimal n = (if n < 10 then [digit_char n] else decimal (n div 10) @ [digit_char (n mod 10)])"
  by pat_completeness auto
termination
  by (relation "measure id") auto

definition js_toString :: "nat option \<Rightarrow> string" where
  "js_toString v = (case v of None \<Rightarrow> ''null'' | Some n \<Rightarrow> decimal n)"

fun str_less :: "string \<Rightarrow> string \<Rightarrow> bool" where
  "str_less [] [] = False"
| "str_less [] (d # ds) = True"
| "str_less (c # cs) [] = False"
| "str_less (c # cs) (d # ds) =
     ((of_char c :: nat) < of_char d \<or> (c = d \<and> str_less cs ds))"

fun js_insert :: "nat option \<Rightarrow> nat option list \<Rightarrow> nat option list" where
  "js_insert v [] = [v]"
| "js_insert v (w # ws) =
     (if str_less (js_toString v) (js_toString w) then v # w # ws else w # js_insert v ws)"

definition js_sort :: "nat option list \<Rightarrow> nat option list" where
  "js_sort vs = foldr js_insert vs []"

fun js_join :: "nat option list \<Rightarrow> string" where
  "js_join [] = []"
| "js_join [v] = (case v of None \<Rightarrow> [] | Some n \<Rightarrow> decimal n)"
| "js_join (v # w # ws) = (case v of None \<Rightarrow> [] | Some n \<Rightarrow> decimal n) @ ''-'' @ js_join (w # ws)"

record Subdivision =
  sd_shape :: Shape
  share_points :: "string \<rightharpoonup> nat"

text \<open>
  The body of the inner loop for one sorted index list \<open>ps\<close>: the index of the vertex
  already made for its key, or of a new vertex, the average of the vertices \<open>ps\<close> names.
  \<open>averagePoints\<close> reads the coordinates of each of them, so an index that finds no
  vertex (\<open>null\<close> among them) raises a TypeError (\<open>None\<close>) before anything is pushed.
\<close>

definition vertex_at :: "vec3 list \<Rightarrow> nat option \<Rightarrow> vec3 option" where
  "vertex_at vs v = (case v of None \<Rightarrow> None | Some n \<Rightarrow> array_get vs n)"

fun all_defined :: "'a option list \<Rightarrow> 'a list option" where
  "all_defined [] = Some []"
| "all_defined (None # vs) = None"
| "all_defined (Some v # vs) = map_option (Cons v) (all_defined vs)"

definition centroid_index :: "nat option list \<Rightarrow> Subdivision \<Rightarrow> (nat \<times> Subdivision) option" where
  "centroid_index ps st =
     (let key = js_join ps
      in case share_points st key of
           Some ci \<Rightarrow> Some (ci, st)
         | None \<Rightarrow>
             (let ci = length (vertices (sd_shape st))
              in case all_defined (map (vertex_at (vertices (sd_shape st))) ps) of
                   None \<Rightarrow> None
                 | Some pts \<Rightarrow>
                     Some (ci,
                       st\<lparr> sd_shape := (sd_shape st)\<lparr> vertices :=
                                vertices (sd_shape st) @ [averagePoints pts] \<rparr>,
                           share_points := (share_points st)(key \<mapsto> ci) \<rparr>)))"

fun centroid_indices ::
  "nat option list list \<Rightarrow> Subdivision \<Rightarrow> (nat list \<times> Subdivision) outcome" where
  "centroid_indices [] st = Returns ([], st)"
| "centroid_indices (ps # rest) st =
     (case centroid_index ps st of
        None \<Rightarrow> Throws TypeError ([], st)
      | Some (ci, st1) \<Rightarrow>
          (case centroid_indices rest st1 of
             Returns (nis, st2) \<Rightarrow> Returns (ci # nis, st2)
           | Throws e (nis, st2) \<Rightarrow> Throws e (ci # nis, st2)))"

text \<open>
  One face of \<open>linearSubdivide\<close>. After the inner loop \<open>ni\<close> holds five vertex
  indices; the face is replaced by the first new quad and the other three are pushed.
\<close>

definition linearSubdivide_face :: "nat \<Rightarrow> Subdivision \<Rightarrow> Subdivision outcome" where
  "linearSubdivide_face i st =
     (let quad = quads (sd_shape st) ! i;
          a0 = i0 quad; a1 = i1 quad; a2 = i2 quad; a3 = i3 quad;
          ni = [js_sort [Some a0, Some a1],
                js_sort [Some a1, Some a2],
                js_sort [Some a2, a3],
                js_sort [a3, Some a0],
                js_sort [Some a0, Some a1, Some a2, a3]]
      in case centroid_indices ni st of
           Throws e (nis, st1) \<Rightarrow> Throws e st1
         | Returns (nis, st1) \<Rightarrow>
             (let q0 = QuadFace_new a0 (nis ! 0) (nis ! 4) (Some (nis ! 3));
                  q1 = QuadFace_new (nis ! 0) a1 (nis ! 1) (Some (nis ! 4));
                  q2 = QuadFace_new (nis ! 4) (nis ! 1) a2 (Some (nis ! 2));
                  q3 = QuadFace_new (nis ! 3) (nis ! 4) (nis ! 2) a3;
                  s1 = sd_shape st1
              in Returns (st1\<lparr> sd_shape :=
                                s1\<lparr> quads := (quads s1)[i := q0] @ [q1, q2, q3] \<rparr> \<rparr>)))"

fun linearSubdivide_loop :: "nat list \<Rightarrow> Subdivision \<Rightarrow> Subdivision outcome" where
  "linearSubdivide_loop [] st = Returns st"
| "linearSubdivide_loop (i # rest) st =
     and_then (linearSubdivide_face i st) (linearSubdivide_loop rest)"

definition linearSubdivide :: "Shape \<Rightarrow> Shape outcome" where
  "linearSubdivide shape =
     (let num_quads = length (quads shape)
      in case linearSubdivide_loop [0..<num_quads]
                \<lparr> sd_shape = shape, share_points = Map.empty \<rparr> of
           Throws e st \<Rightarrow> Throws e (sd_shape st)
         | Returns st \<Rightarrow> rebuildMeta (sd_shape st))"

section \<open>Verified properties\<close>

subsection \<open>Composition order of the Transform operations\<close>




subsection \<open>Rounding to doubles\<close>

text \<open>
  A real that is the value of a double rounds to itself, a real strictly within half a
  unit in the last place of a double rounds to that double, and a quotient of at most
  \<open>2 ^ 1023\<close> does not overflow.
\<close>

lemma floor_log2:
  assumes "2 powi k \<le> \<bar>x\<bar>" and "\<bar>x\<bar> < 2 powi (k + 1)"
  shows "\<lfloor>log 2 \<bar>x\<bar>\<rfloor> = k"
proof -
  have pos: "0 < \<bar>x\<bar>"
    using assms(1) zero_less_power_int [of "2::real" k] by linarith
  have a: "(2::real) powr real_of_int k = 2 powi k"
    by (rule powr_real_of_int') simp_all
  have b: "(2::real) powr real_of_int (k + 1) = 2 powi (k + 1)"
    by (rule powr_real_of_int') simp_all
  have "(1::real) < 2" by simp
  from floor_log_eq_powr_iff [OF pos this, of k] show ?thesis
    using assms by (simp only: a b simp_thms)
qed

lemma floor_log2_less:
  assumes "x \<noteq> 0" and "\<bar>x\<bar> < 2 powi k"
  shows "\<lfloor>log 2 \<bar>x\<bar>\<rfloor> < k"
proof -
  have pos: "0 < \<bar>x\<bar>" using assms(1) by simp
  have "(2::real) powr real_of_int k = 2 powi k"
    by (simp add: powr_real_of_int')
  then have "log 2 \<bar>x\<bar> < real_of_int k"
    using assms(2) pos by (simp add: log_less_iff)
  then show ?thesis by (simp add: floor_less_iff)
qed

lemma round_half_even_of_int: "round_half_even (of_int n) = n"
  by (simp add: round_half_even_def)

lemma round_half_even_near:
  assumes "\<bar>q - of_int m\<bar> < 1 / 2"
  shows "round_half_even q = m"
proof (cases "of_int m \<le> q")
  case True
  then have "\<lfloor>q\<rfloor> = m" using assms by (simp add: floor_eq_iff, linarith?)
  then show ?thesis using assms True by (simp add: round_half_even_def, linarith?)
next
  case False
  then have "\<lfloor>q\<rfloor> = m - 1" using assms by (simp add: floor_eq_iff, linarith?)
  then show ?thesis using assms False by (simp add: round_half_even_def, linarith?)
qed

lemma nearest_0: "nearest 0 = 0"
  by (simp add: nearest_def round_half_even_def)

lemma nearest_exact:
  assumes "x = of_int m * 2 powi e" and "\<bar>m\<bar> < 2 ^ 53" and "- 1074 \<le> e"
  shows "nearest x = x"
proof (cases "x = 0")
  case True
  then show ?thesis by (simp add: nearest_0)
next
  case False
  let ?u = "ulp_exponent x"
  have "\<bar>x\<bar> = of_int \<bar>m\<bar> * 2 powi e"
    using assms(1) by (simp add: abs_mult)
  also have "\<dots> < 2 ^ 53 * 2 powi e"
  proof -
    have "real_of_int \<bar>m\<bar> < real_of_int (2 ^ 53)"
      using assms(2) by (simp only: of_int_less_iff)
    then show ?thesis by simp
  qed
  also have "\<dots> = 2 powi (53 + e)"
    by (simp add: power_int_add)
  finally have "\<lfloor>log 2 \<bar>x\<bar>\<rfloor> < 53 + e"
    using floor_log2_less [OF False] by simp
  then have u: "?u \<le> e"
    using assms(3) by (simp add: ulp_exponent_def)
  have "x / 2 powi ?u = of_int m * 2 powi (e - ?u)"
    using assms(1) by (simp add: power_int_diff)
  also have "(2::real) powi (e - ?u) = 2 ^ nat (e - ?u)"
    using u by (simp add: power_int_def)
  also have "of_int m * (2::real) ^ nat (e - ?u) = of_int (m * 2 ^ nat (e - ?u))"
    by simp
  finally have "round_half_even (x / 2 powi ?u) = m * 2 ^ nat (e - ?u)"
    by (simp only: round_half_even_of_int)
  then have "nearest x = of_int (m * 2 ^ nat (e - ?u)) * 2 powi ?u"
    by (simp add: nearest_def)
  also have "\<dots> = of_int m * (2 powi (e - ?u) * 2 powi ?u)"
    using u by (simp add: power_int_def)
  also have "\<dots> = x"
    using assms(1) by (simp add: power_int_add [symmetric])
  finally show ?thesis .
qed

lemma nearest_near:
  assumes "2 powi (52 + e) \<le> \<bar>x\<bar>" and "\<bar>x\<bar> < 2 powi (53 + e)" and "- 1074 \<le> e"
    and "\<bar>x / 2 powi e - of_int m\<bar> < 1 / 2"
  shows "nearest x = of_int m * 2 powi e"
proof -
  have "\<lfloor>log 2 \<bar>x\<bar>\<rfloor> = 52 + e"
    using floor_log2 [of "52 + e" x] assms(1,2) by (simp add: add.commute add.left_commute)
  then have "ulp_exponent x = e"
    using assms(3) by (simp add: ulp_exponent_def)
  then show ?thesis
    using round_half_even_near [OF assms(4)] by (simp add: nearest_def)
qed

lemma rounded_0: "rounded s 0 = (if s then NegZero else Fin 0)"
  by (simp add: rounded_def nearest_0)

lemma rounded_exact:
  assumes "is_double x" and "x \<noteq> 0"
  shows "rounded s x = Fin x"
proof -
  obtain m e where me: "x = of_int m * 2 powi e" "\<bar>m\<bar> < 2 ^ 53" "- 1074 \<le> e" "e \<le> 971"
    using assms(1) by (auto simp: is_double_def)
  have n: "nearest x = x"
    using me by (intro nearest_exact)
  have "\<bar>x\<bar> = of_int \<bar>m\<bar> * 2 powi e"
    using me(1) by (simp add: abs_mult)
  also have "\<dots> < 2 ^ 53 * 2 powi e"
  proof -
    have "real_of_int \<bar>m\<bar> < real_of_int (2 ^ 53)"
      using me(2) by (simp only: of_int_less_iff)
    then show ?thesis by simp
  qed
  also have "\<dots> \<le> 2 ^ 53 * 2 powi 971"
    using power_int_increasing [of e 971 "2::real"] me(4) by simp
  also have "\<dots> = 2 ^ 1024"
    by (simp add: power_int_def)
  finally show ?thesis
    using n assms(2) by (simp add: rounded_def)
qed

lemma is_doubleI:
  assumes "x = of_int m * 2 powi e" and "\<bar>m\<bar> < 2 ^ 53" and "- 1074 \<le> e" and "e \<le> 971"
  shows "is_double x"
  using assms unfolding is_double_def by blast

lemma is_double_0: "is_double 0"
  by (rule is_doubleI [of 0 0 0]) simp_all

lemma is_double_quarters:
  assumes "4 * x \<in> \<int>" and "\<bar>4 * x\<bar> < 2 ^ 53"
  shows "is_double x"
proof -
  obtain k where k: "4 * x = of_int k"
    using assms(1) by (auto elim: Ints_cases)
  have "real_of_int \<bar>k\<bar> < real_of_int (2 ^ 53)"
    using assms(2) k by simp
  then have "\<bar>k\<bar> < 2 ^ 53"
    by (simp only: of_int_less_iff)
  moreover have "x = of_int k * 2 powi (- 2)"
    using k by (simp add: power_int_def power2_eq_square)
  ultimately show ?thesis
    by (intro is_doubleI [of x k "- 2"]) simp_all
qed

lemma rounded_double:
  assumes "is_double x"
  shows "rounded (x < 0) x = Fin x"
  using assms rounded_exact [of x "x < 0"] by (cases "x = 0") (simp_all add: rounded_0)

lemma rounded_quarters:
  assumes "4 * x \<in> \<int>" and "\<bar>4 * x\<bar> < 2 ^ 53" and "x \<noteq> 0"
  shows "rounded s x = Fin x"
  using rounded_exact [OF is_double_quarters [OF assms(1,2)] assms(3)] .

lemma jmul_Fin: "jmul (Fin a) (Fin b) = rounded ((a < 0) \<noteq> (b < 0)) (a * b)"
  by (simp add: jmul_def is_inf_def)

lemma jdiv_Fin: "b \<noteq> 0 \<Longrightarrow> jdiv (Fin a) (Fin b) = rounded ((a < 0) \<noteq> (b < 0)) (a / b)"
  by (simp add: jdiv_def is_inf_def is_zero_def)

lemma jadd_Fin: "jadd (Fin a) (Fin b) = rounded (a + b < 0) (a + b)"
  by (simp add: jadd_def is_inf_def is_zero_def rounded_0)

lemma jadd_Fin_NegZero: "jadd (Fin a) NegZero = rounded (a < 0) a"
  by (simp add: jadd_def is_inf_def is_zero_def rounded_0)

lemma jadd_NegZero_Fin: "jadd NegZero (Fin a) = rounded (a < 0) a"
  by (simp add: jadd_def is_inf_def is_zero_def rounded_0)

lemma jadd_NegZero_NegZero: "jadd NegZero NegZero = NegZero"
  by (simp add: jadd_def is_inf_def is_zero_def)

lemma jmul_Fin_NegZero: "jmul (Fin a) NegZero = (if a < 0 then Fin 0 else NegZero)"
  by (simp add: jmul_def is_inf_def rounded_0)

lemma jmul_NegZero_Fin: "jmul NegZero (Fin a) = (if a < 0 then Fin 0 else NegZero)"
  by (simp add: jmul_def is_inf_def rounded_0)

lemmas f64_eval =
  jmul_Fin jadd_Fin jadd_Fin_NegZero jadd_NegZero_Fin jadd_NegZero_NegZero
  jmul_Fin_NegZero jmul_NegZero_Fin rounded_0 rounded_quarters jsub_def

lemma multiplyAffine_f64_identity:
  "multiplyAffine_f64 (AffineMatrix_f64 makeIdentityAffine) (AffineMatrix_f64 makeIdentityAffine)
   = AffineMatrix_f64 makeIdentityAffine"
  by (simp add: multiplyAffine_f64_def AffineMatrix_f64_def makeIdentityAffine_def f64_eval)

lemma transAdjoint_f64_identity:
  "transAdjoint_f64 (AffineMatrix_f64 makeIdentityAffine) = AffineMatrix_f64 makeIdentityAffine"
  by (simp add: transAdjoint_f64_def AffineMatrix_f64_def makeIdentityAffine_def f64_eval)

lemma identity_row:
  assumes "is_double x"
  shows "jadd (jadd (jadd (jmul (Fin 1) (Fin x)) (jmul (Fin 0) (Fin y))) (jmul (Fin 0) (Fin z)))
           (Fin 0) = Fin x"
    and "jadd (jadd (jadd (jmul (Fin 0) (Fin y)) (jmul (Fin 1) (Fin x))) (jmul (Fin 0) (Fin z)))
           (Fin 0) = Fin x"
    and "jadd (jadd (jadd (jmul (Fin 0) (Fin y)) (jmul (Fin 0) (Fin z))) (jmul (Fin 1) (Fin x)))
           (Fin 0) = Fin x"
  using rounded_double [OF assms] rounded_double [OF is_double_0]
  by (simp_all add: jmul_Fin jadd_Fin jadd_Fin_NegZero jadd_NegZero_Fin jadd_NegZero_NegZero
      rounded_0)

lemma transformPoint_f64_identity:
  assumes "is_double (px p)" and "is_double (py p)" and "is_double (pz p)"
  shows "transformPoint_f64 (AffineMatrix_f64 makeIdentityAffine) (vec3_f64 p) = vec3_f64 p"
  using assms
  by (simp add: transformPoint_f64_def AffineMatrix_f64_def makeIdentityAffine_def vec3_f64_def
      identity_row)

lemma round_half_even_nonneg: "0 \<le> q \<Longrightarrow> 0 \<le> round_half_even q"
  by (simp add: round_half_even_def Let_def)

lemma round_half_even_le:
  assumes "q \<le> of_int N"
  shows "round_half_even q \<le> N"
proof (cases "q = of_int N")
  case True
  then show ?thesis by (simp add: round_half_even_of_int)
next
  case False
  then have "q < of_int N" using assms by simp
  then have "\<lfloor>q\<rfloor> < N" by (simp add: floor_less_iff)
  then show ?thesis by (simp add: round_half_even_def Let_def)
qed

lemma nearest_nonneg:
  assumes "0 \<le> x"
  shows "0 \<le> nearest x"
proof -
  have "0 \<le> x / 2 powi ulp_exponent x"
    using assms by simp
  then have "0 \<le> round_half_even (x / 2 powi ulp_exponent x)"
    by (rule round_half_even_nonneg)
  then show ?thesis by (simp add: nearest_def)
qed

lemma nearest_le_power:
  assumes "0 \<le> x" and "x \<le> 2 powi k" and "- 1074 \<le> k"
  shows "nearest x \<le> 2 powi k"
proof (cases "x = 0 \<or> x = 2 powi k")
  case True
  then show ?thesis
  proof
    assume "x = 0"
    then show ?thesis by (simp add: nearest_0)
  next
    assume "x = 2 powi k"
    then have "nearest x = x"
      using assms(3) by (intro nearest_exact [of x 1 k]) simp_all
    then show ?thesis using assms(2) by simp
  qed
next
  case False
  let ?u = "ulp_exponent x"
  have lt: "\<bar>x\<bar> < 2 powi k" and nz: "x \<noteq> 0"
    using False assms(1,2) by simp_all
  have "\<lfloor>log 2 \<bar>x\<bar>\<rfloor> < k"
    using floor_log2_less [OF nz lt] .
  then have u: "?u \<le> k"
    using assms(3) by (simp add: ulp_exponent_def)
  have pos: "(0::real) < 2 powi ?u"
    by simp
  have "x / 2 powi ?u \<le> 2 powi k / 2 powi ?u"
    using assms(2) pos by (simp add: divide_right_mono)
  also have "\<dots> = 2 powi (k - ?u)"
    by (simp add: power_int_diff)
  also have "\<dots> = of_int (2 ^ nat (k - ?u))"
    using u by (simp add: power_int_def)
  finally have "round_half_even (x / 2 powi ?u) \<le> 2 ^ nat (k - ?u)"
    by (rule round_half_even_le)
  then have "real_of_int (round_half_even (x / 2 powi ?u)) \<le> real_of_int (2 ^ nat (k - ?u))"
    by (simp only: of_int_le_iff)
  then have "nearest x \<le> of_int (2 ^ nat (k - ?u)) * 2 powi ?u"
    using pos unfolding nearest_def by (intro mult_right_mono) simp_all
  also have "\<dots> = 2 powi (k - ?u) * 2 powi ?u"
    using u by (simp add: power_int_def)
  also have "\<dots> = 2 powi k"
    by (simp add: power_int_add [symmetric])
  finally show ?thesis .
qed

lemma rounded_nonneg_cases:
  assumes "0 \<le> x"
  shows "rounded False x = PosInf \<or> (\<exists>y. 0 \<le> y \<and> rounded False x = Fin y)"
  using nearest_nonneg [OF assms] by (auto simp: rounded_def Let_def)

lemma rounded_below_overflow:
  assumes "0 \<le> x" and "x \<le> 2 ^ 1023"
  shows "rounded False x \<noteq> PosInf"
proof -
  have "nearest x \<le> 2 powi 1023"
    using assms by (intro nearest_le_power) simp_all
  also have "\<dots> < (2::real) ^ 1024"
    by simp
  finally have "\<bar>nearest x\<bar> < 2 ^ 1024"
    using nearest_nonneg [OF assms(1)] by simp
  then show ?thesis
    by (simp add: rounded_def Let_def)
qed

lemma jdiv_no_overflow:
  assumes "0 < f" and "0 < d" and "f / d \<le> 2 ^ 1023"
  shows "jdiv (Fin f) (Fin d) \<noteq> PosInf"
  using assms rounded_below_overflow [of "f / d"] by (simp add: jdiv_Fin)

lemma inverse_power_int_neg: "1 / (2::real) powi (- k) = 2 powi k"
  by (simp add: power_int_minus divide_inverse)

lemma rounded_power_overflow:
  assumes "1024 \<le> k"
  shows "rounded False (2 powi k) = PosInf"
proof -
  have n: "nearest (2 powi k) = 2 powi k"
    using assms by (intro nearest_exact [of _ 1 k]) simp_all
  have "(2::real) powi 1024 \<le> 2 powi k"
    using assms by (intro power_int_increasing) simp_all
  then have "(2::real) ^ 1024 \<le> 2 powi k"
    by simp
  moreover have "(0::real) < 2 powi k"
    by simp
  ultimately show ?thesis
    unfolding rounded_def Let_def n by (simp del: power_int_numeral)
qed

lemma jdiv_overflow: "jdiv (Fin 1) (Fin (2 powi (- 1074))) = PosInf"
proof -
  define d :: real where "d = 2 powi (- 1074)"
  have dpos: "0 < d"
    unfolding d_def by (rule zero_less_power_int) simp
  have q: "1 / d = 2 powi 1074"
    unfolding d_def by (rule inverse_power_int_neg)
  have "jdiv (Fin 1) (Fin d) = rounded False (1 / d)"
    using dpos by (simp add: jdiv_Fin)
  also have "\<dots> = PosInf"
    unfolding q by (rule rounded_power_overflow) simp
  finally show ?thesis
    unfolding d_def .
qed

lemma axis_point_projection:
  assumes "0 < f" and "0 < d" and "is_double d"
    and "focal_length (camera r) = f"
    and "mat (Camera.transform (camera r)) = makeIdentityAffine"
    and "mat (Renderer.transform r) = makeIdentityAffine"
    and "r_scale r = r_height r / 2" and "r_xoff r = r_width r / 2"
    and "is_double (r_width r / 2)" and "is_double (r_height r / 2)"
  shows "projectPointToCanvas r
           (transformPoint_f64
              (multiplyAffine_f64 (AffineMatrix_f64 (mat (Camera.transform (camera r))))
                 (AffineMatrix_f64 (mat (Renderer.transform r))))
              (vec3_f64 \<lparr> px = 0, py = 0, pz = - d \<rparr>))
         = (if jdiv (Fin f) (Fin d) = PosInf
            then \<lparr> gx = NaN, gy = NaN \<rparr>
            else \<lparr> gx = Fin (r_width r / 2), gy = Fin (r_height r / 2) \<rparr>)"
proof -
  have dd: "is_double (- d)"
  proof -
    obtain m e where "d = of_int m * 2 powi e" "\<bar>m\<bar> < 2 ^ 53" "- 1074 \<le> e" "e \<le> 971"
      using assms(3) by (auto simp: is_double_def)
    then show ?thesis
      by (intro is_doubleI [of "- d" "- m" e]) simp_all
  qed
  have p: "transformPoint_f64
             (multiplyAffine_f64 (AffineMatrix_f64 (mat (Camera.transform (camera r))))
                (AffineMatrix_f64 (mat (Renderer.transform r))))
             (vec3_f64 \<lparr> px = 0, py = 0, pz = - d \<rparr>)
           = \<lparr> fx = Fin 0, fy = Fin 0, fz = Fin (- d) \<rparr>"
    using transformPoint_f64_identity [of "\<lparr> px = 0, py = 0, pz = - d \<rparr>"] dd
    by (simp add: assms(5,6) multiplyAffine_f64_identity is_double_0 vec3_f64_def)
  have w: "r_width r \<noteq> 0 \<Longrightarrow> rounded s (r_width r / 2) = Fin (r_width r / 2)" for s
    using assms(9) by (intro rounded_exact) simp_all
  have h: "r_height r \<noteq> 0 \<Longrightarrow> rounded s (r_height r / 2) = Fin (r_height r / 2)" for s
    using assms(10) by (intro rounded_exact) simp_all
  have w0: "rounded (r_width r < 0) (r_width r / 2) = Fin (r_width r / 2)"
    using rounded_double [OF assms(9)] by simp
  have h0: "rounded (r_height r < 0) (r_height r / 2) = Fin (r_height r / 2)"
    using rounded_double [OF assms(10)] by simp
  have v: "jdiv (Fin f) (Fin d) = rounded False (f / d)"
    using assms(1,2) by (simp add: jdiv_Fin)
  consider "rounded False (f / d) = PosInf"
    | y where "0 \<le> y" "rounded False (f / d) = Fin y"
    using rounded_nonneg_cases [of "f / d"] assms(1,2) by auto
  then show ?thesis
  proof cases
    case 1
    then show ?thesis
      using assms(2) by (simp add: projectPointToCanvas_def p v assms(4) Let_def jmul_def
          jadd_def is_inf_def is_zero_def)
  next
    case 2
    show ?thesis
      using assms(2) 2 w h w0 h0
      by (simp add: projectPointToCanvas_def p v assms(4,7,8) Let_def jmul_Fin jadd_Fin
          jadd_Fin_NegZero jadd_NegZero_Fin jmul_Fin_NegZero jmul_NegZero_Fin rounded_0
          jadd_NegZero_NegZero)
  qed
qed

subsection \<open>Projection\<close>

text \<open>
  Claim C4, as the code computes it. With identity camera and object transforms, a
  positive focal length f and a double d > 0, the point (0, 0, -d) projects to the centre
  of the surface, (width / 2, height / 2), unless the quotient f / d, computed in
  doubles, overflows to Infinity: then both coordinates are NaN, since zero times
  Infinity is NaN. The renderer's scale and x offset are the values its constructor
  derives from the surface's height and width, and they are doubles. By
  \<open>jdiv_no_overflow\<close> the quotient does not overflow when f / d is at most
  \<open>2 ^ 1023\<close>.
\<close>

theorem projectPointToCanvas_axis_point_centre_unless_overflow:
  assumes "0 < f" and "0 < d" and "is_double d"
    and "focal_length (camera r) = f"
    and "mat (Camera.transform (camera r)) = makeIdentityAffine"
    and "mat (Renderer.transform r) = makeIdentityAffine"
    and "r_scale r = r_height r / 2" and "r_xoff r = r_width r / 2"
    and "is_double (r_width r / 2)" and "is_double (r_height r / 2)"
  shows "projectPointToCanvas r
           (transformPoint_f64
              (multiplyAffine_f64 (AffineMatrix_f64 (mat (Camera.transform (camera r))))
                 (AffineMatrix_f64 (mat (Renderer.transform r))))
              (vec3_f64 \<lparr> px = 0, py = 0, pz = - d \<rparr>))
         = (if jdiv (Fin f) (Fin d) = PosInf
            then \<lparr> gx = NaN, gy = NaN \<rparr>
            else \<lparr> gx = Fin (r_width r / 2), gy = Fin (r_height r / 2) \<rparr>)"
  using assms by (rule axis_point_projection)

theorem projectPointToCanvas_axis_point_centre_unless_overflow_witness:
  "projectPointToCanvas (Renderer_new 640 480)
     (transformPoint_f64
        (multiplyAffine_f64
           (AffineMatrix_f64 (mat (Camera.transform (camera (Renderer_new 640 480)))))
           (AffineMatrix_f64 (mat (Renderer.transform (Renderer_new 640 480)))))
        (vec3_f64 \<lparr> px = 0, py = 0, pz = - 5 \<rparr>))
   = \<lparr> gx = Fin 320, gy = Fin 240 \<rparr>"
proof -
  have v: "jdiv (Fin 1) (Fin 5) \<noteq> PosInf"
    by (rule jdiv_no_overflow) simp_all
  have d: "is_double 5" "is_double 320" "is_double 240"
    by (rule is_double_quarters; simp)+
  show ?thesis
    using projectPointToCanvas_axis_point_centre_unless_overflow
            [of 1 5 "Renderer_new 640 480"] v d
    by (simp add: Renderer_new_def Camera_new_def Transform_new_def)
qed

text \<open>
  Claim C4 as the specification words it fails: with focal length 1 on a surface of 640
  by 480 and d the smallest positive double, \<open>2 powi (- 1074)\<close>, the quotient
  overflows and the point (0, 0, -d) projects to (NaN, NaN), not to (320, 240).
\<close>

theorem projectPointToCanvas_overflow_counterexample:
  "projectPointToCanvas (Renderer_new 640 480)
     (transformPoint_f64
        (multiplyAffine_f64
           (AffineMatrix_f64 (mat (Camera.transform (camera (Renderer_new 640 480)))))
           (AffineMatrix_f64 (mat (Renderer.transform (Renderer_new 640 480)))))
        (vec3_f64 \<lparr> px = 0, py = 0, pz = - (2 powi (- 1074)) \<rparr>))
   = \<lparr> gx = NaN, gy = NaN \<rparr>
   \<and> \<lparr> gx = NaN, gy = NaN \<rparr> \<noteq> \<lparr> gx = Fin (640 / 2), gy = Fin (480 / 2) \<rparr>"
proof -
  define d :: real where "d = 2 powi (- 1074)"
  have dpos: "0 < d"
    unfolding d_def by (rule zero_less_power_int) simp
  have dd: "is_double d"
    unfolding d_def by (rule is_doubleI [of _ 1 "- 1074"]) simp_all
  have ov: "jdiv (Fin 1) (Fin d) = PosInf"
    unfolding d_def by (rule jdiv_overflow)
  have c: "is_double 320" "is_double 240"
    by (rule is_double_quarters; simp)+
  have "projectPointToCanvas (Renderer_new 640 480)
     (transformPoint_f64
        (multiplyAffine_f64
           (AffineMatrix_f64 (mat (Camera.transform (camera (Renderer_new 640 480)))))
           (AffineMatrix_f64 (mat (Renderer.transform (Renderer_new 640 480)))))
        (vec3_f64 \<lparr> px = 0, py = 0, pz = - d \<rparr>))
   = \<lparr> gx = NaN, gy = NaN \<rparr>"
    using axis_point_projection [of 1 d "Renderer_new 640 480"] dpos dd ov c
    by (simp add: Renderer_new_def Camera_new_def Transform_new_def)
  moreover have "\<lparr> gx = NaN, gy = NaN \<rparr> \<noteq> \<lparr> gx = Fin (640 / 2), gy = Fin (480 / 2) \<rparr>"
    by simp
  ultimately show ?thesis
    unfolding d_def by (rule conjI)
qed


subsection \<open>Cached metadata and triangulation\<close>




lemma rebuildMeta_face_indices:
  "rebuildMeta_face vs f = Some g \<Longrightarrow> indices g = indices f"
  by (auto simp: rebuildMeta_face_def indices_def Let_def split: option.splits)

lemma rebuildMeta_face_in_bounds:
  "in_bounds vs f \<Longrightarrow> \<exists>g. rebuildMeta_face vs f = Some g"
  by (auto simp: rebuildMeta_face_def in_bounds_def array_get_def Let_def split: option.splits)



lemma rebuildMeta_loop_indices:
  "map indices (state_of (rebuildMeta_loop vs fs)) = map indices fs"
  by (induction fs) (auto simp: rebuildMeta_face_indices split: option.splits outcome.splits)

lemma rebuildMeta_loop_returns:
  "\<forall>f \<in> set fs. in_bounds vs f \<Longrightarrow> \<exists>gs. rebuildMeta_loop vs fs = Returns gs"
proof (induction fs)
  case Nil
  then show ?case by simp
next
  case (Cons f fs)
  then obtain g gs where "rebuildMeta_face vs f = Some g" "rebuildMeta_loop vs fs = Returns gs"
    using rebuildMeta_face_in_bounds by fastforce
  then show ?case by simp
qed


lemma rebuildMeta_vertices: "vertices (state_of (rebuildMeta s)) = vertices s"
  by (simp add: rebuildMeta_def split: outcome.splits)

lemma rebuildMeta_indices:
  "map indices (quads (state_of (rebuildMeta s))) = map indices (quads s)"
  using rebuildMeta_loop_indices [of "vertices s" "quads s"]
  by (cases "rebuildMeta_loop (vertices s) (quads s)") (simp_all add: rebuildMeta_def)

lemma rebuildMeta_returns:
  "\<forall>f \<in> set (quads s). in_bounds (vertices s) f \<Longrightarrow> \<exists>s'. rebuildMeta s = Returns s'"
  using rebuildMeta_loop_returns [of "quads s" "vertices s"]
  by (auto simp: rebuildMeta_def)



lemma triangulate_step_at:
  assumes "length A = i"
  shows "triangulate_step i (A @ f # B @ C)
         = A @ truncated f # B @ C @ map second_half (filter (\<lambda>f. i3 f \<noteq> None) [f])"
  using assms
  by (cases "i3 f")
     (auto simp: triangulate_step_def truncated_def second_half_def Let_def
        nth_append list_update_append)

lemma fold_triangulate_step:
  "k \<le> length fs \<Longrightarrow>
     fold triangulate_step [0..<k] fs
     = map truncated (take k fs) @ drop k fs
       @ map second_half (filter (\<lambda>f. i3 f \<noteq> None) (take k fs))"
proof (induction k)
  case 0
  then show ?case by simp
next
  case (Suc k)
  then have k: "k < length fs" by simp
  have d: "drop k fs = fs ! k # drop (Suc k) fs"
    using k by (simp add: Cons_nth_drop_Suc)
  have tk: "take (Suc k) fs = take k fs @ [fs ! k]"
    using k by (simp add: take_Suc_conv_app_nth)
  have "fold triangulate_step [0..<Suc k] fs
        = triangulate_step k (fold triangulate_step [0..<k] fs)"
    by simp
  also have "\<dots> = triangulate_step k
      (map truncated (take k fs) @ fs ! k # drop (Suc k) fs
       @ map second_half (filter (\<lambda>f. i3 f \<noteq> None) (take k fs)))"
    using Suc d by simp
  also have "\<dots> = map truncated (take k fs) @ truncated (fs ! k) # drop (Suc k) fs
       @ map second_half (filter (\<lambda>f. i3 f \<noteq> None) (take k fs))
       @ map second_half (filter (\<lambda>f. i3 f \<noteq> None) [fs ! k])"
    using k by (intro triangulate_step_at) simp
  also have "\<dots> = map truncated (take (Suc k) fs) @ drop (Suc k) fs
       @ map second_half (filter (\<lambda>f. i3 f \<noteq> None) (take (Suc k) fs))"
    by (simp add: tk)
  finally show ?case .
qed

lemma triangulate_faces:
  "fold triangulate_step [0..<length fs] fs
   = map truncated fs @ map second_half (filter (\<lambda>f. i3 f \<noteq> None) fs)"
  using fold_triangulate_step [of "length fs" fs] by simp

lemma triangulate_all_triangles:
  "\<forall>f \<in> set (fold triangulate_step [0..<length fs] fs). i3 f = None"
  by (auto simp: triangulate_faces truncated_def second_half_def QuadFace_new_def)

lemma i3_via_indices: "map indices fs = map indices gs \<Longrightarrow> map i3 fs = map i3 gs"
proof -
  assume "map indices fs = map indices gs"
  then have "map (\<lambda>p. snd (snd (snd p))) (map indices fs) = map (\<lambda>p. snd (snd (snd p))) (map indices gs)"
    by simp
  then show ?thesis by (simp add: indices_def comp_def)
qed

lemma filter_quads_none:
  "\<forall>f \<in> set fs. i3 f = None \<Longrightarrow> filter (\<lambda>f. i3 f \<noteq> None) fs = []"
  by (induction fs) auto

lemma all_triangles_via_indices:
  assumes "map indices gs = map indices fs" and "\<forall>f \<in> set fs. i3 f = None"
  shows "\<forall>g \<in> set gs. i3 g = None"
proof -
  have "set (map i3 gs) = set (map i3 fs)"
    using i3_via_indices [OF assms(1)] by simp
  then show ?thesis using assms(2) by (metis (no_types, lifting) image_iff list.set_map)
qed

text \<open>
  Claim C8. \<open>triangulate\<close> turns every quad face (i0, i1, i2, i3) in place into the
  triangle (i0, i1, i2) and appends the triangle (i0, i2, i3), in the order of the quads,
  leaving the vertex positions unchanged; triangulating the result again changes neither
  the number of faces nor the vertex positions. The statement is about the shape the
  call leaves behind, whether the final \<open>rebuildMeta\<close> returns or raises.
\<close>

theorem triangulate_splits_quads:
  "vertices (state_of (triangulate s)) = vertices s
   \<and> map indices (quads (state_of (triangulate s)))
       = map (\<lambda>f. (i0 f, i1 f, i2 f, None)) (quads s)
         @ map (\<lambda>f. (i0 f, i2 f, the (i3 f), None)) (filter (\<lambda>f. i3 f \<noteq> None) (quads s))
   \<and> length (quads (state_of (triangulate (state_of (triangulate s)))))
       = length (quads (state_of (triangulate s)))
   \<and> vertices (state_of (triangulate (state_of (triangulate s))))
       = vertices (state_of (triangulate s))"
proof -
  let ?t = "state_of (triangulate s)"
  have v: "vertices ?t = vertices s"
    by (simp add: triangulate_def rebuildMeta_vertices Let_def)
  have idx: "map indices (quads ?t)
      = map indices (map truncated (quads s)
          @ map second_half (filter (\<lambda>f. i3 f \<noteq> None) (quads s)))"
    using rebuildMeta_indices [of "s\<lparr> quads := fold triangulate_step [0..<length (quads s)] (quads s) \<rparr>"]
    by (simp add: triangulate_def Let_def triangulate_faces)
  then have idx': "map indices (quads ?t)
      = map (\<lambda>f. (i0 f, i1 f, i2 f, None)) (quads s)
         @ map (\<lambda>f. (i0 f, i2 f, the (i3 f), None)) (filter (\<lambda>f. i3 f \<noteq> None) (quads s))"
    by (simp add: indices_def truncated_def second_half_def QuadFace_new_def comp_def)
  have tri: "\<forall>g \<in> set (quads ?t). i3 g = None"
  proof (rule all_triangles_via_indices)
    show "map indices (quads ?t) = map indices (fold triangulate_step [0..<length (quads s)] (quads s))"
      using idx by (simp add: triangulate_faces)
    show "\<forall>f \<in> set (fold triangulate_step [0..<length (quads s)] (quads s)). i3 f = None"
      by (rule triangulate_all_triangles)
  qed
  have "map indices (quads (state_of (triangulate ?t)))
      = map indices (fold triangulate_step [0..<length (quads ?t)] (quads ?t))"
    using rebuildMeta_indices [of "?t\<lparr> quads := fold triangulate_step [0..<length (quads ?t)] (quads ?t) \<rparr>"]
    by (simp add: triangulate_def Let_def)
  then have "length (map indices (quads (state_of (triangulate ?t))))
      = length (map indices (fold triangulate_step [0..<length (quads ?t)] (quads ?t)))"
    by simp
  then have len: "length (quads (state_of (triangulate ?t))) = length (quads ?t)"
    using filter_quads_none [OF tri] by (simp add: triangulate_faces)
  have v2: "vertices (state_of (triangulate ?t)) = vertices ?t"
    by (simp add: triangulate_def rebuildMeta_vertices Let_def)
  from v idx' len v2 show ?thesis by blast
qed

text \<open>With all indices in bounds the final \<open>rebuildMeta\<close> does not raise.\<close>

lemma truncated_in_bounds: "in_bounds vs f \<Longrightarrow> in_bounds vs (truncated f)"
  by (simp add: in_bounds_def truncated_def)

lemma second_half_in_bounds:
  "in_bounds vs f \<Longrightarrow> i3 f \<noteq> None \<Longrightarrow> in_bounds vs (second_half f)"
  by (auto simp: in_bounds_def second_half_def QuadFace_new_def)

lemma triangulate_returns:
  assumes "\<forall>f \<in> set (quads s). in_bounds (vertices s) f"
  shows "\<exists>s'. triangulate s = Returns s'"
proof -
  have "\<forall>f \<in> set (fold triangulate_step [0..<length (quads s)] (quads s)).
          in_bounds (vertices s) f"
    using assms truncated_in_bounds second_half_in_bounds
    by (auto simp: triangulate_faces)
  then show ?thesis
    using rebuildMeta_returns
      [of "s\<lparr> quads := fold triangulate_step [0..<length (quads s)] (quads s) \<rparr>"]
    by (simp add: triangulate_def Let_def)
qed

subsection \<open>The circle path\<close>

text \<open>
  Where the trace exists, \<open>drawPath\<close> moves to the projected start and issues one
  curve call per piece, with the projected control and end points of the piece.
\<close>

lemma array_get_map: "array_get (map f xs) i = map_option f (array_get xs i)"
  by (simp add: array_get_def)

lemma drawPath_curves_trace:
  assumes "trace_curves ps cur cs = Some pieces"
  shows "drawPath_curves (map screen ps) cs calls
         = Returns (calls @ map (call_of_piece screen) pieces)"
  using assms
proof (induction cs arbitrary: cur calls pieces)
  case Nil
  then show ?case by simp
next
  case (Cons c cs)
  then show ?case
    by (auto simp: array_get_map isQuadratic_def call_of_piece_def
        split: option.splits)
qed

lemma drawPath_follows_trace:
  assumes "trace_path path = Some pieces"
  shows "drawPath r path fill
         = Returns
             ([BeginPath,
               MoveTo
                 (gx (projectPointToCanvas r (transformPoint_f64
                    (multiplyAffine_f64 (AffineMatrix_f64 (mat (Camera.transform (camera r))))
                       (AffineMatrix_f64 (mat (Renderer.transform r))))
                    (vec3_f64 (case starting_point path of
                       None \<Rightarrow> \<lparr> px = 0, py = 0, pz = 0 \<rparr>
                     | Some k \<Rightarrow> points path ! k)))))
                 (gy (projectPointToCanvas r (transformPoint_f64
                    (multiplyAffine_f64 (AffineMatrix_f64 (mat (Camera.transform (camera r))))
                       (AffineMatrix_f64 (mat (Renderer.transform r))))
                    (vec3_f64 (case starting_point path of
                       None \<Rightarrow> \<lparr> px = 0, py = 0, pz = 0 \<rparr>
                     | Some k \<Rightarrow> points path ! k)))))]
              @ map (call_of_piece (\<lambda>p. projectPointToCanvas r (transformPoint_f64
                    (multiplyAffine_f64 (AffineMatrix_f64 (mat (Camera.transform (camera r))))
                       (AffineMatrix_f64 (mat (Renderer.transform r))))
                    (vec3_f64 p)))) pieces
              @ [if fill then Fill else Stroke])"
proof -
  let ?t = "multiplyAffine_f64 (AffineMatrix_f64 (mat (Camera.transform (camera r))))
              (AffineMatrix_f64 (mat (Renderer.transform r)))"
  let ?screen = "\<lambda>p. projectPointToCanvas r (transformPoint_f64 ?t (vec3_f64 p))"
  have sp: "projectPointsToCanvas r (transformPoints_f64 ?t (map vec3_f64 (points path)))
            = map ?screen (points path)"
    by (simp add: projectPointsToCanvas_def transformPoints_f64_def)
  obtain start where start: "(case starting_point path of
              None \<Rightarrow> Some \<lparr> px = 0, py = 0, pz = 0 \<rparr>
            | Some k \<Rightarrow> array_get (points path) k) = Some start"
      and tr: "trace_curves (points path) start (curves path) = Some pieces"
    using assms by (auto simp: trace_path_def split: option.splits)
  have st: "start = (case starting_point path of
                       None \<Rightarrow> \<lparr> px = 0, py = 0, pz = 0 \<rparr>
                     | Some k \<Rightarrow> points path ! k)"
    using start by (auto simp: array_get_def split: option.splits if_splits)
  have s1: "(case starting_point path of
               None \<Rightarrow> Some (projectPointToCanvas r
                               (transformPoint_f64 ?t \<lparr> fx = Fin 0, fy = Fin 0, fz = Fin 0 \<rparr>))
             | Some k \<Rightarrow>
                 array_get (projectPointsToCanvas r
                              (transformPoints_f64 ?t (map vec3_f64 (points path)))) k)
            = Some (?screen start)"
    using start by (auto simp: sp array_get_map vec3_f64_def split: option.splits)
  have s2: "drawPath_curves (projectPointsToCanvas r
                               (transformPoints_f64 ?t (map vec3_f64 (points path))))
              (curves path) calls
            = Returns (calls @ map (call_of_piece ?screen) pieces)" for calls
    using drawPath_curves_trace [OF tr, of ?screen] by (simp add: sp)
  show ?thesis
    unfolding drawPath_def Let_def s1 s2
    by (simp add: st)
qed

lemma trace_makeCircle:
  "trace_path makeCircle =
     Some [\<lparr> piece_start = \<lparr> px = 0, py = 0, pz = 0 \<rparr>,
              piece_c0 = \<lparr> px = 0, py = 66666666666 / 100000000000, pz = 0 \<rparr>,
              piece_c1 = Some \<lparr> px = 1, py = 66666666666 / 100000000000, pz = 0 \<rparr>,
              piece_end = \<lparr> px = 1, py = 0, pz = 0 \<rparr> \<rparr>,
           \<lparr> piece_start = \<lparr> px = 1, py = 0, pz = 0 \<rparr>,
              piece_c0 = \<lparr> px = 1, py = - (66666666666 / 100000000000), pz = 0 \<rparr>,
              piece_c1 = Some \<lparr> px = 0, py = - (66666666666 / 100000000000), pz = 0 \<rparr>,
              piece_end = \<lparr> px = 0, py = 0, pz = 0 \<rparr> \<rparr>]"
  by (simp add: trace_path_def makeCircle_def Path_new_def Curve_new_def array_get_def Let_def)

text \<open>
  Claim C9, as the code has it. \<open>makeCircle\<close> has exactly two curves, both cubic, and
  no starting point, so its trace starts at the implicit origin. Each curve at
  parameter 0 is where the adjacent curve ends (at parameter 1), and the second curve
  ends at the origin, where the first began: the loop closes at the origin, which is the
  point with index 5, the end point of the second curve.
\<close>

theorem makeCircle_closed_loop_at_origin:
  "\<exists>s1 s2. trace_path makeCircle = Some [s1, s2]
      \<and> length (curves makeCircle) = 2
      \<and> \<not> isQuadratic (curves makeCircle ! 0) \<and> \<not> isQuadratic (curves makeCircle ! 1)
      \<and> starting_point makeCircle = None
      \<and> piece_at s1 0 = \<lparr> px = 0, py = 0, pz = 0 \<rparr>
      \<and> piece_at s2 0 = piece_at s1 1
      \<and> piece_at s1 0 = piece_at s2 1
      \<and> piece_at s2 1 = points makeCircle ! ep (curves makeCircle ! 1)
      \<and> ep (curves makeCircle ! 1) = 5"
  unfolding trace_makeCircle
  by (simp add: piece_at_def bezier3_def makeCircle_def Path_new_def Curve_new_def
      isQuadratic_def Let_def)

text \<open>
  Claim C9 as the specification words it fails: the trace does not come back to the
  point with index 0, which is the first control point (0, 0.66666666666, 0); it ends
  at the origin.
\<close>

theorem makeCircle_not_back_to_point_0_counterexample:
  "trace_path makeCircle =
     Some [\<lparr> piece_start = \<lparr> px = 0, py = 0, pz = 0 \<rparr>,
              piece_c0 = \<lparr> px = 0, py = 66666666666 / 100000000000, pz = 0 \<rparr>,
              piece_c1 = Some \<lparr> px = 1, py = 66666666666 / 100000000000, pz = 0 \<rparr>,
              piece_end = \<lparr> px = 1, py = 0, pz = 0 \<rparr> \<rparr>,
           \<lparr> piece_start = \<lparr> px = 1, py = 0, pz = 0 \<rparr>,
              piece_c0 = \<lparr> px = 1, py = - (66666666666 / 100000000000), pz = 0 \<rparr>,
              piece_c1 = Some \<lparr> px = 0, py = - (66666666666 / 100000000000), pz = 0 \<rparr>,
              piece_end = \<lparr> px = 0, py = 0, pz = 0 \<rparr> \<rparr>]
   \<and> piece_at \<lparr> piece_start = \<lparr> px = 1, py = 0, pz = 0 \<rparr>,
                 piece_c0 = \<lparr> px = 1, py = - (66666666666 / 100000000000), pz = 0 \<rparr>,
                 piece_c1 = Some \<lparr> px = 0, py = - (66666666666 / 100000000000), pz = 0 \<rparr>,
                 piece_end = \<lparr> px = 0, py = 0, pz = 0 \<rparr> \<rparr> 1
       \<noteq> points makeCircle ! 0"
  unfolding trace_makeCircle
  by (simp add: piece_at_def bezier3_def makeCircle_def Path_new_def Let_def)

subsection \<open>Saving and restoring the transform\<close>


lemma set_m_saved:
  assumes "saved t t' a' M stk st"
  shows "saved t t' a' M stk (set_m t b st)"
  using assms
  by (auto simp: saved_def set_m_def new_AffineMatrix_def store_ok_def nth_append
      nth_list_update less_Suc_eq)

lemma read_m_saved:
  assumes "saved t t' a' M stk st" and "u < length (transform_objs st)"
  shows "\<exists>b. read_m st u = Some b"
  using assms by (simp add: saved_def store_ok_def read_m_def array_get_def)

lemma setDCM_saved:
  assumes "saved t t' a' M stk st"
  shows "saved t t' a' M stk
           (st\<lparr> matrix_objs := (matrix_objs st)[transform_objs st ! t := b] \<rparr>)"
  using assms by (auto simp: saved_def store_ok_def)

lemma apply_op_saved:
  assumes "saved t t' a' M stk st" and "mult_target_ok (length (transform_objs st)) opn"
  shows "\<exists>st'. apply_op t a opn st = Returns st' \<and> saved t t' a' M stk st'
            \<and> length (transform_objs st') = length (transform_objs st)"
proof (cases opn)
  case (MultTransform u)
  then obtain b where "read_m st u = Some b"
    using read_m_saved [OF assms(1)] assms(2) by auto
  then show ?thesis
    using MultTransform set_m_saved [OF assms(1)]
    by (simp add: set_m_def new_AffineMatrix_def)
next
  case (SetDCM u v w)
  then show ?thesis using setDCM_saved [OF assms(1)] by simp
qed (use set_m_saved [OF assms(1)] in \<open>simp_all add: set_m_def new_AffineMatrix_def\<close>)

lemma on_current_saved:
  assumes "saved t t' a' M stk st" and "mult_target_ok (length (transform_objs st)) opn"
  shows "\<exists>st'. on_current opn st = Returns st' \<and> saved t t' a' M stk st'
            \<and> length (transform_objs st') = length (transform_objs st)"
proof -
  have "cur_transform st = Some t" and "t < length (transform_objs st)"
    using assms(1) by (simp_all add: saved_def)
  moreover obtain a where "read_m st t = Some a"
    using read_m_saved [OF assms(1)] \<open>t < length (transform_objs st)\<close> by blast
  ultimately show ?thesis
    using apply_op_saved [OF assms, of a] by (simp add: on_current_def)
qed

lemma run_ops_saved:
  assumes "saved t t' a' M stk st"
    and "\<forall>opn \<in> set ops. mult_target_ok (length (transform_objs st)) opn"
  shows "\<exists>st'. run_ops ops st = Returns st' \<and> saved t t' a' M stk st'"
  using assms
proof (induction ops arbitrary: st)
  case Nil
  then show ?case by simp
next
  case (Cons opn ops)
  then obtain st1 where st1: "on_current opn st = Returns st1" "saved t t' a' M stk st1"
      "length (transform_objs st1) = length (transform_objs st)"
    using on_current_saved [of t t' a' M stk st opn] by auto
  then have "\<exists>st'. run_ops ops st1 = Returns st' \<and> saved t t' a' M stk st'"
    using Cons by simp
  then show ?case using st1 by simp
qed

lemma pushTransform_saved:
  assumes "store_ok st" and "cur_transform st = Some t" and "t < length (transform_objs st)"
  shows "\<exists>st1. pushTransform st = Returns st1
           \<and> saved t (length (transform_objs st)) (Suc (length (matrix_objs st)))
               (matrix_objs st ! (transform_objs st ! t)) (transform_stack st) st1
           \<and> length (transform_objs st1) = Suc (length (transform_objs st))"
proof -
  have a: "transform_objs st ! t < length (matrix_objs st)"
    using assms by (simp add: store_ok_def)
  have d: "dupAffine b = b" for b
    by (simp add: dupAffine_def)
  show ?thesis
    using assms a
    by (auto simp: pushTransform_def dup_def new_Transform_def new_AffineMatrix_def
        set_m_def read_m_def array_get_def saved_def store_ok_def nth_append d
        less_Suc_eq nth_list_update)
qed

lemma popTransform_saved:
  assumes "saved t t' a' M stk st"
  shows "current_matrix (popTransform st) = Some M
         \<and> transform_stack (popTransform st) = stk"
  using assms
  by (simp add: saved_def popTransform_def current_matrix_def read_m_def array_get_def)

text \<open>
  Claim C10. In a well-formed store where the renderer has a current transform,
  \<open>pushTransform\<close> returns normally and saves a new Transform object with a new matrix
  object (a deep duplicate); any sequence of in-place operations on the current transform
  (rotations, translations, scalings and their Pre variants, \<open>reset\<close>,
  \<open>multTransform\<close> with any existing Transform as argument, and \<open>setDCM\<close>)
  then returns normally, and after \<open>popTransform\<close> the renderer's transform holds a
  matrix equal, coefficient by coefficient, to the one it held before the push; the stack
  is as before the push.
\<close>

theorem push_ops_pop_restores_matrix:
  assumes "store_ok st" and "cur_transform st = Some t" and "t < length (transform_objs st)"
    and "\<forall>opn \<in> set ops. mult_target_ok (Suc (length (transform_objs st))) opn"
  shows "\<exists>st1 st2. pushTransform st = Returns st1
           \<and> last (transform_stack st1) \<noteq> t
           \<and> transform_objs st1 ! last (transform_stack st1) \<noteq> transform_objs st1 ! t
           \<and> run_ops ops st1 = Returns st2
           \<and> current_matrix (popTransform st2) = current_matrix st
           \<and> current_matrix st \<noteq> None
           \<and> transform_stack (popTransform st2) = transform_stack st"
proof -
  let ?M = "matrix_objs st ! (transform_objs st ! t)"
  let ?t' = "length (transform_objs st)"
  let ?a' = "Suc (length (matrix_objs st))"
  obtain st1 where st1: "pushTransform st = Returns st1"
      "saved t ?t' ?a' ?M (transform_stack st) st1"
      "length (transform_objs st1) = Suc (length (transform_objs st))"
    using pushTransform_saved [OF assms(1-3)] by blast
  obtain st2 where st2: "run_ops ops st1 = Returns st2"
      "saved t ?t' ?a' ?M (transform_stack st) st2"
    using run_ops_saved [OF st1(2)] assms(4) st1(3) by auto
  have cur: "current_matrix st = Some ?M"
    using assms(1-3)
    by (simp add: current_matrix_def read_m_def array_get_def store_ok_def)
  have "last (transform_stack st1) \<noteq> t"
    and "transform_objs st1 ! last (transform_stack st1) \<noteq> transform_objs st1 ! t"
    using st1(2) by (auto simp: saved_def)
  then show ?thesis
    using st1(1) st2(1) popTransform_saved [OF st2(2)] cur by simp
qed

theorem push_ops_pop_restores_matrix_witness:
  "\<exists>st1 st2. pushTransform example_store = Returns st1
      \<and> run_ops [RotateX 1, SetDCM \<lparr> px = 1, py = 0, pz = 0 \<rparr> \<lparr> px = 0, py = 0, pz = 1 \<rparr>
                    \<lparr> px = 0, py = 1, pz = 0 \<rparr>, MultTransform 1, Reset] st1 = Returns st2
      \<and> current_matrix (popTransform st2) = Some (makeTranslateAffine 1 2 3)"
proof -
  let ?ops = "[RotateX 1, SetDCM \<lparr> px = 1, py = 0, pz = 0 \<rparr> \<lparr> px = 0, py = 0, pz = 1 \<rparr>
                    \<lparr> px = 0, py = 1, pz = 0 \<rparr>, MultTransform 1, Reset]"
  have h1: "store_ok example_store"
    by (simp add: example_store_def store_ok_def)
  have h2: "cur_transform example_store = Some 0" and h3: "0 < length (transform_objs example_store)"
    by (simp_all add: example_store_def)
  have h4: "\<forall>opn \<in> set ?ops. mult_target_ok (Suc (length (transform_objs example_store))) opn"
    by (simp add: example_store_def)
  have cm: "current_matrix example_store = Some (makeTranslateAffine 1 2 3)"
    by (simp add: example_store_def current_matrix_def read_m_def array_get_def)
  obtain st1 st2 where "pushTransform example_store = Returns st1" "run_ops ?ops st1 = Returns st2"
      "current_matrix (popTransform st2) = current_matrix example_store"
    using push_ops_pop_restores_matrix [OF h1 h2 h3 h4] by blast
  then show ?thesis using cm by auto
qed

subsection \<open>Which faces enter the draw buffer\<close>

lemma make_entry_buffer:
  "make_entry wv f c n1 n2 (r\<lparr> buffered_quads := b \<rparr>) = make_entry wv f c n1 n2 r"
  by (simp add: make_entry_def)

lemma bufferShape_face_drawn:
  assumes "has_meta f"
    and "backfaces = draw_backfaces r0"
    and "t = multiplyAffine_f64 (AffineMatrix_f64 (mat (Camera.transform (camera r0))))
               (AffineMatrix_f64 (mat (Renderer.transform r0)))"
    and "tn = transAdjoint_f64 t"
    and "wv = transformPoints_f64 t (map vec3_f64 (vertices s))"
  shows "bufferShape_face backfaces t tn wv f (r0\<lparr> buffered_quads := b \<rparr>)
         = Returns (r0\<lparr> buffered_quads := b @ map (entry_of r0 s) (filter (face_drawn r0) [f]) \<rparr>)"
proof -
  obtain c m1 m2 where m: "centroid f = Some c" "normal1 f = Some m1" "normal2 f = Some m2"
    using assms(1) by (auto simp: has_meta_def)
  show ?thesis
    using assms(2-5) m
    by (simp add: bufferShape_face_def face_drawn_def entry_of_def Let_def make_entry_buffer)
qed

lemma bufferShape_loop_drawn:
  assumes "\<forall>f \<in> set fs. has_meta f"
    and "backfaces = draw_backfaces r0"
    and "t = multiplyAffine_f64 (AffineMatrix_f64 (mat (Camera.transform (camera r0))))
               (AffineMatrix_f64 (mat (Renderer.transform r0)))"
    and "tn = transAdjoint_f64 t"
    and "wv = transformPoints_f64 t (map vec3_f64 (vertices s))"
  shows "bufferShape_loop None backfaces t tn wv s j fs (r0\<lparr> buffered_quads := b \<rparr>)
         = Returns (r0\<lparr> buffered_quads := b @ map (entry_of r0 s) (filter (face_drawn r0) fs) \<rparr>)"
  using assms(1)
proof (induction fs arbitrary: b j)
  case Nil
  then show ?case by simp
next
  case (Cons f fs)
  have "bufferShape_face backfaces t tn wv f (r0\<lparr> buffered_quads := b \<rparr>)
         = Returns (r0\<lparr> buffered_quads := b @ map (entry_of r0 s) (filter (face_drawn r0) [f]) \<rparr>)"
    using Cons.prems assms(2-5) by (intro bufferShape_face_drawn) simp_all
  then show ?case
    using Cons by simp
qed

lemma bufferShape_drawn:
  assumes "\<forall>f \<in> set (quads s). has_meta f"
  shows "bufferShape None r s
         = Returns (r\<lparr> buffered_quads :=
                       buffered_quads r @ map (entry_of r s) (filter (face_drawn r) (quads s)) \<rparr>)"
  using bufferShape_loop_drawn [OF assms refl refl refl refl, where ?r0.0 = r and j = 0 and b = "buffered_quads r"]
  by (simp add: bufferShape_def Let_def)

text \<open>
  Claim C2, as the code computes it. For a shape whose faces carry their cached metadata
  and with no \<open>quad_callback\<close>, \<open>bufferShape\<close> returns normally and appends, in
  the order of the faces, one entry for exactly those faces for which the depth of the
  transformed centroid is not at or above -1 and for which \<open>draw_backfaces\<close> is set or
  the dot products of the transformed centroid with the first transformed normal scaled
  to unit length and with the second transformed normal, computed in doubles, are not
  both above zero.
\<close>

theorem bufferShape_draws_as_computed:
  assumes "\<forall>f \<in> set (quads s). has_meta f"
  shows "bufferShape None r s
         = Returns (r\<lparr> buffered_quads :=
                       buffered_quads r @ map (entry_of r s) (filter (face_drawn r) (quads s)) \<rparr>)"
  using assms by (rule bufferShape_drawn)

lemma sqrt_16: "sqrt 16 = 4"
  using real_sqrt_abs [of 4] by simp

lemma sqrt_9: "sqrt 9 = 3"
  using real_sqrt_abs [of 3] by simp

lemma jgt_Fin: "jgt (Fin a) (Fin b) = (b < a)"
  by (simp add: jgt_def jless_def)

lemma jge_Fin: "jge (Fin a) (Fin b) = (b \<le> a)"
  by (auto simp: jge_def jless_def)

lemma jless_Fin: "jless (Fin a) (Fin b) = (a < b)"
  by (simp add: jless_def)

lemma identity_transforms:
  "multiplyAffine_f64
     (AffineMatrix_f64 (mat (Camera.transform (camera (Renderer_new w h))))) 
     (AffineMatrix_f64 (mat (Renderer.transform (Renderer_new w h))))
   = AffineMatrix_f64 makeIdentityAffine"
  "multiplyAffine_f64
     (AffineMatrix_f64 (mat (Camera.transform (camera ((Renderer_new w h)\<lparr> draw_backfaces := b \<rparr>))))) 
     (AffineMatrix_f64 (mat (Renderer.transform ((Renderer_new w h)\<lparr> draw_backfaces := b \<rparr>))))
   = AffineMatrix_f64 makeIdentityAffine"
  by (simp_all add: Renderer_new_def Camera_new_def Transform_new_def multiplyAffine_f64_identity)

lemma example_backface_dots:
  "unitVector3d_f64 (vec3_f64 \<lparr> px = 0, py = 0, pz = - 4 \<rparr>)
   = \<lparr> fx = Fin 0, fy = Fin 0, fz = Fin (- 1) \<rparr>"
  "dotProduct3d_f64 (vec3_f64 \<lparr> px = 0, py = 0, pz = - 5 \<rparr>)
     \<lparr> fx = Fin 0, fy = Fin 0, fz = Fin (- 1) \<rparr> = Fin 5"
  "dotProduct3d_f64 (vec3_f64 \<lparr> px = 0, py = 0, pz = - 5 \<rparr>)
     (vec3_f64 \<lparr> px = 0, py = 0, pz = - 4 \<rparr>) = Fin 20"
  by (simp_all add: unitVector3d_f64_def vecMag3d_f64_def mulPoint3d_f64_def dotProduct3d_f64_def
      vec3_f64_def f64_eval jdiv_Fin sqrt_16)

lemma example_backface_face_drawn:
  "face_drawn (Renderer_new 640 480) (quads example_backface ! 0) = False"
  "face_drawn ((Renderer_new 640 480)\<lparr> draw_backfaces := True \<rparr>) (quads example_backface ! 0)
   = True"
proof -
  have d: "is_double 0" "is_double (- 5)" "is_double (- 4)"
    by (rule is_double_quarters; simp)+
  have c: "transformPoint_f64 (AffineMatrix_f64 makeIdentityAffine)
             (vec3_f64 \<lparr> px = 0, py = 0, pz = - 5 \<rparr>) = vec3_f64 \<lparr> px = 0, py = 0, pz = - 5 \<rparr>"
    by (rule transformPoint_f64_identity) (simp_all add: d)
  have n: "transformPoint_f64 (AffineMatrix_f64 makeIdentityAffine)
             (vec3_f64 \<lparr> px = 0, py = 0, pz = - 4 \<rparr>) = vec3_f64 \<lparr> px = 0, py = 0, pz = - 4 \<rparr>"
    by (rule transformPoint_f64_identity) (simp_all add: d)
  have z: "fz (vec3_f64 \<lparr> px = 0, py = 0, pz = - 5 \<rparr>) = Fin (- 5)"
    by (simp add: vec3_f64_def)
  show "face_drawn (Renderer_new 640 480) (quads example_backface ! 0) = False"
    unfolding face_drawn_def Let_def identity_transforms transAdjoint_f64_identity
    by (simp add: example_backface_def c n z example_backface_dots jgt_Fin jge_Fin
        Renderer_new_def)
  show "face_drawn ((Renderer_new 640 480)\<lparr> draw_backfaces := True \<rparr>)
          (quads example_backface ! 0) = True"
    unfolding face_drawn_def Let_def identity_transforms transAdjoint_f64_identity
    by (simp add: example_backface_def c n z example_backface_dots jgt_Fin jge_Fin
        Renderer_new_def)
qed

text \<open>
  A back-facing quad is left out without \<open>draw_backfaces\<close> and buffered with it.
\<close>

theorem bufferShape_draws_as_computed_witness:
  "buffered_quads (state_of (bufferShape None (Renderer_new 640 480) example_backface)) = []
   \<and> length (buffered_quads (state_of
         (bufferShape None ((Renderer_new 640 480)\<lparr> draw_backfaces := True \<rparr>) example_backface)))
       = 1"
proof -
  have m: "\<forall>f \<in> set (quads example_backface). has_meta f"
    by (simp add: example_backface_def has_meta_def)
  define f0 where "f0 = quads example_backface ! 0"
  have q: "quads example_backface = [f0]"
    by (simp add: f0_def example_backface_def)
  have a: "filter (face_drawn (Renderer_new 640 480)) (quads example_backface) = []"
    using example_backface_face_drawn(1) by (simp add: q)
  have b: "filter (face_drawn ((Renderer_new 640 480)\<lparr> draw_backfaces := True \<rparr>))
             (quads example_backface) = quads example_backface"
    using example_backface_face_drawn(2) by (simp add: q)
  have c: "buffered_quads (Renderer_new 640 480) = []"
    by (simp add: Renderer_new_def)
  have d: "length (quads example_backface) = 1"
    by (simp add: q)
  show ?thesis
    using bufferShape_draws_as_computed [OF m, of "Renderer_new 640 480"]
      bufferShape_draws_as_computed [OF m, of "(Renderer_new 640 480)\<lparr> draw_backfaces := True \<rparr>"]
    by (simp add: a b c d)
qed

text \<open>
  For a face whose first normal is the zero vector the code scales by \<open>1 / 0\<close>: the
  unit normal has NaN components, so the first dot product is NaN and does not cull, and
  the intensity stored with the face is NaN.
\<close>

lemma unitVector3d_f64_zero:
  "unitVector3d_f64 (vec3_f64 \<lparr> px = 0, py = 0, pz = 0 \<rparr>) = \<lparr> fx = NaN, fy = NaN, fz = NaN \<rparr>"
proof -
  have "vecMag3d_f64 (vec3_f64 \<lparr> px = 0, py = 0, pz = 0 \<rparr>) = Fin 0"
    by (simp add: vecMag3d_f64_def vec3_f64_def f64_eval)
  moreover have "jdiv (Fin 1) (Fin 0) = PosInf"
    by (simp add: jdiv_def is_inf_def is_zero_def signed_inf_def)
  moreover have "jmul (Fin 0) PosInf = NaN"
    by (simp add: jmul_def is_inf_def is_zero_def)
  ultimately show ?thesis
    by (simp add: unitVector3d_f64_def mulPoint3d_f64_def vec3_f64_def)
qed

lemma zero_normal_intensity:
  "intensity (make_entry wv f c \<lparr> fx = NaN, fy = NaN, fz = NaN \<rparr> n2 r) = NaN"
  by (simp add: make_entry_def dotProduct3d_f64_def g_z_axis_vector_def jmul_def jadd_def
      jless_def Let_def)

lemma round_half_even_tie:
  "round_half_even (of_int n + 1 / 2) = (if even n then n else n + 1)"
proof -
  have "\<lfloor>real_of_int n + 1 / 2\<rfloor> = n"
    by (simp add: floor_eq_iff)
  then show ?thesis
    by (simp add: round_half_even_def Let_def)
qed

lemma rounded_finite:
  assumes "nearest x = of_int m * 2 powi e" and "m \<noteq> 0" and "\<bar>m\<bar> \<le> 2 ^ 53" and "e \<le> 970"
  shows "rounded s x = Fin (of_int m * 2 powi e)"
proof -
  have "\<bar>real_of_int m * 2 powi e\<bar> = of_int \<bar>m\<bar> * 2 powi e"
    by (simp add: abs_mult)
  also have "\<dots> \<le> 2 ^ 53 * 2 powi e"
  proof -
    have "real_of_int \<bar>m\<bar> \<le> real_of_int (2 ^ 53)"
      using assms(3) by (simp only: of_int_le_iff)
    then show ?thesis by simp
  qed
  also have "\<dots> \<le> 2 ^ 53 * 2 powi 970"
    using power_int_increasing [of e 970 "2::real"] assms(4) by simp
  also have "\<dots> < 2 ^ 1024"
    by (simp add: power_int_def)
  finally have "\<bar>real_of_int m * 2 powi e\<bar> < 2 ^ 1024" .
  then show ?thesis
    using assms(1,2) by (simp add: rounded_def Let_def)
qed

lemma rounded_near:
  assumes "2 powi (52 + e) \<le> \<bar>x\<bar>" and "\<bar>x\<bar> < 2 powi (53 + e)"
    and "- 1074 \<le> e" and "e \<le> 970"
    and "\<bar>x / 2 powi e - of_int m\<bar> < 1 / 2" and "m \<noteq> 0" and "\<bar>m\<bar> \<le> 2 ^ 53"
  shows "rounded s x = Fin (of_int m * 2 powi e)"
  using nearest_near [OF assms(1,2,3,5)] assms(6,7,4) by (rule rounded_finite)

lemma rounded_tie:
  assumes "2 powi (52 + e) \<le> \<bar>x\<bar>" and "\<bar>x\<bar> < 2 powi (53 + e)"
    and "- 1074 \<le> e" and "e \<le> 970"
    and "x / 2 powi e = of_int n + 1 / 2" and "m = (if even n then n else n + 1)"
    and "m \<noteq> 0" and "\<bar>m\<bar> \<le> 2 ^ 53"
  shows "rounded s x = Fin (of_int m * 2 powi e)"
proof -
  have "\<lfloor>log 2 \<bar>x\<bar>\<rfloor> = 52 + e"
    using floor_log2 [of "52 + e" x] assms(1,2) by (simp add: add.commute add.left_commute)
  then have "ulp_exponent x = e"
    using assms(3) by (simp add: ulp_exponent_def)
  then have "nearest x = of_int m * 2 powi e"
    using round_half_even_tie [of n] assms(5,6) by (simp add: nearest_def)
  then show ?thesis
    using assms(7,8,4) by (rule rounded_finite)
qed

text \<open>
  The arithmetic of the cull test on the face of \<open>example_grazing\<close>: the reciprocal
  of the length 3 of the first normal rounds to 6004799503160661 / 2 ^ 54, the products
  with the centroid's coordinates round to -5254199565265578 / 2 ^ 52,
  -6004799503160661 / 2 ^ 53 and 8256599316845909 / 2 ^ 52, and their sum, a tie that
  rounds to the even significand after the first addition, is 1 / 2 ^ 52.
\<close>

lemma grazing_reciprocal:
  "jdiv (Fin 1) (Fin 3) = Fin (6004799503160661 / 2 ^ 54)"
  using rounded_near [of "- 54" "1 / 3" 6004799503160661 False]
  by (simp add: jdiv_Fin)

lemma grazing_unit:
  "jmul (Fin (- 2)) (Fin (6004799503160661 / 2 ^ 54)) = Fin (- (6004799503160661 / 2 ^ 53))"
  "jmul (Fin (- 1)) (Fin (6004799503160661 / 2 ^ 54)) = Fin (- (6004799503160661 / 2 ^ 54))"
  using rounded_near [of "- 53" "- (6004799503160661 / 2 ^ 53)" "- 6004799503160661" True]
    rounded_near [of "- 54" "- (6004799503160661 / 2 ^ 54)" "- 6004799503160661" True]
  by (simp_all add: jmul_Fin)

lemma grazing_products:
  "jmul (Fin (7 / 4)) (Fin (- (6004799503160661 / 2 ^ 53)))
   = Fin (- (5254199565265578 / 2 ^ 52))"
  "jmul (Fin 2) (Fin (- (6004799503160661 / 2 ^ 54))) = Fin (- (6004799503160661 / 2 ^ 53))"
  "jmul (Fin (- (11 / 4))) (Fin (- (6004799503160661 / 2 ^ 53)))
   = Fin (8256599316845909 / 2 ^ 52)"
  using rounded_near [of "- 52" "7 / 4 * - (6004799503160661 / 2 ^ 53)" "- 5254199565265578" True]
    rounded_near [of "- 53" "- (6004799503160661 / 2 ^ 53)" "- 6004799503160661" True]
    rounded_near [of "- 52" "11 / 4 * (6004799503160661 / 2 ^ 53)" 8256599316845909 False]
  by (simp_all add: jmul_Fin)

lemma grazing_sums:
  "jadd (Fin (- (5254199565265578 / 2 ^ 52))) (Fin (- (6004799503160661 / 2 ^ 53)))
   = Fin (- (8256599316845908 / 2 ^ 52))"
  "jadd (Fin (- (8256599316845908 / 2 ^ 52))) (Fin (8256599316845909 / 2 ^ 52))
   = Fin (1 / 2 ^ 52)"
  using rounded_tie [of "- 52" "- (5254199565265578 / 2 ^ 52) - 6004799503160661 / 2 ^ 53"
      "- 8256599316845909" "- 8256599316845908" True]
    rounded_near [of "- 104" "1 / 2 ^ 52" 4503599627370496 False]
  by (simp_all add: jadd_Fin)

lemma example_grazing_valid: "rebuildMeta example_grazing = Returns example_grazing"
  by (simp add: example_grazing_def rebuildMeta_def rebuildMeta_face_def array_get_def
      averagePoints_def addPoints3d_def mulPoint3d_def subPoints3d_def crossProduct_def Let_def)

lemma grazing_magnitude:
  "vecMag3d_f64 (vec3_f64 \<lparr> px = - 2, py = - 1, pz = - 2 \<rparr>) = Fin 3"
  by (simp add: vecMag3d_f64_def vec3_f64_def f64_eval sqrt_9)

lemma grazing_unit_normal:
  "unitVector3d_f64 (vec3_f64 \<lparr> px = - 2, py = - 1, pz = - 2 \<rparr>)
   = \<lparr> fx = Fin (- (6004799503160661 / 2 ^ 53)), fy = Fin (- (6004799503160661 / 2 ^ 54)),
       fz = Fin (- (6004799503160661 / 2 ^ 53)) \<rparr>"
  unfolding unitVector3d_f64_def grazing_magnitude grazing_reciprocal
  using grazing_unit by (simp add: mulPoint3d_f64_def vec3_f64_def)

lemma grazing_dot_unit:
  "dotProduct3d_f64 (vec3_f64 \<lparr> px = 7 / 4, py = 2, pz = - (11 / 4) \<rparr>)
     \<lparr> fx = Fin (- (6004799503160661 / 2 ^ 53)), fy = Fin (- (6004799503160661 / 2 ^ 54)),
       fz = Fin (- (6004799503160661 / 2 ^ 53)) \<rparr>
   = Fin (1 / 2 ^ 52)"
  using grazing_products grazing_sums by (simp add: dotProduct3d_f64_def vec3_f64_def)

lemma grazing_dot_raw:
  "dotProduct3d_f64 (vec3_f64 \<lparr> px = 7 / 4, py = 2, pz = - (11 / 4) \<rparr>)
     (vec3_f64 \<lparr> px = - 2, py = - 1, pz = - 2 \<rparr>) = Fin 0"
  "dotProduct3d_f64 (vec3_f64 \<lparr> px = 7 / 4, py = 2, pz = - (11 / 4) \<rparr>)
     (vec3_f64 \<lparr> px = - 6, py = - 7, pz = - 22 \<rparr>) = Fin 36"
  by (simp_all add: dotProduct3d_f64_def vec3_f64_def f64_eval)

lemma grazing_transformed:
  "transformPoint_f64 (AffineMatrix_f64 makeIdentityAffine)
     (vec3_f64 \<lparr> px = 7 / 4, py = 2, pz = - (11 / 4) \<rparr>)
   = vec3_f64 \<lparr> px = 7 / 4, py = 2, pz = - (11 / 4) \<rparr>"
  "transformPoint_f64 (AffineMatrix_f64 makeIdentityAffine)
     (vec3_f64 \<lparr> px = - 2, py = - 1, pz = - 2 \<rparr>)
   = vec3_f64 \<lparr> px = - 2, py = - 1, pz = - 2 \<rparr>"
  "transformPoint_f64 (AffineMatrix_f64 makeIdentityAffine)
     (vec3_f64 \<lparr> px = - 6, py = - 7, pz = - 22 \<rparr>)
   = vec3_f64 \<lparr> px = - 6, py = - 7, pz = - 22 \<rparr>"
  by (rule transformPoint_f64_identity; simp; rule is_double_quarters; simp)+

lemma grazing_face:
  "quads example_grazing
   = [\<lparr> i0 = 0, i1 = 1, i2 = 2, i3 = Some 3,
        centroid = Some \<lparr> px = 7 / 4, py = 2, pz = - (11 / 4) \<rparr>,
        normal1 = Some \<lparr> px = - 2, py = - 1, pz = - 2 \<rparr>,
        normal2 = Some \<lparr> px = - 6, py = - 7, pz = - 22 \<rparr> \<rparr>]"
  by (simp add: example_grazing_def)

lemma grazing_not_drawn:
  "face_drawn (Renderer_new 640 480) (quads example_grazing ! 0) = False"
proof -
  have z: "fz (vec3_f64 \<lparr> px = 7 / 4, py = 2, pz = - (11 / 4) \<rparr>) = Fin (- (11 / 4))"
    by (simp add: vec3_f64_def)
  have b: "draw_backfaces (Renderer_new 640 480) = False"
    by (simp add: Renderer_new_def)
  show ?thesis
    unfolding face_drawn_def Let_def identity_transforms transAdjoint_f64_identity grazing_face
    using grazing_unit_normal grazing_dot_unit
    by (simp add: grazing_transformed grazing_dot_raw z b jgt_Fin jge_Fin)
qed

lemma grazing_spec_drawn:
  "spec_drawn (Renderer_new 640 480) (quads example_grazing ! 0)"
  by (simp add: example_grazing_def spec_drawn_def Renderer_new_def Camera_new_def
      Transform_new_def makeIdentityAffine_def multiplyAffine_def transAdjoint_def
      transformPoint_def dotProduct3d_def Let_def)

lemma grazing_spec_drawn_f64:
  "spec_drawn_f64 (Renderer_new 640 480) (quads example_grazing ! 0)"
proof -
  have z: "fz (vec3_f64 \<lparr> px = 7 / 4, py = 2, pz = - (11 / 4) \<rparr>) = Fin (- (11 / 4))"
    by (simp add: vec3_f64_def)
  show ?thesis
    unfolding spec_drawn_f64_def Let_def identity_transforms transAdjoint_f64_identity grazing_face
    by (simp add: grazing_transformed grazing_dot_raw z jgt_Fin jless_Fin)
qed

text \<open>
  Claim C2 as the specification words it fails. The face of \<open>example_grazing\<close> has its
  centroid at depth -2.75 and its first normal orthogonal to the centroid: the dot
  product with the first transformed normal is zero, in exact arithmetic and in doubles,
  so the specification has the face drawn. The code scales that normal to unit length
  before the test; the rounded products then sum to \<open>1 / 2 ^ 52\<close>, both dot products
  are above zero and, \<open>draw_backfaces\<close> being false, the face is culled and the
  renderer is left as it was.
\<close>

theorem bufferShape_rounding_culls_face_counterexample:
  "rebuildMeta example_grazing = Returns example_grazing
   \<and> spec_drawn (Renderer_new 640 480) (quads example_grazing ! 0)
   \<and> spec_drawn_f64 (Renderer_new 640 480) (quads example_grazing ! 0)
   \<and> bufferShape None (Renderer_new 640 480) example_grazing = Returns (Renderer_new 640 480)"
proof -
  define f0 where "f0 = quads example_grazing ! 0"
  have q: "quads example_grazing = [f0]"
    by (simp add: f0_def example_grazing_def)
  have m: "\<forall>f \<in> set (quads example_grazing). has_meta f"
    by (simp add: example_grazing_def has_meta_def)
  have a: "filter (face_drawn (Renderer_new 640 480)) (quads example_grazing) = []"
    using grazing_not_drawn by (simp add: q)
  have "bufferShape None (Renderer_new 640 480) example_grazing = Returns (Renderer_new 640 480)"
    using bufferShape_drawn [OF m, of "Renderer_new 640 480"] by (simp add: a)
  then show ?thesis
    using example_grazing_valid grazing_spec_drawn grazing_spec_drawn_f64 by simp
qed


subsection \<open>Extruding one quad in three steps\<close>


lemma rebuildMeta_face_has_meta:
  "rebuildMeta_face vs f = Some g \<Longrightarrow> has_meta g"
  by (auto simp: has_meta_def rebuildMeta_face_def Let_def split: option.splits)

lemma valid_meta_has_meta:
  "valid_meta s \<Longrightarrow> f \<in> set (quads s) \<Longrightarrow> has_meta f \<and> in_bounds (vertices s) f"
  using rebuildMeta_face_has_meta by (auto simp: valid_meta_def)

lemma extrude_step_vertices:
  "vertices (extrude_step e k c sn tri inner z s)
   = vertices s @ map (\<lambda>n. addPoints3d
        (addPoints3d c (mulPoint3d (Transform_transformPoint
           (rotateZ (rotateY (rotateX Transform_new
              (px (e_rotate e) * ((real z + 1) / real (e_count e))))
              (py (e_rotate e) * ((real z + 1) / real (e_count e))))
              (pz (e_rotate e) * ((real z + 1) / real (e_count e)))) sn)
           ((real z + 1) / real (e_count e) * e_distance e)))
        (Transform_transformPoint
           (scalePre (rotateZ (rotateY (rotateX Transform_new
              (px (e_rotate e) * ((real z + 1) / real (e_count e))))
              (py (e_rotate e) * ((real z + 1) / real (e_count e))))
              (pz (e_rotate e) * ((real z + 1) / real (e_count e))))
              (linearInterpolate 1 (px (e_scale e)) ((real z + 1) / real (e_count e)))
              (linearInterpolate 1 (py (e_scale e)) ((real z + 1) / real (e_count e)))
              (linearInterpolate 1 (pz (e_scale e)) ((real z + 1) / real (e_count e)))) n)) inner"
  by (simp add: extrude_step_def Let_def)

lemma extrude_step_length:
  "length (vertices (extrude_step e k c sn tri inner z s)) = length (vertices s) + length inner"
  by (simp add: extrude_step_vertices)

lemma extrude_step_take:
  "take (length (vertices s)) (vertices (extrude_step e k c sn tri inner z s)) = vertices s"
  by (simp add: extrude_step_vertices)

lemma extrude_step_indices:
  assumes "k < length (quads s)"
  shows "map indices (quads (extrude_step e k c sn False inner z s))
         = quad_step_indices k (length (vertices s)) (map indices (quads s))"
  using assms
  by (simp add: extrude_step_def quad_step_indices_def Let_def indices_def QuadFace_new_def
      map_update nth_append)

lemma extrude_step_quads_length:
  "length (quads (extrude_step e k c sn False inner z s)) = length (quads s) + 4"
  by (simp add: extrude_step_def Let_def)

lemma upt_0_3: "[0..<3] = [0, 1, 2]"
  by (simp add: upt_rec)

lemma three_quad_steps:
  assumes "k < length I" and "I ! k = (a, b, c, Some d)"
  shows "quad_step_indices k (n + 8) (quad_step_indices k (n + 4) (quad_step_indices k n I))
         = I[k := (n + 8, n + 9, n + 10, Some (n + 11))]
           @ [(b, n + 1, n, Some a), (c, n + 2, n + 1, Some b),
              (d, n + 3, n + 2, Some c), (a, n, n + 3, Some d),
              (n + 1, n + 5, n + 4, Some n), (n + 2, n + 6, n + 5, Some (n + 1)),
              (n + 3, n + 7, n + 6, Some (n + 2)), (n, n + 4, n + 7, Some (n + 3)),
              (n + 5, n + 9, n + 8, Some (n + 4)), (n + 6, n + 10, n + 9, Some (n + 5)),
              (n + 7, n + 11, n + 10, Some (n + 6)), (n + 4, n + 8, n + 11, Some (n + 7))]"
  using assms
  by (simp add: quad_step_indices_def nth_append list_update_append add.commute)


lemma in_bounds_idx_ok: "in_bounds vs f = idx_ok (length vs) (indices f)"
  by (simp add: in_bounds_def idx_ok_def indices_def)

lemma idx_ok_mono: "idx_ok n t \<Longrightarrow> n \<le> n' \<Longrightarrow> idx_ok n' t"
  by (auto simp: idx_ok_def split: option.splits)

lemma extrude_face_quad3:
  assumes k: "k < length (quads s)" and cnt: "e_count e = 3"
    and quad: "i3 (quads s ! k) = Some d"
    and inb: "in_bounds (vertices s) (quads s ! k)"
    and meta: "has_meta (quads s ! k)"
  shows "\<exists>s1. extrude_face e k s = Returns s1
           \<and> length (vertices s1) = length (vertices s) + 12
           \<and> take (length (vertices s)) (vertices s1) = vertices s
           \<and> map indices (quads s1)
               = quad_step_indices k (length (vertices s) + 8)
                   (quad_step_indices k (length (vertices s) + 4)
                      (quad_step_indices k (length (vertices s)) (map indices (quads s))))"
proof -
  let ?f = "quads s ! k"
  obtain cen m1 m2 where m: "centroid ?f = Some cen" "normal1 ?f = Some m1" "normal2 ?f = Some m2"
    using meta by (auto simp: has_meta_def)
  have g: "array_get (vertices s) (i0 ?f) = Some (vertices s ! i0 ?f)"
      "array_get (vertices s) (i1 ?f) = Some (vertices s ! i1 ?f)"
      "array_get (vertices s) (i2 ?f) = Some (vertices s ! i2 ?f)"
      "array_get (vertices s) d = Some (vertices s ! d)"
    using inb quad by (simp_all add: in_bounds_def array_get_def)
  let ?inner = "[subPoints3d (vertices s ! i0 ?f) cen, subPoints3d (vertices s ! i1 ?f) cen,
                 subPoints3d (vertices s ! i2 ?f) cen, subPoints3d (vertices s ! d) cen]"
  let ?step = "extrude_step e k cen (unitVector3d (addPoints3d m1 m2)) False ?inner"
  let ?s1 = "?step 0 s"
  let ?s2 = "?step 1 ?s1"
  let ?s3 = "?step 2 ?s2"
  have r: "extrude_face e k s = Returns ?s3"
    using m g quad cnt by (simp add: extrude_face_def isTriangle_def Let_def upt_0_3)
  have k1: "k < length (quads ?s1)"
    using k by (simp add: extrude_step_quads_length)
  then have k2: "k < length (quads ?s2)"
    by (simp add: extrude_step_quads_length)
  have l1: "length (vertices ?s1) = length (vertices s) + 4"
    by (simp add: extrude_step_length)
  have l2: "length (vertices ?s2) = length (vertices s) + 8"
    by (simp add: extrude_step_length)
  have l3: "length (vertices ?s3) = length (vertices s) + 12"
    by (simp add: extrude_step_length)
  have t1: "take (length (vertices s)) (vertices ?s3) = vertices s"
    by (simp add: extrude_step_vertices)
  have i1: "map indices (quads ?s1)
      = quad_step_indices k (length (vertices s)) (map indices (quads s))"
    using k by (rule extrude_step_indices)
  have i2: "map indices (quads ?s2)
      = quad_step_indices k (length (vertices s) + 4) (map indices (quads ?s1))"
    using extrude_step_indices [OF k1] l1 by simp
  have i3: "map indices (quads ?s3)
      = quad_step_indices k (length (vertices s) + 8) (map indices (quads ?s2))"
    using extrude_step_indices [OF k2] l2 by simp
  show ?thesis
    using r l3 t1 i1 i2 i3 by simp
qed

text \<open>
  Claim C6. For a shape with valid cached metadata in which the selector selects exactly
  one face, at index k, and that face is a quad, \<open>extrude\<close> with count 3 returns
  normally; it appends 12 vertices (4 per step) and exactly 12 quad side faces (4 per
  step), leaves the vertices and the index tuples of all other original faces as they
  were, and the face at index k becomes the quad of the four corners created in the third
  step, all in bounds.
\<close>

theorem extrude_single_quad_three_steps:
  assumes vm: "valid_meta s"
    and sel: "filter (selector e s) [0..<length (quads s)] = [k]"
    and quad: "\<not> isTriangle (quads s ! k)"
    and cnt: "e_count e = 3"
  shows "\<exists>s'. extrude e s = Returns s'
           \<and> length (vertices s') = length (vertices s) + 12
           \<and> take (length (vertices s)) (vertices s') = vertices s
           \<and> map indices (quads s')
               = (map indices (quads s))
                   [k := (length (vertices s) + 8, length (vertices s) + 9,
                          length (vertices s) + 10, Some (length (vertices s) + 11))]
                 @ (let n = length (vertices s); a = i0 (quads s ! k); b = i1 (quads s ! k);
                        c = i2 (quads s ! k); d = the (i3 (quads s ! k))
                    in [(b, n + 1, n, Some a), (c, n + 2, n + 1, Some b),
                        (d, n + 3, n + 2, Some c), (a, n, n + 3, Some d),
                        (n + 1, n + 5, n + 4, Some n), (n + 2, n + 6, n + 5, Some (n + 1)),
                        (n + 3, n + 7, n + 6, Some (n + 2)), (n, n + 4, n + 7, Some (n + 3)),
                        (n + 5, n + 9, n + 8, Some (n + 4)), (n + 6, n + 10, n + 9, Some (n + 5)),
                        (n + 7, n + 11, n + 10, Some (n + 6)), (n + 4, n + 8, n + 11, Some (n + 7))])
           \<and> in_bounds (vertices s') (quads s' ! k)"
proof -
  let ?n = "length (vertices s)"
  let ?f = "quads s ! k"
  let ?I = "map indices (quads s)"
  have "k \<in> set (filter (selector e s) [0..<length (quads s)])"
    using sel by simp
  then have k: "k < length (quads s)" by simp
  then have fin: "?f \<in> set (quads s)" by simp
  obtain d where d: "i3 ?f = Some d"
    using quad by (auto simp: isTriangle_def)
  have hm: "has_meta ?f" and inb: "in_bounds (vertices s) ?f"
    using valid_meta_has_meta [OF vm fin] by simp_all
  obtain s1 where s1: "extrude_face e k s = Returns s1"
      "length (vertices s1) = ?n + 12"
      "take ?n (vertices s1) = vertices s"
      "map indices (quads s1)
        = quad_step_indices k (?n + 8) (quad_step_indices k (?n + 4) (quad_step_indices k ?n ?I))"
    using extrude_face_quad3 [OF k cnt d inb hm] by blast
  have Ik: "?I ! k = (i0 ?f, i1 ?f, i2 ?f, Some d)"
    using k d by (simp add: indices_def)
  have kI: "k < length ?I" using k by simp
  let ?new = "[(i1 ?f, ?n + 1, ?n, Some (i0 ?f)), (i2 ?f, ?n + 2, ?n + 1, Some (i1 ?f)),
       (d, ?n + 3, ?n + 2, Some (i2 ?f)), (i0 ?f, ?n, ?n + 3, Some d),
       (?n + 1, ?n + 5, ?n + 4, Some ?n), (?n + 2, ?n + 6, ?n + 5, Some (?n + 1)),
       (?n + 3, ?n + 7, ?n + 6, Some (?n + 2)), (?n, ?n + 4, ?n + 7, Some (?n + 3)),
       (?n + 5, ?n + 9, ?n + 8, Some (?n + 4)), (?n + 6, ?n + 10, ?n + 9, Some (?n + 5)),
       (?n + 7, ?n + 11, ?n + 10, Some (?n + 6)), (?n + 4, ?n + 8, ?n + 11, Some (?n + 7))]"
  have idx: "map indices (quads s1)
      = ?I[k := (?n + 8, ?n + 9, ?n + 10, Some (?n + 11))] @ ?new"
    using s1(4) three_quad_steps [OF kI Ik, of ?n] by simp
  have okI: "\<forall>t \<in> set ?I. idx_ok ?n t"
    using vm by (auto simp: valid_meta_def in_bounds_idx_ok)
  have okf: "idx_ok ?n (i0 ?f, i1 ?f, i2 ?f, Some d)"
    using okI kI Ik by (metis nth_mem)
  have ok_upd: "\<forall>t \<in> set (?I[k := (?n + 8, ?n + 9, ?n + 10, Some (?n + 11))]). idx_ok (?n + 12) t"
  proof
    fix t assume "t \<in> set (?I[k := (?n + 8, ?n + 9, ?n + 10, Some (?n + 11))])"
    then have "t = (?n + 8, ?n + 9, ?n + 10, Some (?n + 11)) \<or> t \<in> set ?I"
      using set_update_subset_insert by fastforce
    then show "idx_ok (?n + 12) t"
      using okI idx_ok_mono [of ?n t "?n + 12"] by (auto simp: idx_ok_def)
  qed
  have ok_new: "\<forall>t \<in> set ?new. idx_ok (?n + 12) t"
    using okf by (simp add: idx_ok_def)
  have "\<forall>t \<in> set (map indices (quads s1)). idx_ok (?n + 12) t"
    unfolding idx using ok_upd ok_new by (simp only: set_append ball_Un simp_thms)
  then have all_in: "\<forall>f \<in> set (quads s1). in_bounds (vertices s1) f"
    by (simp add: in_bounds_idx_ok s1(2))
  then obtain s' where s': "rebuildMeta s1 = Returns s'"
    using rebuildMeta_returns by blast
  have v': "vertices s' = vertices s1"
    using rebuildMeta_vertices [of s1] s' by simp
  have i': "map indices (quads s') = map indices (quads s1)"
    using rebuildMeta_indices [of s1] s' by simp
  have ex: "extrude e s = Returns s'"
    using sel s1(1) s' by (simp add: extrude_def)
  have "k < length (map indices (quads s'))"
    using i' idx kI by simp
  then have "indices (quads s' ! k) = map indices (quads s') ! k"
    by simp
  also have "\<dots> = (?n + 8, ?n + 9, ?n + 10, Some (?n + 11))"
    using i' idx kI by (simp add: nth_append)
  finally have cap: "in_bounds (vertices s') (quads s' ! k)"
    by (simp add: in_bounds_idx_ok v' s1(2) idx_ok_def)
  show ?thesis
    using ex v' s1(2,3) i' idx cap d by (simp add: Let_def)
qed

subsection \<open>Smoothing a shape with a triangle\<close>


lemma example_triangle_valid: "rebuildMeta example_triangle = Returns example_triangle"
  by (simp add: example_triangle_def rebuildMeta_def rebuildMeta_face_def array_get_def
      averagePoints_def addPoints3d_def mulPoint3d_def subPoints3d_def crossProduct_def Let_def)

lemma example_backface_valid: "rebuildMeta example_backface = Returns example_backface"
  by (simp add: example_backface_def rebuildMeta_def rebuildMeta_face_def array_get_def
      averagePoints_def addPoints3d_def mulPoint3d_def subPoints3d_def crossProduct_def Let_def)

lemma push_connection_in_range:
  "v < length cs \<Longrightarrow> push_connection v i cs = Some (cs[v := cs ! v @ [i]])"
  by (simp add: push_connection_def)

lemma connect_face_quad:
  assumes "in_bounds vs f" and "i3 f = Some k" and "length cs = length vs"
  shows "\<exists>cs'. connect_face i f cs = Some cs' \<and> length cs' = length cs
           \<and> (\<forall>u < length cs. cs' ! u = cs ! u @ replicate (count_list (corners f) u) i)"
  using assms
  by (auto simp: connect_face_def push_connection_def in_bounds_def corners_def
      nth_list_update)

lemma build_connections_quads:
  assumes "\<forall>f \<in> set fs. in_bounds vs f \<and> i3 f \<noteq> None" and "length cs = length vs"
  shows "\<exists>cs'. build_connections i fs cs = Some cs' \<and> length cs' = length cs
           \<and> (\<forall>u < length cs. cs' ! u = cs ! u @ referencing i fs u)"
  using assms
proof (induction fs arbitrary: i cs)
  case Nil
  then show ?case by simp
next
  case (Cons f fs)
  then obtain k where k: "i3 f = Some k" and inb: "in_bounds vs f"
    by auto
  obtain c1 where c1: "connect_face i f cs = Some c1" "length c1 = length cs"
      "\<forall>u < length cs. c1 ! u = cs ! u @ replicate (count_list (corners f) u) i"
    using connect_face_quad [OF inb k Cons.prems(2)] by blast
  obtain cs' where cs': "build_connections (Suc i) fs c1 = Some cs'" "length cs' = length c1"
      "\<forall>u < length c1. cs' ! u = c1 ! u @ referencing (Suc i) fs u"
    using Cons.IH [of c1 "Suc i"] Cons.prems c1(2) by auto
  show ?case
    using c1 cs' by simp
qed

lemma referencing_range:
  "j \<in> set (referencing i fs v) \<Longrightarrow> i \<le> j \<and> j < i + length fs"
  by (induction fs arbitrary: i) (fastforce split: if_splits)+

lemma sum_centroids_quads:
  assumes "\<forall>c \<in> set cs. c < length fs \<and> in_bounds vs (fs ! c) \<and> i3 (fs ! c) \<noteq> None"
  shows "sum_centroids vs fs cs avg
         = Some (foldl (\<lambda>a c. addPoints3d a (quad_centroid vs (fs ! c))) avg cs)"
  using assms
proof (induction cs arbitrary: avg)
  case Nil
  then show ?case by simp
next
  case (Cons c cs)
  then obtain k where k: "i3 (fs ! c) = Some k" and inb: "in_bounds vs (fs ! c)"
    by auto
  have step: "\<lparr> px = px avg + (px (vs ! i0 (fs ! c)) + px (vs ! i1 (fs ! c))
                              + px (vs ! i2 (fs ! c)) + px (vs ! k)) / 4,
                 py = py avg + (py (vs ! i0 (fs ! c)) + py (vs ! i1 (fs ! c))
                              + py (vs ! i2 (fs ! c)) + py (vs ! k)) / 4,
                 pz = pz avg + (pz (vs ! i0 (fs ! c)) + pz (vs ! i1 (fs ! c))
                              + pz (vs ! i2 (fs ! c)) + pz (vs ! k)) / 4 \<rparr>
              = addPoints3d avg (quad_centroid vs (fs ! c))"
    using k by (simp add: addPoints3d_def quad_centroid_def mean4_def)
  show ?case
    using Cons k inb
    by (simp add: Let_def array_get_def in_bounds_def step)
qed

lemma foldl_addPoints3d:
  "foldl (\<lambda>a c. addPoints3d a (g c)) avg cs
   = \<lparr> px = px avg + sum_list (map (\<lambda>c. px (g c)) cs),
       py = py avg + sum_list (map (\<lambda>c. py (g c)) cs),
       pz = pz avg + sum_list (map (\<lambda>c. pz (g c)) cs) \<rparr>"
  by (induction cs arbitrary: avg) (simp_all add: addPoints3d_def add.assoc)

lemma smooth_vertex_quads:
  assumes "\<forall>c \<in> set cs. c < length fs \<and> in_bounds vs (fs ! c) \<and> i3 (fs ! c) \<noteq> None"
  shows "smooth_vertex vs fs amount cs v
         = Some (linearInterpolatePoints3d v
                   (mean_points (map (\<lambda>j. quad_centroid vs (fs ! j)) cs)) amount)"
  by (simp add: smooth_vertex_def sum_centroids_quads [OF assms] foldl_addPoints3d
      mean_points_def mulPoint3d_def Let_def comp_def)

lemma smooth_vertices_all:
  assumes "length css = length ws"
    and "\<forall>k < length ws. smooth_vertex vs fs amount (css ! k) (ws ! k) = Some (g k)"
  shows "smooth_vertices vs fs amount css ws = Some (map g [0..<length ws])"
  using assms
proof (induction css arbitrary: ws g)
  case Nil
  then show ?case by simp
next
  case (Cons cs css)
  then obtain w ws' where ws: "ws = w # ws'"
    by (cases ws) auto
  have h0: "smooth_vertex vs fs amount cs w = Some (g 0)"
    using Cons.prems(2) ws by auto
  have "\<forall>k < length ws'. smooth_vertex vs fs amount (css ! k) (ws' ! k) = Some ((g \<circ> Suc) k)"
    using Cons.prems(2) ws by auto
  then have "smooth_vertices vs fs amount css ws' = Some (map (g \<circ> Suc) [0..<length ws'])"
    using Cons.IH [of ws' "g \<circ> Suc"] Cons.prems(1) ws by simp
  moreover have "map g [0..<length ws] = g 0 # map (g \<circ> Suc) [0..<length ws']"
    using ws by (simp add: upt_conv_Cons map_Suc_upt [symmetric] del: upt_Suc)
  ultimately show ?case
    using h0 ws by (simp del: upt_Suc)
qed

text \<open>
  On a shape of quads with indices in bounds, every vertex of which is referenced by a
  face, \<open>averageSmooth\<close> does what the specification says: all vertices are replaced at
  once by their smoothed positions, computed from the old vertices, and the metadata is
  rebuilt. (For a vertex that no face references JavaScript divides by zero.)
\<close>

lemma averageSmooth_quads:
  assumes "\<forall>f \<in> set (quads s). in_bounds (vertices s) f \<and> \<not> isTriangle f"
    and "\<forall>v < length (vertices s). referencing 0 (quads s) v \<noteq> []"
  shows "averageSmooth s (Some amount)
         = rebuildMeta (s\<lparr> vertices :=
             map (smoothed (vertices s) (quads s) amount) [0..<length (vertices s)] \<rparr>)"
proof -
  let ?vs = "vertices s" and ?fs = "quads s"
  have q: "\<forall>f \<in> set ?fs. in_bounds ?vs f \<and> i3 f \<noteq> None"
    using assms by (simp add: isTriangle_def)
  obtain conns where conns: "build_connections 0 ?fs (replicate (length ?vs) []) = Some conns"
      "length conns = length ?vs"
      "\<forall>u < length ?vs. conns ! u = referencing 0 ?fs u"
    using build_connections_quads [OF q, of "replicate (length ?vs) []" 0] by auto
  have "\<forall>k < length ?vs. smooth_vertex ?vs ?fs amount (conns ! k) (?vs ! k)
          = Some (smoothed ?vs ?fs amount k)"
  proof (intro allI impI)
    fix k assume k: "k < length ?vs"
    have "\<forall>c \<in> set (referencing 0 ?fs k).
            c < length ?fs \<and> in_bounds ?vs (?fs ! c) \<and> i3 (?fs ! c) \<noteq> None"
      using referencing_range [of _ 0 ?fs k] q by auto
    then show "smooth_vertex ?vs ?fs amount (conns ! k) (?vs ! k)
          = Some (smoothed ?vs ?fs amount k)"
      using conns(3) k by (simp add: smooth_vertex_quads smoothed_def)
  qed
  then have "smooth_vertices ?vs ?fs amount conns ?vs
      = Some (map (smoothed ?vs ?fs amount) [0..<length ?vs])"
    using conns(2) by (intro smooth_vertices_all) simp_all
  then show ?thesis
    using conns(1) by (simp add: averageSmooth_def Let_def)
qed

lemma smoothed_0: "smoothed vs fs 0 v = vs ! v"
  by (simp add: smoothed_def linearInterpolatePoints3d_def)

lemma smoothed_1:
  "smoothed vs fs 1 v = mean_points (map (\<lambda>j. quad_centroid vs (fs ! j)) (referencing 0 fs v))"
  by (simp add: smoothed_def linearInterpolatePoints3d_def)

text \<open>
  Any triangle face makes \<open>averageSmooth\<close> raise: the face is in the connections
  of its first vertex, and its centroid sum reads a fourth corner.
\<close>

lemma push_connection_grows:
  assumes "push_connection v i cs = Some cs'"
  shows "length cs' = length cs \<and> v < length cs \<and> i \<in> set (cs' ! v)
         \<and> (\<forall>u < length cs. set (cs ! u) \<subseteq> set (cs' ! u))"
  using assms
  by (auto simp: push_connection_def nth_list_update split: if_splits)

lemma connect_face_grows:
  assumes "connect_face i f cs = Some cs'"
  shows "length cs' = length cs \<and> i0 f < length cs \<and> i \<in> set (cs' ! i0 f)
         \<and> (\<forall>u < length cs. set (cs ! u) \<subseteq> set (cs' ! u))"
proof -
  obtain c0 c1 c2 where p: "push_connection (i0 f) i cs = Some c0"
      "push_connection (i1 f) i c0 = Some c1" "push_connection (i2 f) i c1 = Some c2"
      "(case i3 f of None \<Rightarrow> Some c2 | Some k \<Rightarrow> push_connection k i c2) = Some cs'"
    using assms by (auto simp: connect_face_def split: option.splits)
  note g0 = push_connection_grows [OF p(1)]
  note g1 = push_connection_grows [OF p(2)]
  note g2 = push_connection_grows [OF p(3)]
  have g3: "length cs' = length c2 \<and> (\<forall>u < length c2. set (c2 ! u) \<subseteq> set (cs' ! u))"
    using p(4) push_connection_grows by (cases "i3 f") auto
  have len: "length cs' = length cs" using g0 g1 g2 g3 by simp
  have sub: "\<forall>u < length cs. set (cs ! u) \<subseteq> set (cs' ! u)"
  proof (intro allI impI)
    fix u assume u: "u < length cs"
    have "set (cs ! u) \<subseteq> set (c0 ! u)" using g0 u by blast
    also have "\<dots> \<subseteq> set (c1 ! u)" using g0 g1 u by simp
    also have "\<dots> \<subseteq> set (c2 ! u)" using g0 g1 g2 u by simp
    also have "\<dots> \<subseteq> set (cs' ! u)" using g0 g1 g2 g3 u by simp
    finally show "set (cs ! u) \<subseteq> set (cs' ! u)" .
  qed
  have "i \<in> set (c0 ! i0 f)" using g0 by simp
  moreover have "set (c0 ! i0 f) \<subseteq> set (c1 ! i0 f)" using g0 g1 by simp
  moreover have "set (c1 ! i0 f) \<subseteq> set (c2 ! i0 f)" using g0 g1 g2 by simp
  moreover have "set (c2 ! i0 f) \<subseteq> set (cs' ! i0 f)" using g0 g1 g2 g3 by simp
  ultimately have "i \<in> set (cs' ! i0 f)" by blast
  then show ?thesis using len sub g0 by simp
qed

lemma build_connections_grows:
  assumes "build_connections i fs cs = Some cs'"
  shows "length cs' = length cs
         \<and> (\<forall>u < length cs. set (cs ! u) \<subseteq> set (cs' ! u))
         \<and> (\<forall>j < length fs. i0 (fs ! j) < length cs \<and> i + j \<in> set (cs' ! i0 (fs ! j)))"
  using assms
proof (induction fs arbitrary: i cs)
  case Nil
  then show ?case by simp
next
  case (Cons f fs)
  then obtain c1 where c1: "connect_face i f cs = Some c1"
      and rest: "build_connections (Suc i) fs c1 = Some cs'"
    by (auto split: option.splits)
  note g = connect_face_grows [OF c1]
  note ih = Cons.IH [OF rest]
  have len: "length cs' = length cs" using g ih by simp
  have sub: "\<forall>u < length cs. set (cs ! u) \<subseteq> set (cs' ! u)"
    using g ih by (metis subset_trans)
  have "\<forall>j < length (f # fs). i0 ((f # fs) ! j) < length cs
          \<and> i + j \<in> set (cs' ! i0 ((f # fs) ! j))"
  proof (intro allI impI)
    fix j assume j: "j < length (f # fs)"
    show "i0 ((f # fs) ! j) < length cs \<and> i + j \<in> set (cs' ! i0 ((f # fs) ! j))"
    proof (cases j)
      case 0
      then show ?thesis using g ih by auto
    next
      case (Suc j')
      then show ?thesis using j g ih by auto
    qed
  qed
  then show ?case using len sub by blast
qed

lemma sum_centroids_triangle:
  "c \<in> set cs \<Longrightarrow> i3 (fs ! c) = None \<Longrightarrow> sum_centroids vs fs cs avg = None"
proof (induction cs arbitrary: avg)
  case Nil
  then show ?case by simp
next
  case (Cons a cs)
  show ?case
  proof (cases "a = c")
    case True
    then show ?thesis using Cons.prems by (simp add: Let_def split: option.splits)
  next
    case False
    then have "sum_centroids vs fs cs avg' = None" for avg'
      using Cons by simp
    then show ?thesis by (simp add: Let_def split: option.splits)
  qed
qed

lemma smooth_vertices_none:
  "k < length css \<Longrightarrow> k < length ws \<Longrightarrow> smooth_vertex vs fs amount (css ! k) (ws ! k) = None
     \<Longrightarrow> smooth_vertices vs fs amount css ws = None"
proof (induction vs fs amount css ws arbitrary: k rule: smooth_vertices.induct)
  case (1 vs fs amount cs css v rest)
  then show ?case
    by (cases k) (auto split: option.splits)
qed simp_all

lemma averageSmooth_any_triangle_raises:
  assumes "f \<in> set (quads s)" and "isTriangle f"
  shows "averageSmooth s amount_arg = Throws TypeError s"
proof (cases "build_connections 0 (quads s) (replicate (length (vertices s)) [])")
  case None
  then show ?thesis by (simp add: averageSmooth_def Let_def)
next
  case (Some conns)
  obtain j where j: "j < length (quads s)" "quads s ! j = f"
    using assms(1) by (auto simp: in_set_conv_nth)
  note g = build_connections_grows [OF Some]
  let ?v = "i0 f"
  have v: "?v < length (vertices s)" and mem: "j \<in> set (conns ! ?v)"
    using g j by auto
  have len: "length conns = length (vertices s)"
    using g by simp
  have "sum_centroids (vertices s) (quads s) (conns ! ?v) avg = None" for avg
    using mem j assms(2) by (intro sum_centroids_triangle [of j]) (simp_all add: isTriangle_def)
  then have "smooth_vertex (vertices s) (quads s) amount (conns ! ?v) (vertices s ! ?v) = None"
    for amount
    by (simp add: smooth_vertex_def)
  then have "smooth_vertices (vertices s) (quads s) amount conns (vertices s) = None" for amount
    using v len by (intro smooth_vertices_none [of ?v]) simp_all
  then show ?thesis
    using Some by (simp add: averageSmooth_def Let_def)
qed

text \<open>
  Claim C3 counts shapes with triangle faces in. On a single triangle, every vertex of
  which is referenced by the face, \<open>averageSmooth\<close> does not move any vertex, for any
  amount: the centroid sum reads the fourth corner of the triangle, which does not
  exist, and the call raises a TypeError, leaving the shape as it was.
\<close>

theorem averageSmooth_triangle_raises:
  "averageSmooth example_triangle amount = Throws TypeError example_triangle"
  by (simp add: averageSmooth_def example_triangle_def connect_face_def push_connection_def
      array_get_def smooth_vertex_def Let_def numeral_3_eq_3)

subsection \<open>Subdividing the cube\<close>


text \<open>
  Claim C5. \<open>linearSubdivide\<close> applied to \<open>makeCube(1)\<close> returns a shape with
  exactly 24 faces, all quads, and exactly 26 pairwise different vertices: the 8 corners,
  then the 12 edge midpoints and the 6 face centres in the order in which they are made.
  Each edge midpoint occurs once and is used by the faces on both sides of its edge.
\<close>

theorem linearSubdivide_cube:
  "\<exists>s'. and_then (makeCube 1) linearSubdivide = Returns s'
      \<and> length (quads s') = 24
      \<and> length (vertices s') = 26
      \<and> distinct (vertices s')
      \<and> vertices s' =
          [\<lparr>px = 1, py = 1, pz = - 1\<rparr>, \<lparr>px = 1, py = 1, pz = 1\<rparr>,
           \<lparr>px = 1, py = - 1, pz = 1\<rparr>, \<lparr>px = 1, py = - 1, pz = - 1\<rparr>,
           \<lparr>px = - 1, py = 1, pz = - 1\<rparr>, \<lparr>px = - 1, py = 1, pz = 1\<rparr>,
           \<lparr>px = - 1, py = - 1, pz = 1\<rparr>, \<lparr>px = - 1, py = - 1, pz = - 1\<rparr>,
           \<lparr>px = 1, py = 1, pz = 0\<rparr>, \<lparr>px = 1, py = 0, pz = 1\<rparr>,
           \<lparr>px = 1, py = - 1, pz = 0\<rparr>, \<lparr>px = 1, py = 0, pz = - 1\<rparr>,
           \<lparr>px = 1, py = 0, pz = 0\<rparr>, \<lparr>px = 0, py = 1, pz = 1\<rparr>,
           \<lparr>px = - 1, py = 0, pz = 1\<rparr>, \<lparr>px = 0, py = - 1, pz = 1\<rparr>,
           \<lparr>px = 0, py = 0, pz = 1\<rparr>, \<lparr>px = - 1, py = 1, pz = 0\<rparr>,
           \<lparr>px = - 1, py = 0, pz = - 1\<rparr>, \<lparr>px = - 1, py = - 1, pz = 0\<rparr>,
           \<lparr>px = - 1, py = 0, pz = 0\<rparr>, \<lparr>px = 0, py = 1, pz = - 1\<rparr>,
           \<lparr>px = 0, py = - 1, pz = - 1\<rparr>, \<lparr>px = 0, py = 0, pz = - 1\<rparr>,
           \<lparr>px = 0, py = 1, pz = 0\<rparr>, \<lparr>px = 0, py = - 1, pz = 0\<rparr>]
      \<and> map indices (quads s') =
          [(0, 8, 12, Some 11), (1, 13, 16, Some 9), (5, 17, 20, Some 14),
           (4, 21, 23, Some 18), (0, 21, 24, Some 8), (2, 15, 25, Some 10),
           (8, 1, 9, Some 12), (12, 9, 2, Some 10), (11, 12, 10, Some 3),
           (13, 5, 14, Some 16), (16, 14, 6, Some 15), (9, 16, 15, Some 2),
           (17, 4, 18, Some 20), (20, 18, 7, Some 19), (14, 20, 19, Some 6),
           (21, 0, 11, Some 23), (23, 11, 3, Some 22), (18, 23, 22, Some 7),
           (21, 4, 17, Some 24), (24, 17, 5, Some 13), (8, 24, 13, Some 1),
           (15, 6, 19, Some 25), (25, 19, 7, Some 22), (10, 25, 22, Some 3)]"
  by (simp add: makeCube_def makeBox_def Shape_new_def rebuildMeta_def rebuildMeta_face_def
      linearSubdivide_def upt_rec linearSubdivide_face_def centroid_index_def
      js_sort_def js_toString_def digit_char_def vertex_at_def array_get_def
      averagePoints_def addPoints3d_def mulPoint3d_def subPoints3d_def crossProduct_def
      QuadFace_new_def indices_def Let_def)

subsection \<open>Extruding a face of the cube\<close>


lemma rebuildMeta_face_idem:
  "rebuildMeta_face vs f = Some g \<Longrightarrow> rebuildMeta_face vs g = Some g \<and> in_bounds vs g"
  by (auto simp: rebuildMeta_face_def in_bounds_def array_get_def Let_def
      split: option.splits if_splits)

lemma rebuildMeta_loop_valid:
  "rebuildMeta_loop vs fs = Returns gs \<Longrightarrow>
     \<forall>g \<in> set gs. in_bounds vs g \<and> rebuildMeta_face vs g = Some g"
proof (induction fs arbitrary: gs)
  case Nil
  then show ?case by simp
next
  case (Cons f fs)
  then show ?case
    using rebuildMeta_face_idem
    by (auto split: option.splits outcome.splits)
qed

lemma rebuildMeta_valid_meta: "rebuildMeta s = Returns s' \<Longrightarrow> valid_meta s'"
  using rebuildMeta_loop_valid [of "vertices s" "quads s"]
  by (auto simp: rebuildMeta_def valid_meta_def split: outcome.splits)

theorem extrude_single_quad_three_steps_witness:
  "\<exists>s'. and_then (makeCube 1)
           (extrude (set_count (selectCustom Extruder_new (\<lambda>shape quad_index. quad_index = 0)) 3))
         = Returns s'
      \<and> length (vertices s') = 20
      \<and> length (quads s') = 18
      \<and> indices (quads s' ! 0) = (16, 17, 18, Some 19)
      \<and> indices (quads s' ! 1) = (1, 5, 6, Some 2)
      \<and> indices (quads s' ! 6) = (1, 9, 8, Some 0)
      \<and> indices (quads s' ! 17) = (12, 16, 19, Some 15)"
proof -
  let ?e = "set_count (selectCustom Extruder_new (\<lambda>shape quad_index. quad_index = 0)) 3"
  let ?raw = "Shape_new\<lparr> vertices :=
                     [\<lparr> px = 1, py = 1, pz = - 1 \<rparr>,
                      \<lparr> px = 1, py = 1, pz = 1 \<rparr>,
                      \<lparr> px = 1, py = - 1, pz = 1 \<rparr>,
                      \<lparr> px = 1, py = - 1, pz = - 1 \<rparr>,
                      \<lparr> px = - 1, py = 1, pz = - 1 \<rparr>,
                      \<lparr> px = - 1, py = 1, pz = 1 \<rparr>,
                      \<lparr> px = - 1, py = - 1, pz = 1 \<rparr>,
                      \<lparr> px = - 1, py = - 1, pz = - 1 \<rparr>],
                   quads :=
                     [QuadFace_new 0 1 2 (Some 3),
                      QuadFace_new 1 5 6 (Some 2),
                      QuadFace_new 5 4 7 (Some 6),
                      QuadFace_new 4 0 3 (Some 7),
                      QuadFace_new 0 4 5 (Some 1),
                      QuadFace_new 2 6 7 (Some 3)] \<rparr>"
  have mk: "makeCube 1 = rebuildMeta ?raw"
    by (simp add: makeCube_def makeBox_def)
  have "\<forall>f \<in> set (quads ?raw). in_bounds (vertices ?raw) f"
    by (simp add: Shape_new_def in_bounds_def QuadFace_new_def)
  then obtain cube where cube: "rebuildMeta ?raw = Returns cube"
    using rebuildMeta_returns by blast
  have vm: "valid_meta cube"
    using cube by (rule rebuildMeta_valid_meta)
  have idx: "map indices (quads cube)
      = [(0, 1, 2, Some 3), (1, 5, 6, Some 2), (5, 4, 7, Some 6),
         (4, 0, 3, Some 7), (0, 4, 5, Some 1), (2, 6, 7, Some 3)]"
    using rebuildMeta_indices [of ?raw] cube
    by (simp add: Shape_new_def indices_def QuadFace_new_def)
  then have "length (map indices (quads cube)) = 6"
    by simp
  then have len: "length (quads cube) = 6"
    by simp
  have nv: "length (vertices cube) = 8"
    using rebuildMeta_vertices [of ?raw] cube by (simp add: Shape_new_def)
  have "indices (quads cube ! 0) = map indices (quads cube) ! 0"
    using len by simp
  then have f0: "indices (quads cube ! 0) = (0, 1, 2, Some 3)"
    using idx by simp
  then have quad: "\<not> isTriangle (quads cube ! 0)"
    by (simp add: indices_def isTriangle_def)
  have sel: "filter (selector ?e cube) [0..<length (quads cube)] = [0]"
    by (simp add: len set_count_def selectCustom_def Extruder_new_def upt_rec)
  have cnt: "e_count ?e = 3"
    by (simp add: set_count_def)
  obtain s' where s': "extrude ?e cube = Returns s'"
      "length (vertices s') = length (vertices cube) + 12"
      "map indices (quads s')
         = (map indices (quads cube))
             [0 := (length (vertices cube) + 8, length (vertices cube) + 9,
                    length (vertices cube) + 10, Some (length (vertices cube) + 11))]
           @ (let n = length (vertices cube); a = i0 (quads cube ! 0); b = i1 (quads cube ! 0);
                  c = i2 (quads cube ! 0); d = the (i3 (quads cube ! 0))
              in [(b, n + 1, n, Some a), (c, n + 2, n + 1, Some b),
                  (d, n + 3, n + 2, Some c), (a, n, n + 3, Some d),
                  (n + 1, n + 5, n + 4, Some n), (n + 2, n + 6, n + 5, Some (n + 1)),
                  (n + 3, n + 7, n + 6, Some (n + 2)), (n, n + 4, n + 7, Some (n + 3)),
                  (n + 5, n + 9, n + 8, Some (n + 4)), (n + 6, n + 10, n + 9, Some (n + 5)),
                  (n + 7, n + 11, n + 10, Some (n + 6)), (n + 4, n + 8, n + 11, Some (n + 7))])"
    using extrude_single_quad_three_steps [OF vm sel quad cnt] by blast
  have abcd: "i0 (quads cube ! 0) = 0" "i1 (quads cube ! 0) = 1" "i2 (quads cube ! 0) = 2"
      "i3 (quads cube ! 0) = Some 3"
    using f0 by (simp_all add: indices_def)
  have all: "map indices (quads s')
      = [(16, 17, 18, Some 19), (1, 5, 6, Some 2), (5, 4, 7, Some 6),
         (4, 0, 3, Some 7), (0, 4, 5, Some 1), (2, 6, 7, Some 3),
         (1, 9, 8, Some 0), (2, 10, 9, Some 1), (3, 11, 10, Some 2), (0, 8, 11, Some 3),
         (9, 13, 12, Some 8), (10, 14, 13, Some 9), (11, 15, 14, Some 10), (8, 12, 15, Some 11),
         (13, 17, 16, Some 12), (14, 18, 17, Some 13), (15, 19, 18, Some 14),
         (12, 16, 19, Some 15)]"
    using s'(3) by (simp add: idx nv abcd Let_def)
  then have "length (map indices (quads s')) = 18"
    by simp
  then have len': "length (quads s') = 18"
    by simp
  have nth: "indices (quads s' ! j) = map indices (quads s') ! j" if "j < 18" for j
    using that len' by simp
  have "indices (quads s' ! 0) = (16, 17, 18, Some 19)"
    "indices (quads s' ! 1) = (1, 5, 6, Some 2)"
    "indices (quads s' ! 6) = (1, 9, 8, Some 0)"
    "indices (quads s' ! 17) = (12, 16, 19, Some 15)"
    by (simp_all add: nth all)
  then show ?thesis
    using mk cube s'(1,2) nv len' by simp
qed

end
